theory Spec2Isabelle
  imports Complex_Main "HOL-Library.Word" "HOL-Library.Signed_Division" "HOL-Library.Multiset"
    "HOL-Library.Sublist"
begin

unbundle bit_operations_syntax

chapter \<open>Model of the terrain streaming core\<close>

text \<open>
  Conventions of the embedding.
  \<^item> \<open>int32_t\<close> and \<open>uint32_t\<close> are 32-bit words, \<open>size_t\<close> and \<open>VkDeviceSize\<close> are 64-bit
    words; \<open>+\<close>, \<open>-\<close> and \<open>*\<close> wrap. A signed value is read with \<open>sint\<close>, and C++ signed
    division (which truncates towards zero) is \<open>sdiv\<close> on the signed reading.
  \<^item> \<open>float\<close>, \<open>glm::vec3\<close> and \<open>glm::vec4\<close> hold real numbers, and their arithmetic is exact,
    with one exception: the plane test of the frustum, which decides by the sign of a sum
    of products, is evaluated in IEEE 754 single precision, with rounding, infinities and
    NaN.
  \<^item> A \<open>std::mutex\<close> is a flag that is set while the calling thread owns it. Locking a
    \<open>std::mutex\<close> that the calling thread already owns never returns (the C++ standard leaves
    it undefined, the usual implementations block forever); an operation that does not
    return has the value \<open>None\<close>.
  \<^item> Calls into Vulkan and the memory allocator library are inputs of the model: their
    result codes and the handles they hand out are parameters of the operation that makes
    the call.
\<close>

section \<open>Scalars and vectors\<close>

type_synonym int32 = "32 word"
type_synonym uint32 = "32 word"
type_synonym size_t = "64 word"

datatype VkResult =
    VK_SUCCESS
  | VK_TIMEOUT
  | VK_ERROR_INITIALIZATION_FAILED
  | VK_ERROR_FEATURE_NOT_PRESENT
  | VK_ERROR_OUT_OF_DEVICE_MEMORY
  | VK_ERROR_OUT_OF_HOST_MEMORY
  | VK_ERROR_VALIDATION_FAILED_EXT
  | VK_ERROR_UNKNOWN

datatype vec3 = Vec3 (vx: real) (vy: real) (vz: real)

datatype vec4 = Vec4 (px: real) (py: real) (pz: real) (pw: real)

definition vec3_sub :: "vec3 \<Rightarrow> vec3 \<Rightarrow> vec3" where
  "vec3_sub a b = Vec3 (vx a - vx b) (vy a - vy b) (vz a - vz b)"

definition vec3_add :: "vec3 \<Rightarrow> vec3 \<Rightarrow> vec3" where
  "vec3_add a b = Vec3 (vx a + vx b) (vy a + vy b) (vz a + vz b)"

definition vec3_scale :: "vec3 \<Rightarrow> real \<Rightarrow> vec3" where
  "vec3_scale a k = Vec3 (vx a * k) (vy a * k) (vz a * k)"

definition dot :: "vec3 \<Rightarrow> vec3 \<Rightarrow> real" where
  "dot a b = vx a * vx b + vy a * vy b + vz a * vz b"

definition cross :: "vec3 \<Rightarrow> vec3 \<Rightarrow> vec3" where
  "cross a b = Vec3 (vy a * vz b - vz a * vy b) (vz a * vx b - vx a * vz b)
                    (vx a * vy b - vy a * vx b)"

definition glm_length :: "vec3 \<Rightarrow> real" where
  "glm_length a = sqrt (dot a a)"

definition normalize :: "vec3 \<Rightarrow> vec3" where
  "normalize a = vec3_scale a (1 / sqrt (dot a a))"

text \<open>\<open>glm::vec3(plane)\<close>: the first three components of a \<open>vec4\<close>.\<close>

definition vec3_of :: "vec4 \<Rightarrow> vec3" where
  "vec3_of p = Vec3 (px p) (py p) (pz p)"

section \<open>Single-precision arithmetic\<close>

text \<open>
  The value of a \<open>float\<close> expression: a real number, an infinity or NaN. The two zeros are
  not told apart; no operation below divides.
\<close>

datatype float32 = Finite real | PosInf | NegInf | NaN

text \<open>
  Rounding to the nearest \<open>float\<close>, ties to even. A positive real \<open>a\<close> with
  \<open>2^e \<le> a < 2^(e+1)\<close> is rounded to a multiple of \<open>2^(e-23)\<close>, a \<open>float\<close> having 24
  significant bits, and to a multiple of \<open>2^(-149)\<close> if that is larger (the subnormal range).
  A result of \<open>2^128\<close> or more is an overflow and gives an infinity.
\<close>

definition pow2 :: "int \<Rightarrow> real" where
  "pow2 e = (if 0 \<le> e then 2 ^ nat e else 1 / 2 ^ nat (- e))"

definition round_even :: "real \<Rightarrow> int" where
  "round_even yr =
     (let f = \<lfloor>yr\<rfloor>; d = yr - of_int f
      in if d < 1 / 2 then f else if 1 / 2 < d then f + 1 else if even f then f else f + 1)"

definition round_magnitude :: "real \<Rightarrow> real" where
  "round_magnitude a =
     (let e = \<lfloor>log 2 a\<rfloor>; u = pow2 (max (e - 23) (- 149))
      in of_int (round_even (a / u)) * u)"

definition round32 :: "real \<Rightarrow> float32" where
  "round32 xr =
     (if xr = 0 then Finite 0
      else
        (let r = round_magnitude \<bar>xr\<bar>
         in if 2 ^ 128 \<le> r then (if 0 < xr then PosInf else NegInf)
            else Finite (if 0 < xr then r else - r)))"

text \<open>
  Multiplication and addition round the exact result; every operation is rounded on its
  own (no fused multiply-add, no wider intermediate format). The factors of a product
  below are always finite.
\<close>

definition float_mul :: "real \<Rightarrow> real \<Rightarrow> float32" where
  "float_mul a b = round32 (a * b)"

fun float_add :: "float32 \<Rightarrow> float32 \<Rightarrow> float32" where
  "float_add (Finite a) (Finite b) = round32 (a + b)"
| "float_add NaN _ = NaN"
| "float_add _ NaN = NaN"
| "float_add PosInf NegInf = NaN"
| "float_add NegInf PosInf = NaN"
| "float_add PosInf _ = PosInf"
| "float_add _ PosInf = PosInf"
| "float_add NegInf _ = NegInf"
| "float_add _ NegInf = NegInf"

text \<open>The comparisons \<open><\<close> and \<open><=\<close>; both are false when an operand is NaN.\<close>

fun float_less :: "float32 \<Rightarrow> float32 \<Rightarrow> bool" where
  "float_less (Finite a) (Finite b) = (a < b)"
| "float_less (Finite a) PosInf = True"
| "float_less NegInf (Finite b) = True"
| "float_less NegInf PosInf = True"
| "float_less _ _ = False"

fun float_le :: "float32 \<Rightarrow> float32 \<Rightarrow> bool" where
  "float_le (Finite a) (Finite b) = (a \<le> b)"
| "float_le (Finite a) PosInf = True"
| "float_le NegInf (Finite b) = True"
| "float_le NegInf PosInf = True"
| "float_le PosInf PosInf = True"
| "float_le NegInf NegInf = True"
| "float_le _ _ = False"

text \<open>
  \<open>glm::dot\<close> of two \<open>vec3\<close> multiplies component by component and returns
  \<open>tmp.x + tmp.y + tmp.z\<close>.
\<close>

definition float_dot :: "vec3 \<Rightarrow> vec3 \<Rightarrow> float32" where
  "float_dot a b =
     float_add (float_add (float_mul (vx a) (vx b)) (float_mul (vy a) (vy b)))
       (float_mul (vz a) (vz b))"

section \<open>Tile coordinates (terrain\_tile.hpp)\<close>

record TileCoordinate =
  x :: int32
  y :: int32
  level :: uint32
  datasetId :: string

text \<open>\<open>a / b\<close> on \<open>int32_t\<close>: the quotient truncated towards zero.\<close>

definition int32_div :: "int32 \<Rightarrow> int32 \<Rightarrow> int32" where
  "int32_div a b = word_of_int (sint a sdiv sint b)"

definition getParent :: "TileCoordinate \<Rightarrow> TileCoordinate" where
  "getParent c =
     \<lparr> x = int32_div (x c) 2, y = int32_div (y c) 2, level = level c + 1,
       datasetId = datasetId c \<rparr>"

definition getChildren :: "TileCoordinate \<Rightarrow> TileCoordinate list" where
  "getChildren c =
     (if level c = 0 then []
      else
        [ \<lparr> x = x c * 2,     y = y c * 2,     level = level c - 1, datasetId = datasetId c \<rparr>,
          \<lparr> x = x c * 2 + 1, y = y c * 2,     level = level c - 1, datasetId = datasetId c \<rparr>,
          \<lparr> x = x c * 2,     y = y c * 2 + 1, level = level c - 1, datasetId = datasetId c \<rparr>,
          \<lparr> x = x c * 2 + 1, y = y c * 2 + 1, level = level c - 1, datasetId = datasetId c \<rparr> ])"

section \<open>Bounds and the frustum test (terrain\_tile.hpp, terrain\_renderer.hpp)\<close>

text \<open>
  \<open>TerrainBounds\<close> is \<open>{min, max}\<close>; \<open>TileBounds\<close> has the same two corners and an elevation
  range, so it is modelled as an extension of \<open>TerrainBounds\<close>. The fields are named
  \<open>min_b\<close> and \<open>max_b\<close> because \<open>min\<close> and \<open>max\<close> are functions of HOL.
\<close>

record TerrainBounds =
  min_b :: vec3
  max_b :: vec3

record TileBounds = TerrainBounds +
  minElevation :: real
  maxElevation :: real

definition center :: "'a TerrainBounds_scheme \<Rightarrow> vec3" where
  "center b = vec3_scale (vec3_add (min_b b) (max_b b)) 0.5"

definition contains :: "'a TerrainBounds_scheme \<Rightarrow> vec3 \<Rightarrow> bool" where
  "contains b point \<longleftrightarrow>
     vx point \<ge> vx (min_b b) \<and> vx point \<le> vx (max_b b) \<and>
     vy point \<ge> vy (min_b b) \<and> vy point \<le> vy (max_b b) \<and>
     vz point \<ge> vz (min_b b) \<and> vz point \<le> vz (max_b b)"

text \<open>
  \<open>TerrainTile::isVisible\<close> and \<open>Frustum::intersects(const TerrainBounds&)\<close> run the same loop
  over the six planes. Its body picks the positive vertex and tests it against the plane;
  the loop returns \<open>false\<close> at the first plane that has the positive vertex behind it.
  An array \<open>glm::vec4 planes[6]\<close> is a function from the index to the plane.
\<close>

definition positiveVertex :: "vec3 \<Rightarrow> vec3 \<Rightarrow> vec3 \<Rightarrow> vec3" where
  "positiveVertex normal bmin bmax =
     Vec3 (if vx normal \<ge> 0 then vx bmax else vx bmin)
          (if vy normal \<ge> 0 then vy bmax else vy bmin)
          (if vz normal \<ge> 0 then vz bmax else vz bmin)"

text \<open>
  The test \<open>glm::dot(normal, positiveVertex) + distance < 0\<close> is a \<open>float\<close> computation: three
  products, three sums and a comparison.
\<close>

definition behind_plane :: "vec4 \<Rightarrow> vec3 \<Rightarrow> vec3 \<Rightarrow> bool" where
  "behind_plane plane bmin bmax =
     (let normal = vec3_of plane;
          distance = pw plane
      in float_less
           (float_add (float_dot normal (positiveVertex normal bmin bmax)) (Finite distance))
           (Finite 0))"

fun planes_loop :: "(nat \<Rightarrow> vec4) \<Rightarrow> vec3 \<Rightarrow> vec3 \<Rightarrow> nat list \<Rightarrow> bool" where
  "planes_loop planes bmin bmax [] = True"
| "planes_loop planes bmin bmax (i # is) =
     (if behind_plane (planes i) bmin bmax then False
      else planes_loop planes bmin bmax is)"

definition Frustum_intersects :: "(nat \<Rightarrow> vec4) \<Rightarrow> 'a TerrainBounds_scheme \<Rightarrow> bool" where
  "Frustum_intersects planes bounds =
     planes_loop planes (min_b bounds) (max_b bounds) [0..<6]"

section \<open>Camera and frustum extraction (terrain\_renderer.cpp)\<close>

text \<open>
  A \<open>glm::mat4\<close> is read as \<open>m[column][row]\<close>. The three functions \<open>glm::lookAt\<close>,
  \<open>glm::perspective\<close> and \<open>glm::radians\<close> belong to the GLM library, not to the repository;
  they are written here after GLM's reference implementation in its default configuration
  (right-handed, clip-space depth from -1 to 1; the repository defines no \<open>GLM_FORCE_*\<close>
  macro).
\<close>

type_synonym mat4 = "nat \<Rightarrow> nat \<Rightarrow> real"

definition mat4_mul :: "mat4 \<Rightarrow> mat4 \<Rightarrow> mat4" where
  "mat4_mul a b = (\<lambda>c r. a 0 r * b c 0 + a 1 r * b c 1 + a 2 r * b c 2 + a 3 r * b c 3)"

definition radians :: "real \<Rightarrow> real" where
  "radians degrees = degrees * (pi / 180)"

definition lookAt :: "vec3 \<Rightarrow> vec3 \<Rightarrow> vec3 \<Rightarrow> mat4" where
  "lookAt eye centre up =
     (let f = normalize (vec3_sub centre eye);
          s = normalize (cross f up);
          u = cross s f
      in (\<lambda>c r.
            if r = 0 then (if c = 0 then vx s else if c = 1 then vy s else if c = 2 then vz s
                           else - dot s eye)
            else if r = 1 then (if c = 0 then vx u else if c = 1 then vy u
                           else if c = 2 then vz u else - dot u eye)
            else if r = 2 then (if c = 0 then - vx f else if c = 1 then - vy f
                           else if c = 2 then - vz f else dot f eye)
            else (if c = 3 then 1 else 0)))"

definition perspective :: "real \<Rightarrow> real \<Rightarrow> real \<Rightarrow> real \<Rightarrow> mat4" where
  "perspective fovy aspect_ratio zNear zFar =
     (let tanHalfFovy = tan (fovy / 2)
      in (\<lambda>c r.
            if c = 0 \<and> r = 0 then 1 / (aspect_ratio * tanHalfFovy)
            else if c = 1 \<and> r = 1 then 1 / tanHalfFovy
            else if c = 2 \<and> r = 2 then - (zFar + zNear) / (zFar - zNear)
            else if c = 2 \<and> r = 3 then - 1
            else if c = 3 \<and> r = 2 then - (2 * zFar * zNear) / (zFar - zNear)
            else 0))"

record TerrainCamera =
  position :: vec3
  direction :: vec3
  up :: vec3
  fov :: real
  nearPlane :: real
  farPlane :: real
  aspect :: real

text \<open>The default member initialisers of \<open>TerrainCamera\<close>.\<close>

definition TerrainCamera_default :: TerrainCamera where
  "TerrainCamera_default =
     \<lparr> position = Vec3 0 0 0, direction = Vec3 0 0 (- 1), up = Vec3 0 1 0, fov = 45,
       nearPlane = 0.1, farPlane = 10000, aspect = 1 \<rparr>"

definition getViewMatrix :: "TerrainCamera \<Rightarrow> mat4" where
  "getViewMatrix cam = lookAt (position cam) (vec3_add (position cam) (direction cam)) (up cam)"

definition getProjectionMatrix :: "TerrainCamera \<Rightarrow> mat4" where
  "getProjectionMatrix cam =
     perspective (radians (fov cam)) (aspect cam) (nearPlane cam) (farPlane cam)"

definition getViewProjectionMatrix :: "TerrainCamera \<Rightarrow> mat4" where
  "getViewProjectionMatrix cam = mat4_mul (getProjectionMatrix cam) (getViewMatrix cam)"

text \<open>\<open>planes[i] /= length\<close> with \<open>length = glm::length(glm::vec3(planes[i]))\<close>.\<close>

definition normalize_plane :: "vec4 \<Rightarrow> vec4" where
  "normalize_plane p =
     (let len = glm_length (vec3_of p)
      in Vec4 (px p / len) (py p / len) (pz p / len) (pw p / len))"

text \<open>
  \<open>Frustum::update\<close> first extracts the left, right, bottom, top, near and far plane from
  the matrix and then normalises the six planes in a loop.
\<close>

definition extract_plane :: "mat4 \<Rightarrow> nat \<Rightarrow> vec4" where
  "extract_plane m i =
     (if i = 0 then Vec4 (m 0 3 + m 0 0) (m 1 3 + m 1 0) (m 2 3 + m 2 0) (m 3 3 + m 3 0)
      else if i = 1 then Vec4 (m 0 3 - m 0 0) (m 1 3 - m 1 0) (m 2 3 - m 2 0) (m 3 3 - m 3 0)
      else if i = 2 then Vec4 (m 0 3 + m 0 1) (m 1 3 + m 1 1) (m 2 3 + m 2 1) (m 3 3 + m 3 1)
      else if i = 3 then Vec4 (m 0 3 - m 0 1) (m 1 3 - m 1 1) (m 2 3 - m 2 1) (m 3 3 - m 3 1)
      else if i = 4 then Vec4 (m 0 3 + m 0 2) (m 1 3 + m 1 2) (m 2 3 + m 2 2) (m 3 3 + m 3 2)
      else Vec4 (m 0 3 - m 0 2) (m 1 3 - m 1 2) (m 2 3 - m 2 2) (m 3 3 - m 3 2))"

definition Frustum_update :: "mat4 \<Rightarrow> (nat \<Rightarrow> vec4)" where
  "Frustum_update m = (\<lambda>i. normalize_plane (extract_plane m i))"

section \<open>Terrain tiles (terrain\_tile.hpp, terrain\_tile.cpp)\<close>

datatype TileState = Empty | Loading | Loaded | Uploading | Ready | Error | Evicted

record TileCPUData =
  heightData :: "real list"
  normalData :: "real list"
  textureData :: "8 word list"
  width :: uint32
  height :: uint32
  heightScale :: real

text \<open>\<open>TileCPUData::getMemoryUsage\<close>, with \<open>sizeof(float) = 4\<close> and \<open>sizeof(uint8_t) = 1\<close>.\<close>

definition cpu_getMemoryUsage :: "TileCPUData \<Rightarrow> size_t" where
  "cpu_getMemoryUsage d =
     of_nat (length (heightData d)) * 4 + of_nat (length (normalData d)) * 4
       + of_nat (length (textureData d)) * 1"

definition cpu_clear :: "TileCPUData \<Rightarrow> TileCPUData" where
  "cpu_clear d = d\<lparr> heightData := [], normalData := [], textureData := [] \<rparr>"

text \<open>Vulkan handles are numbers; \<open>VK_NULL_HANDLE\<close> is 0.\<close>

record TileGPUResources =
  vertexBuffer :: nat
  vertexMemory :: nat
  vertexCount :: uint32
  indexBuffer :: nat
  indexMemory :: nat
  indexCount :: uint32
  heightTexture :: nat
  heightTextureMemory :: nat
  heightTextureView :: nat
  normalTexture :: nat
  normalTextureMemory :: nat
  normalTextureView :: nat
  descriptorSet :: nat
  totalMemoryUsage :: size_t

definition gpu_isValid :: "TileGPUResources \<Rightarrow> bool" where
  "gpu_isValid g \<longleftrightarrow> vertexBuffer g \<noteq> 0 \<and> heightTexture g \<noteq> 0"

definition gpu_destroy :: "TileGPUResources \<Rightarrow> TileGPUResources" where
  "gpu_destroy g =
     g\<lparr> vertexBuffer := 0, vertexMemory := 0, indexBuffer := 0, indexMemory := 0,
        heightTextureView := 0, heightTexture := 0, heightTextureMemory := 0,
        normalTextureView := 0, normalTexture := 0, normalTextureMemory := 0,
        totalMemoryUsage := 0 \<rparr>"

text \<open>
  The tile. The load timestamps and the weak references to neighbours, parent and children
  are left out: no operation below reads them. \<open>m_mutex\<close> is true while the calling thread
  owns the tile's \<open>std::mutex\<close>.
\<close>

record TerrainTile =
  m_coordinate :: TileCoordinate
  m_state :: TileState
  m_bounds :: TileBounds
  m_cpuData :: TileCPUData
  m_gpuResources :: TileGPUResources
  m_priority :: real
  m_framesSinceAccess :: uint32
  m_lastDistanceToCamera :: real
  m_errorMessage :: string
  m_mutex :: bool

text \<open>
  \<open>calculateBounds\<close>: \<open>tileSize = 1000.0f / std::pow(2.0f, level)\<close>; the integer coordinates
  are converted to \<open>float\<close>, \<open>x + 1\<close> is computed in \<open>int32_t\<close>.
\<close>

definition calculateBounds :: "TileCoordinate \<Rightarrow> TileBounds" where
  "calculateBounds c =
     (let tileSize = 1000 / 2 ^ unat (level c)
      in \<lparr> min_b = Vec3 (real_of_int (sint (x c)) * tileSize) 0
                        (real_of_int (sint (y c)) * tileSize),
           max_b = Vec3 (real_of_int (sint (x c + 1)) * tileSize) 200
                        (real_of_int (sint (y c + 1)) * tileSize),
           minElevation = 0, maxElevation = 0 \<rparr>)"

text \<open>The constructor \<open>TerrainTile(coordinate)\<close> with the default member initialisers.\<close>

definition TerrainTile_new :: "TileCoordinate \<Rightarrow> TerrainTile" where
  "TerrainTile_new c =
     \<lparr> m_coordinate = c, m_state = Empty, m_bounds = calculateBounds c,
       m_cpuData = \<lparr> heightData = [], normalData = [], textureData = [],
                     width = 0, height = 0, heightScale = 1 \<rparr>,
       m_gpuResources = \<lparr> vertexBuffer = 0, vertexMemory = 0, vertexCount = 0,
                          indexBuffer = 0, indexMemory = 0, indexCount = 0,
                          heightTexture = 0, heightTextureMemory = 0, heightTextureView = 0,
                          normalTexture = 0, normalTextureMemory = 0, normalTextureView = 0,
                          descriptorSet = 0, totalMemoryUsage = 0 \<rparr>,
       m_priority = 0, m_framesSinceAccess = 0, m_lastDistanceToCamera = 0,
       m_errorMessage = [], m_mutex = False \<rparr>"

definition setState :: "TileState \<Rightarrow> TerrainTile \<Rightarrow> TerrainTile" where
  "setState newState t = t\<lparr> m_state := newState \<rparr>"

definition setError :: "string \<Rightarrow> TerrainTile \<Rightarrow> TerrainTile" where
  "setError errorMessage t = setState Error (t\<lparr> m_errorMessage := errorMessage \<rparr>)"

text \<open>
  \<open>std::lock_guard<std::mutex> lock(m_mutex)\<close> around a body: the guard is taken at entry
  and released when the body returns. Taking it while the calling thread already owns the
  mutex does not return.
\<close>

definition lock_guard ::
  "(TerrainTile \<Rightarrow> ('r \<times> TerrainTile) option) \<Rightarrow> TerrainTile \<Rightarrow> ('r \<times> TerrainTile) option"
where
  "lock_guard body t =
     (if m_mutex t then None
      else (case body (t\<lparr> m_mutex := True \<rparr>) of
              None \<Rightarrow> None
            | Some (r, t') \<Rightarrow> Some (r, t'\<lparr> m_mutex := False \<rparr>)))"

definition loadFromCache :: "TerrainTile \<Rightarrow> VkResult \<times> TerrainTile" where
  "loadFromCache t = (VK_ERROR_FEATURE_NOT_PRESENT, t)"

text \<open>
  \<open>loadFromDisk\<close> ignores the path and fills the tile with a synthetic 512 x 512 height
  field, row by row, then takes the elevation range from it.
\<close>

definition DEFAULT_TILE_SIZE :: nat where
  "DEFAULT_TILE_SIZE = 512"

definition synthetic_height :: "nat \<Rightarrow> nat \<Rightarrow> nat \<Rightarrow> real" where
  "synthetic_height n col row =
     (let fx = real col / real n; fy = real row / real n
      in sin (fx * 6.28) * sin (fy * 6.28) * 50 + sin (fx * 12.56) * sin (fy * 12.56) * 25)"

definition synthetic_heights :: "nat \<Rightarrow> real list" where
  "synthetic_heights n =
     concat (map (\<lambda>row. map (\<lambda>col. synthetic_height n col row) [0..<n]) [0..<n])"

definition loadFromDisk :: "string \<Rightarrow> TerrainTile \<Rightarrow> VkResult \<times> TerrainTile" where
  "loadFromDisk dataPath t =
     (let hs = synthetic_heights DEFAULT_TILE_SIZE;
          cpu = (m_cpuData t)\<lparr> width := of_nat DEFAULT_TILE_SIZE,
                                height := of_nat DEFAULT_TILE_SIZE,
                                heightScale := 100, heightData := hs \<rparr>;
          lo = Min (set hs); hi = Max (set hs);
          b = m_bounds t;
          b' = b\<lparr> min_b := Vec3 (vx (min_b b)) lo (vz (min_b b)),
                  max_b := Vec3 (vx (max_b b)) hi (vz (max_b b)),
                  minElevation := lo, maxElevation := hi \<rparr>
      in (VK_SUCCESS, t\<lparr> m_cpuData := cpu, m_bounds := b' \<rparr>))"

definition loadData :: "string \<Rightarrow> TerrainTile \<Rightarrow> (VkResult \<times> TerrainTile) option" where
  "loadData dataPath =
     lock_guard (\<lambda>t.
       if m_state t \<noteq> Empty then Some (VK_ERROR_INITIALIZATION_FAILED, t)
       else
         (let t1 = setState Loading t;
              (result, t2) = loadFromCache t1
          in if result = VK_SUCCESS then Some (VK_SUCCESS, setState Loaded t2)
             else
               (let (result', t3) = loadFromDisk dataPath t2
                in if result' \<noteq> VK_SUCCESS
                   then Some (result', setError ''Failed to load tile data from disk'' t3)
                   else Some (VK_SUCCESS, setState Loaded t3))))"

text \<open>
  What the Vulkan layer answers during one \<open>uploadToGPU\<close>: the result code of each call and
  the handle it writes.
\<close>

record UploadEnv =
  vertex_createBuffer :: VkResult
  vertex_buffer :: nat
  vertex_memory :: nat
  vertex_uploadBufferData :: VkResult
  staging_createBuffer :: VkResult
  image_vkCreateImage :: VkResult
  image_handle :: nat
  image_memRequirements :: size_t
  image_vkAllocateMemory :: VkResult
  image_memory :: nat
  image_vkCreateImageView :: VkResult
  image_view :: nat

definition VERTICES_PER_SIDE :: nat where
  "VERTICES_PER_SIDE = 64"

text \<open>\<open>createVertexBuffer\<close>; a vertex is eight floats, 32 bytes.\<close>

definition createVertexBuffer :: "UploadEnv \<Rightarrow> TerrainTile \<Rightarrow> VkResult \<times> TerrainTile" where
  "createVertexBuffer env t =
     (if heightData (m_cpuData t) = [] then (VK_ERROR_INITIALIZATION_FAILED, t)
      else
        (let n = VERTICES_PER_SIDE * VERTICES_PER_SIDE;
             bufferSize = (of_nat n * 32 :: size_t);
             g1 = (m_gpuResources t)\<lparr> vertexBuffer := vertex_buffer env,
                                       vertexMemory := vertex_memory env \<rparr>;
             t1 = t\<lparr> m_gpuResources := g1 \<rparr>
         in if vertex_createBuffer env \<noteq> VK_SUCCESS then (vertex_createBuffer env, t1)
            else if vertex_uploadBufferData env \<noteq> VK_SUCCESS
            then (vertex_uploadBufferData env, t1)
            else (VK_SUCCESS,
                  t1\<lparr> m_gpuResources :=
                        g1\<lparr> vertexCount := of_nat n,
                            totalMemoryUsage := totalMemoryUsage g1 + bufferSize \<rparr> \<rparr>)))"

definition createHeightTexture :: "UploadEnv \<Rightarrow> TerrainTile \<Rightarrow> VkResult \<times> TerrainTile" where
  "createHeightTexture env t =
     (if heightData (m_cpuData t) = [] then (VK_ERROR_INITIALIZATION_FAILED, t)
      else if staging_createBuffer env \<noteq> VK_SUCCESS then (staging_createBuffer env, t)
      else
        (let g1 = (m_gpuResources t)\<lparr> heightTexture := image_handle env \<rparr>;
             t1 = t\<lparr> m_gpuResources := g1 \<rparr>
         in if image_vkCreateImage env \<noteq> VK_SUCCESS then (image_vkCreateImage env, t1)
            else
              (let g2 = g1\<lparr> heightTextureMemory := image_memory env \<rparr>;
                   t2 = t\<lparr> m_gpuResources := g2 \<rparr>
               in if image_vkAllocateMemory env \<noteq> VK_SUCCESS
                  then (image_vkAllocateMemory env, t2)
                  else
                    (let g3 = g2\<lparr> heightTextureView := image_view env \<rparr>
                     in if image_vkCreateImageView env = VK_SUCCESS
                        then (VK_SUCCESS,
                              t\<lparr> m_gpuResources :=
                                    g3\<lparr> totalMemoryUsage :=
                                          totalMemoryUsage g3 + image_memRequirements env \<rparr> \<rparr>)
                        else (image_vkCreateImageView env, t\<lparr> m_gpuResources := g3 \<rparr>)))))"

definition createNormalTexture :: "TerrainTile \<Rightarrow> VkResult \<times> TerrainTile" where
  "createNormalTexture t = (VK_SUCCESS, t)"

definition createDescriptorSet :: "TerrainTile \<Rightarrow> VkResult \<times> TerrainTile" where
  "createDescriptorSet t = (VK_SUCCESS, t)"

definition uploadToGPU :: "UploadEnv \<Rightarrow> TerrainTile \<Rightarrow> (VkResult \<times> TerrainTile) option" where
  "uploadToGPU env =
     lock_guard (\<lambda>t.
       if m_state t \<noteq> Loaded then Some (VK_ERROR_INITIALIZATION_FAILED, t)
       else
         (let t1 = setState Uploading t;
              (r1, t2) = createVertexBuffer env t1
          in if r1 \<noteq> VK_SUCCESS then Some (r1, setError ''Failed to create vertex buffer'' t2)
             else
               (let (r2, t3) = createHeightTexture env t2
                in if r2 \<noteq> VK_SUCCESS
                   then Some (r2, setError ''Failed to create height texture'' t3)
                   else
                     (let (r3, t4) = (if normalData (m_cpuData t3) \<noteq> []
                                      then createNormalTexture t3 else (r2, t3))
                      in if r3 \<noteq> VK_SUCCESS
                         then Some (r3, setError ''Failed to create normal texture'' t4)
                         else
                           (let (r4, t5) = createDescriptorSet t4
                            in if r4 \<noteq> VK_SUCCESS
                               then Some (r4, setError ''Failed to create descriptor set'' t5)
                               else Some (VK_SUCCESS, setState Ready t5))))))"

definition unloadFromGPU :: "TerrainTile \<Rightarrow> (unit \<times> TerrainTile) option" where
  "unloadFromGPU =
     lock_guard (\<lambda>t.
       (let t1 = t\<lparr> m_gpuResources := gpu_destroy (m_gpuResources t) \<rparr>
        in if m_state t1 = Ready then Some ((), setState Loaded t1) else Some ((), t1)))"

text \<open>
  \<open>evictFromMemory\<close> takes the guard and then calls \<open>unloadFromGPU\<close>, which takes the guard
  of the same mutex again.
\<close>

definition evictFromMemory :: "TerrainTile \<Rightarrow> (unit \<times> TerrainTile) option" where
  "evictFromMemory =
     lock_guard (\<lambda>t.
       (case unloadFromGPU t of
          None \<Rightarrow> None
        | Some (u, t1) \<Rightarrow>
            (let t2 = t1\<lparr> m_cpuData := cpu_clear (m_cpuData t1) \<rparr>
             in if m_state t2 \<noteq> Error then Some ((), setState Evicted t2)
                else Some ((), t2))))"

text \<open>The destructor calls \<open>unloadFromGPU\<close> and then \<open>evictFromMemory\<close>.\<close>

definition TerrainTile_destructor :: "TerrainTile \<Rightarrow> unit option" where
  "TerrainTile_destructor t =
     (case unloadFromGPU t of
        None \<Rightarrow> None
      | Some (u, t1) \<Rightarrow>
          (case evictFromMemory t1 of
             None \<Rightarrow> None
           | Some (u', t2) \<Rightarrow> Some ()))"

definition isVisible :: "(nat \<Rightarrow> vec4) \<Rightarrow> TerrainTile \<Rightarrow> bool" where
  "isVisible frustumPlanes t =
     planes_loop frustumPlanes (min_b (m_bounds t)) (max_b (m_bounds t)) [0..<6]"

definition getDistanceToCamera :: "vec3 \<Rightarrow> TerrainTile \<Rightarrow> real" where
  "getDistanceToCamera cameraPosition t =
     glm_length (vec3_sub cameraPosition (center (m_bounds t)))"

text \<open>
  \<open>updatePriority\<close>. In \<open>(8 - m_coordinate.level) * 10.0f\<close> the difference is computed in
  \<open>uint32_t\<close> and then converted to \<open>float\<close>.
\<close>

definition updatePriority :: "vec3 \<Rightarrow> real \<Rightarrow> TerrainTile \<Rightarrow> TerrainTile" where
  "updatePriority cameraPosition time t =
     (let distance = getDistanceToCamera cameraPosition t;
          basePriority = 1000 / (distance + 1);
          lodBonus = real (unat (8 - level (m_coordinate t))) * 10;
          accessBonus = max 0 (100 - real (unat (m_framesSinceAccess t)))
      in t\<lparr> m_priority := basePriority + lodBonus + accessBonus \<rparr>)"

definition getMemoryUsage :: "TerrainTile \<Rightarrow> size_t" where
  "getMemoryUsage t = cpu_getMemoryUsage (m_cpuData t)"

definition markAccessed :: "TerrainTile \<Rightarrow> TerrainTile" where
  "markAccessed t = t\<lparr> m_framesSinceAccess := 0 \<rparr>"

definition incrementFrameCounter :: "TerrainTile \<Rightarrow> TerrainTile" where
  "incrementFrameCounter t = t\<lparr> m_framesSinceAccess := m_framesSinceAccess t + 1 \<rparr>"

text \<open>A sequence of \<open>loadData\<close> and \<open>uploadToGPU\<close> calls on one tile.\<close>

datatype tile_call = LoadData string | UploadToGPU UploadEnv

fun run_calls :: "TerrainTile \<Rightarrow> tile_call list \<Rightarrow> TerrainTile option" where
  "run_calls t [] = Some t"
| "run_calls t (LoadData dataPath # cs) =
     (case loadData dataPath t of None \<Rightarrow> None | Some (r, t') \<Rightarrow> run_calls t' cs)"
| "run_calls t (UploadToGPU env # cs) =
     (case uploadToGPU env t of None \<Rightarrow> None | Some (r, t') \<Rightarrow> run_calls t' cs)"

section \<open>Tile manager (terrain\_tile.cpp)\<close>

text \<open>
  \<open>std::sort\<close> promises a permutation of its input in which no later element compares
  before an earlier one; the order of elements that compare equal is unspecified. The
  operations that sort take the sorting function as a parameter, and \<open>std_sort_spec before\<close>
  is what \<open>std::sort\<close> with the comparator \<open>before\<close> promises of it.
\<close>

definition std_sort_spec :: "('a \<Rightarrow> 'a \<Rightarrow> bool) \<Rightarrow> ('a list \<Rightarrow> 'a list) \<Rightarrow> bool" where
  "std_sort_spec before srt \<longleftrightarrow>
     (\<forall>xs. mset (srt xs) = mset xs \<and> sorted_wrt (\<lambda>a b. \<not> before b a) (srt xs))"

text \<open>The two comparators of the manager.\<close>

definition lru_before :: "TerrainTile \<Rightarrow> TerrainTile \<Rightarrow> bool" where
  "lru_before a b \<longleftrightarrow> unat (m_framesSinceAccess a) > unat (m_framesSinceAccess b)"

definition priority_before :: "TileCoordinate \<times> real \<Rightarrow> TileCoordinate \<times> real \<Rightarrow> bool" where
  "priority_before a b \<longleftrightarrow> snd a > snd b"

text \<open>
  \<open>m_tiles\<close> is an \<open>unordered_map\<close> from coordinates to shared tile objects. It is modelled as
  an association list in iteration order; a new key is appended. The manager's
  \<open>shared_mutex\<close> is never taken twice by one thread in the operations below and is not
  represented.

  The map owns its tiles through \<open>shared_ptr\<close>, and \<open>createTile\<close> hands a \<open>shared_ptr\<close> to its
  caller. Which tile objects the callers still own is an input of the operations that drop
  owners: \<open>held t\<close> says that a \<open>shared_ptr\<close> outside the manager owns \<open>t\<close>. When the last owner
  of a tile goes, its destructor runs.
\<close>

record TerrainTileManager =
  m_tiles :: "(TileCoordinate \<times> TerrainTile) list"
  m_maxTiles :: uint32
  m_maxMemoryUsage :: size_t

definition TerrainTileManager_new :: TerrainTileManager where
  "TerrainTileManager_new =
     \<lparr> m_tiles = [], m_maxTiles = 1000, m_maxMemoryUsage = 1024 * 1024 * 1024 \<rparr>"

definition setMaxTiles :: "uint32 \<Rightarrow> TerrainTileManager \<Rightarrow> TerrainTileManager" where
  "setMaxTiles maxTiles m = m\<lparr> m_maxTiles := maxTiles \<rparr>"

definition setMaxMemoryUsage :: "size_t \<Rightarrow> TerrainTileManager \<Rightarrow> TerrainTileManager" where
  "setMaxMemoryUsage maxMemory m = m\<lparr> m_maxMemoryUsage := maxMemory \<rparr>"

definition getTile :: "TileCoordinate \<Rightarrow> TerrainTileManager \<Rightarrow> TerrainTile option" where
  "getTile coordinate m = map_of (m_tiles m) coordinate"

definition erase :: "TileCoordinate \<Rightarrow> TerrainTileManager \<Rightarrow> TerrainTileManager" where
  "erase coordinate m = m\<lparr> m_tiles := filter (\<lambda>kv. fst kv \<noteq> coordinate) (m_tiles m) \<rparr>"

definition getLRUTiles ::
  "(TerrainTile list \<Rightarrow> TerrainTile list) \<Rightarrow> nat \<Rightarrow> TerrainTileManager \<Rightarrow> TerrainTile list"
where
  "getLRUTiles std_sort n m =
     (let allTiles = std_sort (map snd (m_tiles m));
          n' = min n (length allTiles)
      in take n' allTiles)"

text \<open>
  The end of the scope of a vector of \<open>shared_ptr\<close>: every tile of the vector that has no other
  owner left is destroyed.
\<close>

fun release :: "(TerrainTile \<Rightarrow> bool) \<Rightarrow> TerrainTile list \<Rightarrow> unit option" where
  "release held [] = Some ()"
| "release held (t # ts) =
     (if held t then release held ts
      else (case TerrainTile_destructor t of
              None \<Rightarrow> None
            | Some u \<Rightarrow> release held ts))"

text \<open>
  \<open>enforceLimits\<close> compares the number of tiles with \<open>m_maxTiles\<close> and reads no other limit.
  The tiles it erases from the map are still owned by \<open>lruTiles\<close>, which goes out of scope
  when the function returns.
\<close>

definition enforceLimits ::
  "(TerrainTile \<Rightarrow> bool) \<Rightarrow> (TerrainTile list \<Rightarrow> TerrainTile list) \<Rightarrow> TerrainTileManager
     \<Rightarrow> TerrainTileManager option"
where
  "enforceLimits held std_sort m =
     (if length (m_tiles m) \<le> unat (m_maxTiles m) then Some m
      else
        (let tilesToRemove = length (m_tiles m) - unat (m_maxTiles m);
             lruTiles = getLRUTiles std_sort tilesToRemove m;
             m' = fold (\<lambda>tile. erase (m_coordinate tile)) lruTiles m
         in (case release held lruTiles of
               None \<Rightarrow> None
             | Some u \<Rightarrow> Some m')))"

text \<open>
  \<open>createTile\<close>. While \<open>enforceLimits\<close> runs, the new tile is owned by the local \<open>tile\<close>,
  which is returned.
\<close>

definition createTile ::
  "(TerrainTile \<Rightarrow> bool) \<Rightarrow> (TerrainTile list \<Rightarrow> TerrainTile list) \<Rightarrow> TileCoordinate
     \<Rightarrow> TerrainTileManager \<Rightarrow> (TerrainTile \<times> TerrainTileManager) option"
where
  "createTile held std_sort coordinate m =
     (case map_of (m_tiles m) coordinate of
        Some tile \<Rightarrow> Some (tile, m)
      | None \<Rightarrow>
          (let tile = TerrainTile_new coordinate;
               m1 = m\<lparr> m_tiles := m_tiles m @ [(coordinate, tile)] \<rparr>
           in (case enforceLimits (\<lambda>t. t = tile \<or> held t) std_sort m1 of
                 None \<Rightarrow> None
               | Some m2 \<Rightarrow> Some (tile, m2))))"

definition getTotalMemoryUsage :: "TerrainTileManager \<Rightarrow> size_t" where
  "getTotalMemoryUsage m = fold (\<lambda>kv total. total + getMemoryUsage (snd kv)) (m_tiles m) 0"

definition getHighPriorityLoadingQueue ::
  "((TileCoordinate \<times> real) list \<Rightarrow> (TileCoordinate \<times> real) list) \<Rightarrow> nat
     \<Rightarrow> TerrainTileManager \<Rightarrow> TileCoordinate list"
where
  "getHighPriorityLoadingQueue std_sort maxCount m =
     (let priorityList =
            map (\<lambda>kv. (fst kv, m_priority (snd kv)))
              (filter (\<lambda>kv. m_state (snd kv) = Empty \<or> m_state (snd kv) = Evicted) (m_tiles m));
          sorted_list = std_sort priorityList;
          n = min maxCount (length sorted_list)
      in map fst (take n sorted_list))"

text \<open>
  A caller that holds the \<open>shared_ptr\<close> of the tile stored under \<open>coordinate\<close> calls an
  operation on it; the map holds the same object and sees the change.
\<close>

definition via_shared_ptr ::
  "TileCoordinate \<Rightarrow> (TerrainTile \<Rightarrow> ('r \<times> TerrainTile) option) \<Rightarrow> TerrainTileManager
     \<Rightarrow> ('r \<times> TerrainTileManager) option"
where
  "via_shared_ptr coordinate operation m =
     (case map_of (m_tiles m) coordinate of
        None \<Rightarrow> None
      | Some t \<Rightarrow>
          (case operation t of
             None \<Rightarrow> None
           | Some (r, t') \<Rightarrow>
               Some (r, m\<lparr> m_tiles :=
                             map (\<lambda>kv. if fst kv = coordinate then (fst kv, t') else kv)
                               (m_tiles m) \<rparr>)))"

text \<open>A run of \<open>createTile\<close> calls, one per coordinate of the list.\<close>

fun createTiles ::
  "(TerrainTile \<Rightarrow> bool) \<Rightarrow> (TerrainTile list \<Rightarrow> TerrainTile list) \<Rightarrow> TileCoordinate list
     \<Rightarrow> TerrainTileManager \<Rightarrow> TerrainTileManager option"
where
  "createTiles held std_sort [] m = Some m"
| "createTiles held std_sort (c # cs) m =
     (case createTile held std_sort c m of
        None \<Rightarrow> None
      | Some (tile, m') \<Rightarrow> createTiles held std_sort cs m')"

text \<open>
  What the map of a manager satisfies as long as tiles enter it through \<open>createTile\<close>: no key
  occurs twice, and every tile is stored under its own coordinate.
\<close>

definition manager_inv :: "TerrainTileManager \<Rightarrow> bool" where
  "manager_inv m \<longleftrightarrow>
     distinct (map fst (m_tiles m)) \<and>
     list_all (\<lambda>kv. m_coordinate (snd kv) = fst kv) (m_tiles m)"

section \<open>Memory pools (terrain\_memory\_pool.hpp, terrain\_memory\_pool.cpp)\<close>

datatype TerrainMemoryType =
    VertexBuffer | IndexBuffer | HeightTexture | ColorTexture | NormalTexture
  | UniformBuffer | StagingBuffer | ComputeBuffer

record TypeConfig =
  preferredPoolSize :: size_t
  minPoolSize :: size_t
  allocationAlignment :: size_t
  enableDefragmentation :: bool
  growthFactor :: real

text \<open>The per-type defaults set by the constructor of \<open>TerrainMemoryConfig\<close>.\<close>

definition default_typeConfig :: "TerrainMemoryType \<Rightarrow> TypeConfig" where
  "default_typeConfig ty =
     (case ty of
        VertexBuffer \<Rightarrow> \<lparr> preferredPoolSize = 128 * 1024 * 1024, minPoolSize = 16 * 1024 * 1024,
                          allocationAlignment = 256, enableDefragmentation = True,
                          growthFactor = 1.5 \<rparr>
      | IndexBuffer \<Rightarrow> \<lparr> preferredPoolSize = 64 * 1024 * 1024, minPoolSize = 8 * 1024 * 1024,
                         allocationAlignment = 256, enableDefragmentation = True,
                         growthFactor = 1.5 \<rparr>
      | HeightTexture \<Rightarrow> \<lparr> preferredPoolSize = 256 * 1024 * 1024, minPoolSize = 32 * 1024 * 1024,
                           allocationAlignment = 1024, enableDefragmentation = False,
                           growthFactor = 2 \<rparr>
      | ColorTexture \<Rightarrow> \<lparr> preferredPoolSize = 512 * 1024 * 1024, minPoolSize = 64 * 1024 * 1024,
                          allocationAlignment = 1024, enableDefragmentation = False,
                          growthFactor = 2 \<rparr>
      | NormalTexture \<Rightarrow> \<lparr> preferredPoolSize = 256 * 1024 * 1024, minPoolSize = 32 * 1024 * 1024,
                           allocationAlignment = 1024, enableDefragmentation = False,
                           growthFactor = 2 \<rparr>
      | UniformBuffer \<Rightarrow> \<lparr> preferredPoolSize = 16 * 1024 * 1024, minPoolSize = 2 * 1024 * 1024,
                           allocationAlignment = 256, enableDefragmentation = True,
                           growthFactor = 1.5 \<rparr>
      | StagingBuffer \<Rightarrow> \<lparr> preferredPoolSize = 64 * 1024 * 1024, minPoolSize = 8 * 1024 * 1024,
                           allocationAlignment = 256, enableDefragmentation = True,
                           growthFactor = 1.5 \<rparr>
      | ComputeBuffer \<Rightarrow> \<lparr> preferredPoolSize = 32 * 1024 * 1024, minPoolSize = 4 * 1024 * 1024,
                           allocationAlignment = 256, enableDefragmentation = True,
                           growthFactor = 1.5 \<rparr>)"

text \<open>
  An allocation object. \<open>a_object\<close> stands for the address of the object, which is what the
  pool's weak references are compared by; the fields \<open>size\<close>, \<open>type\<close> and \<open>image\<close> carry the
  prefix \<open>a_\<close> like the others because their plain names are taken in HOL.
\<close>

record TerrainMemoryAllocation =
  a_object :: nat
  a_allocation :: nat
  a_buffer :: nat
  a_image :: nat
  a_type :: TerrainMemoryType
  a_size :: size_t
  a_alignment :: size_t

definition isValid :: "TerrainMemoryAllocation \<Rightarrow> bool" where
  "isValid a \<longleftrightarrow> a_allocation a \<noteq> 0 \<and> (a_buffer a \<noteq> 0 \<or> a_image a \<noteq> 0)"

text \<open>
  The pool. Its mutex is taken once per public operation and never again by the owner, so it
  is not represented.
\<close>

record TerrainMemoryPool =
  m_type :: TerrainMemoryType
  m_config :: TypeConfig
  m_vmaPool :: nat
  m_totalSize :: size_t
  m_usedSize :: size_t
  m_activeAllocations :: uint32
  m_allocations :: "nat list"

definition TerrainMemoryPool_new :: "TerrainMemoryType \<Rightarrow> TypeConfig \<Rightarrow> TerrainMemoryPool" where
  "TerrainMemoryPool_new ty config =
     \<lparr> m_type = ty, m_config = config, m_vmaPool = 0, m_totalSize = 0, m_usedSize = 0,
       m_activeAllocations = 0, m_allocations = [] \<rparr>"

text \<open>
  What the allocator library answers during one allocation call: the result of
  \<open>vmaCreatePool\<close> (if the pool has to be created) and of \<open>vmaCreateBuffer\<close> or
  \<open>vmaCreateImage\<close>, with the handles and the allocation info they write, and the address
  of the new allocation object.
\<close>

record VmaEnv =
  vmaCreatePool_result :: VkResult
  vmaCreatePool_pool :: nat
  vmaCreate_result :: VkResult
  vmaCreate_handle :: nat
  vmaCreate_allocation :: nat
  vmaCreate_info_size :: size_t
  vmaCreate_info_alignment :: size_t
  new_object :: nat

text \<open>\<open>TerrainMemoryUtils::alignSize\<close>, the same expression as in \<open>canAllocate\<close>.\<close>

definition alignSize :: "size_t \<Rightarrow> size_t \<Rightarrow> size_t" where
  "alignSize sz algn = (sz + algn - 1) AND NOT (algn - 1)"

definition canAllocate :: "size_t \<Rightarrow> size_t \<Rightarrow> TerrainMemoryPool \<Rightarrow> bool" where
  "canAllocate sz algn p =
     (let alignedSize = (sz + algn - 1) AND NOT (algn - 1)
      in m_usedSize p + alignedSize \<le> m_totalSize p)"

definition createPool :: "VmaEnv \<Rightarrow> TerrainMemoryPool \<Rightarrow> VkResult \<times> TerrainMemoryPool" where
  "createPool env p =
     (if vmaCreatePool_result env = VK_SUCCESS
      then (VK_SUCCESS, p\<lparr> m_vmaPool := vmaCreatePool_pool env,
                            m_totalSize := preferredPoolSize (m_config p) \<rparr>)
      else (vmaCreatePool_result env, p))"

text \<open>
  \<open>allocateBuffer\<close> returns the result code, the allocation handed back through the
  reference parameter (\<open>None\<close> when it is left alone or reset) and the pool afterwards.
\<close>

definition allocateBuffer ::
  "VmaEnv \<Rightarrow> size_t \<Rightarrow> TerrainMemoryPool
     \<Rightarrow> VkResult \<times> TerrainMemoryAllocation option \<times> TerrainMemoryPool"
where
  "allocateBuffer env bufferInfo_size p =
     (let (created, p1) = (if m_vmaPool p = 0 then createPool env p else (VK_SUCCESS, p))
      in if created \<noteq> VK_SUCCESS then (created, None, p1)
         else
           (let requiredSize = bufferInfo_size;
                algn = allocationAlignment (m_config p1)
            in if \<not> canAllocate requiredSize algn p1
               then (VK_ERROR_OUT_OF_DEVICE_MEMORY, None, p1)
               else if vmaCreate_result env \<noteq> VK_SUCCESS
               then (vmaCreate_result env, None, p1)
               else
                 (VK_SUCCESS,
                  Some \<lparr> a_object = new_object env, a_allocation = vmaCreate_allocation env,
                         a_buffer = vmaCreate_handle env, a_image = 0, a_type = m_type p1,
                         a_size = requiredSize, a_alignment = algn \<rparr>,
                  p1\<lparr> m_usedSize := m_usedSize p1 + requiredSize,
                      m_activeAllocations := m_activeAllocations p1 + 1,
                      m_allocations := m_allocations p1 @ [new_object env] \<rparr>)))"

definition allocateImage ::
  "VmaEnv \<Rightarrow> TerrainMemoryPool
     \<Rightarrow> VkResult \<times> TerrainMemoryAllocation option \<times> TerrainMemoryPool"
where
  "allocateImage env p =
     (let (created, p1) = (if m_vmaPool p = 0 then createPool env p else (VK_SUCCESS, p))
      in if created \<noteq> VK_SUCCESS then (created, None, p1)
         else if vmaCreate_result env \<noteq> VK_SUCCESS
         then (vmaCreate_result env, None, p1)
         else
           (VK_SUCCESS,
            Some \<lparr> a_object = new_object env, a_allocation = vmaCreate_allocation env,
                   a_buffer = 0, a_image = vmaCreate_handle env, a_type = m_type p1,
                   a_size = vmaCreate_info_size env,
                   a_alignment = vmaCreate_info_alignment env \<rparr>,
            p1\<lparr> m_usedSize := m_usedSize p1 + vmaCreate_info_size env,
                m_activeAllocations := m_activeAllocations p1 + 1,
                m_allocations := m_allocations p1 @ [new_object env] \<rparr>))"

text \<open>\<open>deallocate\<close>; the argument is \<open>None\<close> for a null \<open>shared_ptr\<close>.\<close>

definition deallocate ::
  "TerrainMemoryAllocation option \<Rightarrow> TerrainMemoryPool \<Rightarrow> TerrainMemoryPool"
where
  "deallocate allocation p =
     (case allocation of
        None \<Rightarrow> p
      | Some a \<Rightarrow>
          (if \<not> isValid a then p
           else p\<lparr> m_usedSize := m_usedSize p - a_size a,
                   m_activeAllocations := m_activeAllocations p - 1,
                   m_allocations := remove1 (a_object a) (m_allocations p) \<rparr>))"

text \<open>
  A run of buffer allocations of one size, one per answer of the allocator library, that all
  succeed (\<open>None\<close> as soon as one does not), with the allocations handed out; and the
  deallocation of a list of allocations.
\<close>

fun allocateBuffers ::
  "VmaEnv list \<Rightarrow> size_t \<Rightarrow> TerrainMemoryPool
     \<Rightarrow> (TerrainMemoryAllocation list \<times> TerrainMemoryPool) option"
where
  "allocateBuffers [] sz p = Some ([], p)"
| "allocateBuffers (env # envs) sz p =
     (case allocateBuffer env sz p of
        (VK_SUCCESS, Some a, p1) \<Rightarrow>
          (case allocateBuffers envs sz p1 of
             None \<Rightarrow> None
           | Some (allocs, p2) \<Rightarrow> Some (a # allocs, p2))
      | _ \<Rightarrow> None)"

fun deallocateAll :: "TerrainMemoryAllocation list \<Rightarrow> TerrainMemoryPool \<Rightarrow> TerrainMemoryPool" where
  "deallocateAll [] p = p"
| "deallocateAll (a # allocs) p = deallocateAll allocs (deallocate (Some a) p)"

definition resize :: "size_t \<Rightarrow> TerrainMemoryPool \<Rightarrow> VkResult \<times> TerrainMemoryPool" where
  "resize newSize p =
     (if newSize < m_usedSize p then (VK_ERROR_VALIDATION_FAILED_EXT, p)
      else (VK_SUCCESS, p\<lparr> m_totalSize := newSize \<rparr>))"

definition getFreeSize :: "TerrainMemoryPool \<Rightarrow> size_t" where
  "getFreeSize p = m_totalSize p - m_usedSize p"

text \<open>
  \<open>getFragmentation\<close>. Both operands of the quotient are the conversion of the same
  \<open>size_t\<close> value to \<open>float\<close>.
\<close>

definition getFragmentation :: "TerrainMemoryPool \<Rightarrow> real" where
  "getFragmentation p =
     (if m_totalSize p = 0 then 0
      else
        (let largestFreeBlock = m_totalSize p - m_usedSize p;
             totalFreeMemory = m_totalSize p - m_usedSize p
         in if totalFreeMemory = 0 then 0
            else 1 - real (unat largestFreeBlock) / real (unat totalFreeMemory)))"

text \<open>
  The statistics of the allocator (without the per-type tables and the timing counters) and
  the part of the configuration that the background worker reads.
\<close>

record TerrainMemoryStats =
  totalAllocated :: size_t
  totalUsed :: size_t
  totalFree :: size_t
  activeAllocations :: uint32
  poolCount :: uint32
  fragmentation :: real

definition TerrainMemoryStats_new :: TerrainMemoryStats where
  "TerrainMemoryStats_new =
     \<lparr> totalAllocated = 0, totalUsed = 0, totalFree = 0, activeAllocations = 0,
       poolCount = 0, fragmentation = 0 \<rparr>"

record TerrainMemoryConfig =
  maxTotalMemory :: size_t
  warningThreshold :: real
  criticalThreshold :: real
  enableAutoDefragmentation :: bool
  defragmentationThreshold :: real
  maxDefragmentationTime :: size_t

text \<open>\<open>updateGlobalStats\<close> over the pools of \<open>m_pools\<close>, in iteration order.\<close>

definition updateGlobalStats ::
  "(TerrainMemoryType \<times> TerrainMemoryPool) list \<Rightarrow> TerrainMemoryStats \<Rightarrow> TerrainMemoryStats"
where
  "updateGlobalStats pools st =
     (let ps = map snd pools;
          totalFragmentation = fold (\<lambda>p acc. acc + getFragmentation p) ps 0
      in st\<lparr> totalAllocated := fold (\<lambda>p acc. acc + m_totalSize p) ps 0,
             totalUsed := fold (\<lambda>p acc. acc + m_usedSize p) ps 0,
             totalFree := fold (\<lambda>p acc. acc + getFreeSize p) ps 0,
             activeAllocations := fold (\<lambda>p acc. acc + m_activeAllocations p) ps 0,
             poolCount := of_nat (length pools),
             fragmentation :=
               (if pools = [] then 0 else totalFragmentation / real (length pools)) \<rparr>)"

text \<open>
  The test of the background worker before it calls \<open>defragment\<close>:
  \<open>m_stats.fragmentation > m_config.defragmentationThreshold\<close>.
\<close>

definition defragmentation_due :: "TerrainMemoryStats \<Rightarrow> TerrainMemoryConfig \<Rightarrow> bool" where
  "defragmentation_due st config \<longleftrightarrow> fragmentation st > defragmentationThreshold config"

section \<open>Candidate generation of the renderer (terrain\_renderer.cpp)\<close>

text \<open>
  The configuration of the renderer, without the tessellation, lighting, fog and material
  parameters. \<open>performCulling\<close> reads \<open>nearDistance\<close>, \<open>farDistance\<close>,
  \<open>enableFrustumCulling\<close> and \<open>maxVisibleTiles\<close>; it does not read \<open>tileSize\<close>.
\<close>

record TerrainRenderConfig =
  nearDistance :: real
  farDistance :: real
  tileSize :: uint32
  maxVisibleTiles :: uint32
  enableFrustumCulling :: bool

definition TerrainRenderConfig_default :: TerrainRenderConfig where
  "TerrainRenderConfig_default =
     \<lparr> nearDistance = 50, farDistance = 2000, tileSize = 512, maxVisibleTiles = 256,
       enableFrustumCulling = True \<rparr>"

definition getTileBounds :: "TileCoordinate \<Rightarrow> TerrainBounds" where
  "getTileBounds coord =
     (let tileSz = 1000 / 2 ^ unat (level coord)
      in \<lparr> min_b = Vec3 (real_of_int (sint (x coord)) * tileSz) 0
                        (real_of_int (sint (y coord)) * tileSz),
           max_b = Vec3 (real_of_int (sint (x coord + 1)) * tileSz) 200
                        (real_of_int (sint (y coord + 1)) * tileSz) \<rparr>)"

text \<open>
  \<open>static_cast<int>\<close> of a \<open>float\<close> truncates towards zero; the conversion is undefined when
  the truncated value is not an \<open>int\<close>, and so is \<open>int\<close> arithmetic that leaves the range.
  Undefined behaviour is \<open>None\<close>.
\<close>

definition int32_range :: "int \<Rightarrow> bool" where
  "int32_range i \<longleftrightarrow> - (2 ^ 31) \<le> i \<and> i < 2 ^ 31"

definition static_cast_int :: "real \<Rightarrow> int option" where
  "static_cast_int r =
     (let t = (if 0 \<le> r then \<lfloor>r\<rfloor> else \<lceil>r\<rceil>)
      in if int32_range t then Some t else None)"

definition int32_add :: "int \<Rightarrow> int \<Rightarrow> int option" where
  "int32_add a b = (if int32_range (a + b) then Some (a + b) else None)"

text \<open>
  The values of the loop variable of \<open>for (int i = lo; i <= hi; ++i)\<close>. When the loop runs
  and \<open>hi\<close> is the largest \<open>int\<close>, the last \<open>++i\<close> overflows.
\<close>

definition for_int :: "int \<Rightarrow> int \<Rightarrow> int list option" where
  "for_int lo hi = (if hi < lo then Some [] else if hi = 2 ^ 31 - 1 then None else Some [lo..hi])"

text \<open>The body of the two nested loops: is the cell a candidate?\<close>

definition candidate_cell :: "bool \<Rightarrow> (nat \<Rightarrow> vec4) \<Rightarrow> vec3 \<Rightarrow> real \<Rightarrow> TileCoordinate \<Rightarrow> bool" where
  "candidate_cell frustumCulling frustum cameraPos maxDistance coord =
     (let tileBounds = getTileBounds coord
      in if frustumCulling \<and> \<not> Frustum_intersects frustum tileBounds then False
         else
           (let distance = glm_length (vec3_sub cameraPos (center tileBounds))
            in \<not> (distance > maxDistance)))"

definition grid_cells :: "int list \<Rightarrow> int list \<Rightarrow> (int \<times> int) list" where
  "grid_cells cols rows = concat (map (\<lambda>row. map (\<lambda>col. (col, row)) cols) rows)"

definition cell_coordinate :: "nat \<Rightarrow> string \<Rightarrow> int \<times> int \<Rightarrow> TileCoordinate" where
  "cell_coordinate lvl dataset cell =
     \<lparr> x = word_of_int (fst cell), y = word_of_int (snd cell), level = of_nat lvl,
       datasetId = dataset \<rparr>"

text \<open>
  One iteration of the level loop after the \<open>break\<close> test: the tile range around the camera
  and the cells of it that pass the frustum and the distance test, rows outside, columns
  inside.
\<close>

definition level_candidates ::
  "bool \<Rightarrow> (nat \<Rightarrow> vec4) \<Rightarrow> vec3 \<Rightarrow> real \<Rightarrow> string \<Rightarrow> nat \<Rightarrow> TileCoordinate list option"
where
  "level_candidates frustumCulling frustum cameraPos maxDistance dataset lvl =
     (let tilesPerSide = (2::nat) ^ lvl;
          tileSz = 2000 / real tilesPerSide
      in case (Option.bind (static_cast_int ((vx cameraPos - maxDistance) / tileSz))
                 (\<lambda>a. int32_add a (- 1)),
               Option.bind (static_cast_int ((vx cameraPos + maxDistance) / tileSz))
                 (\<lambda>a. int32_add a 1),
               Option.bind (static_cast_int ((vz cameraPos - maxDistance) / tileSz))
                 (\<lambda>a. int32_add a (- 1)),
               Option.bind (static_cast_int ((vz cameraPos + maxDistance) / tileSz))
                 (\<lambda>a. int32_add a 1)) of
           (Some minTileX, Some maxTileX, Some minTileY, Some maxTileY) \<Rightarrow>
             (case for_int minTileY maxTileY of
                None \<Rightarrow> None
              | Some rows \<Rightarrow>
                  if rows = [] then Some []
                  else
                    (case for_int minTileX maxTileX of
                       None \<Rightarrow> None
                     | Some cols \<Rightarrow>
                         Some (map (cell_coordinate lvl dataset)
                                 (filter (\<lambda>cell. candidate_cell frustumCulling frustum cameraPos
                                            maxDistance (cell_coordinate lvl dataset cell))
                                    (grid_cells cols rows)))))
         | _ \<Rightarrow> None)"

text \<open>
  The level loop \<open>for (level = 0; level < 8; ++level)\<close> over the levels still to visit; it
  breaks at the first level whose \<open>levelDistance\<close> exceeds \<open>maxDistance\<close>.
\<close>

fun cull_levels ::
  "real \<Rightarrow> bool \<Rightarrow> (nat \<Rightarrow> vec4) \<Rightarrow> vec3 \<Rightarrow> real \<Rightarrow> string \<Rightarrow> nat list
     \<Rightarrow> TileCoordinate list option"
where
  "cull_levels nearDist frustumCulling frustum cameraPos maxDistance dataset [] = Some []"
| "cull_levels nearDist frustumCulling frustum cameraPos maxDistance dataset (lvl # lvls) =
     (let levelDistance = nearDist * 2 ^ lvl
      in if levelDistance > maxDistance then Some []
         else
           (case level_candidates frustumCulling frustum cameraPos maxDistance dataset lvl of
              None \<Rightarrow> None
            | Some cs \<Rightarrow>
                (case cull_levels nearDist frustumCulling frustum cameraPos maxDistance
                        dataset lvls of
                   None \<Rightarrow> None
                 | Some rest \<Rightarrow> Some (cs @ rest))))"

text \<open>
  \<open>candidateTiles\<close> of \<open>performCulling\<close> before it is sorted and cut to \<open>maxVisibleTiles\<close>.
  The frustum is the one stored in the frame.
\<close>

definition performCulling_candidates ::
  "TerrainRenderConfig \<Rightarrow> TerrainCamera \<Rightarrow> (nat \<Rightarrow> vec4) \<Rightarrow> string \<Rightarrow> TileCoordinate list option"
where
  "performCulling_candidates config camera frustum activeDataset =
     (if activeDataset = [] then Some []
      else
        (let maxDistance = min (farPlane camera) (farDistance config);
             cameraPos = position camera
         in cull_levels (nearDistance config) (enableFrustumCulling config) frustum cameraPos
              maxDistance activeDataset [0..<8]))"

section \<open>Notions used to state the properties\<close>

text \<open>
  The signed distance of a point from a plane, evaluated in \<open>float\<close> by the expression that
  the plane test uses; the eight corners of a box; a box that lies entirely on the negative
  side of a plane (each corner has a negative distance); and a point that is inside the
  frustum (its distance from each of the six planes is not negative).
\<close>

definition plane_distance :: "vec4 \<Rightarrow> vec3 \<Rightarrow> float32" where
  "plane_distance plane v = float_add (float_dot (vec3_of plane) v) (Finite (pw plane))"

definition box_corners :: "vec3 \<Rightarrow> vec3 \<Rightarrow> vec3 list" where
  "box_corners bmin bmax =
     [Vec3 cx cy cz. cx \<leftarrow> [vx bmin, vx bmax], cy \<leftarrow> [vy bmin, vy bmax],
                     cz \<leftarrow> [vz bmin, vz bmax]]"

definition box_outside_plane :: "vec4 \<Rightarrow> vec3 \<Rightarrow> vec3 \<Rightarrow> bool" where
  "box_outside_plane plane bmin bmax \<longleftrightarrow>
     list_all (\<lambda>v. float_less (plane_distance plane v) (Finite 0)) (box_corners bmin bmax)"

definition inside_frustum :: "(nat \<Rightarrow> vec4) \<Rightarrow> vec3 \<Rightarrow> bool" where
  "inside_frustum planes v \<longleftrightarrow>
     list_all (\<lambda>i. float_le (Finite 0) (plane_distance (planes i) v)) [0..<6]"

section \<open>Inputs used in the examples\<close>

text \<open>
  An answer of the allocator library in which every call succeeds: the handles are numbered
  from \<open>n\<close> (not 0), and \<open>info_size\<close> is the size reported for an image.
\<close>

definition vma_ok :: "nat \<Rightarrow> size_t \<Rightarrow> VmaEnv" where
  "vma_ok n info_size =
     \<lparr> vmaCreatePool_result = VK_SUCCESS, vmaCreatePool_pool = Suc n,
       vmaCreate_result = VK_SUCCESS, vmaCreate_handle = Suc (Suc n),
       vmaCreate_allocation = Suc (Suc (Suc n)), vmaCreate_info_size = info_size,
       vmaCreate_info_alignment = 1024, new_object = Suc (Suc (Suc (Suc n))) \<rparr>"

text \<open>A coordinate of the dataset \<open>dem\<close>.\<close>

definition dem :: "int32 \<Rightarrow> int32 \<Rightarrow> uint32 \<Rightarrow> TileCoordinate" where
  "dem col row lvl = \<lparr> x = col, y = row, level = lvl, datasetId = ''dem'' \<rparr>"

text \<open>
  A new tile whose frame counter stands at \<open>n\<close>, insertion sort by frames since access in
  descending order as the \<open>std::sort\<close> of \<open>getLRUTiles\<close>, and a manager limited to two tiles
  that holds two.
\<close>

definition aged_tile :: "TileCoordinate \<Rightarrow> uint32 \<Rightarrow> TerrainTile" where
  "aged_tile c n = (TerrainTile_new c)\<lparr> m_framesSinceAccess := n \<rparr>"

definition lru_sort :: "TerrainTile list \<Rightarrow> TerrainTile list" where
  "lru_sort = sort_key (\<lambda>t. - int (unat (m_framesSinceAccess t)))"

definition two_tiles :: TerrainTileManager where
  "two_tiles =
     (setMaxTiles 2 TerrainTileManager_new)
       \<lparr> m_tiles := [(dem 0 0 0, aged_tile (dem 0 0 0) 3), (dem 1 0 0, aged_tile (dem 1 0 0) 7)] \<rparr>"

text \<open>
  A configuration whose near distance of 600 makes \<open>performCulling\<close> stop after level 0 for
  every \<open>maxDistance\<close> from 600 to below 1200.
\<close>

definition config_level_0 :: "real \<Rightarrow> bool \<Rightarrow> TerrainRenderConfig" where
  "config_level_0 far frustumCulling =
     TerrainRenderConfig_default
       \<lparr> nearDistance := 600, farDistance := far, enableFrustumCulling := frustumCulling \<rparr>"

chapter \<open>Properties\<close>

section \<open>Tile coordinates\<close>

text \<open>
  \<open>a / 2\<close> followed by \<open>* 2\<close> or \<open>* 2 + 1\<close> gives \<open>a\<close> back exactly when \<open>a\<close> is not both
  negative and odd: truncation rounds a negative odd value up, and both candidates are
  then larger than \<open>a\<close>.
\<close>

lemma int32_div2_roundtrip:
  fixes a :: int32
  shows "(int32_div a 2 * 2 = a \<or> int32_div a 2 * 2 + 1 = a)
         \<longleftrightarrow> \<not> (sint a < 0 \<and> odd (sint a))"
proof (cases "sint a < 0 \<and> odd (sint a)")
  case False
  have q: "sint a sdiv 2 = sint a div 2"
    using False by (auto simp add: signed_divide_int_def sgn_if)
  have "a = word_of_int (sint a)" by simp
  also have "sint a = (sint a div 2) * 2 + sint a mod 2" by simp
  finally have e: "a = word_of_int (sint a div 2) * 2 + word_of_int (sint a mod 2)"
    by (metis mult_2_right of_int_add)
  have "sint a mod 2 = 0 \<or> sint a mod 2 = 1" by presburger
  then have "int32_div a 2 * 2 = a \<or> int32_div a 2 * 2 + 1 = a"
    using e int32_div_def q by fastforce
  then show ?thesis using False by simp
next
  case True
  define k where "k = (sint a + 1) div 2"
  define w :: int32 where "w = word_of_int k"
  have "- ((- sint a) div 2) = (sint a + 1) div 2" using True by presburger
  then have q: "sint a sdiv 2 = k"
    using True unfolding k_def by (simp add: signed_divide_int_def sgn_if)
  have "sint a = k * 2 - 1" using True unfolding k_def by presburger
  then have "word_of_int (sint a) = (word_of_int (k * 2 - 1) :: int32)" by simp
  then have e: "a = w * 2 - 1" unfolding w_def by simp
  have d: "int32_div a 2 = w" using q by (simp add: int32_div_def w_def)
  have "w * 2 = a + 1" using e by simp
  then have "int32_div a 2 * 2 \<noteq> a \<and> int32_div a 2 * 2 + 1 \<noteq> a"
    unfolding d by simp
  then show ?thesis using True by simp
qed

text \<open>
  Claim C5, as stated: for every coordinate \<open>c\<close>, negative \<open>x\<close> and \<open>y\<close> and any level
  included, \<open>c.getParent().getChildren()\<close> returns four coordinates and one of them equals
  \<open>c\<close>. At \<open>c = (-1, 0, level 0)\<close> the parent is \<open>(0, 0, level 1)\<close>, because \<open>-1 / 2\<close> is \<open>0\<close>
  in C++, and its children have \<open>x = 0\<close> or \<open>x = 1\<close>: none of them is \<open>c\<close>. At
  \<open>c = (0, 0, level 4294967295)\<close>, with even \<open>x\<close> and \<open>y\<close>, the level of the parent wraps to 0
  and \<open>getChildren\<close> returns no coordinate at all.
\<close>

theorem C5_parent_children_counterexample:
  "getChildren (getParent (dem (- 1) 0 0)) = [dem 0 0 0, dem 1 0 0, dem 0 1 0, dem 1 1 0]
   \<and> dem (- 1) 0 0 \<notin> set (getChildren (getParent (dem (- 1) 0 0)))
   \<and> getChildren (getParent (dem 0 0 4294967295)) = []"
  by (simp add: getChildren_def getParent_def int32_div_def signed_divide_int_def dem_def)

text \<open>
  Claim C5, amended: a coordinate is among the children of its parent exactly when neither
  its \<open>x\<close> nor its \<open>y\<close> is negative and odd, and its level is not the largest \<open>uint32_t\<close>
  (the parent's level would wrap to 0, and a level-0 coordinate has no children).
\<close>

theorem C5_parent_children_exactly:
  "c \<in> set (getChildren (getParent c)) \<longleftrightarrow>
     level c \<noteq> 4294967295 \<and> \<not> (sint (x c) < 0 \<and> odd (sint (x c)))
                             \<and> \<not> (sint (y c) < 0 \<and> odd (sint (y c)))"
proof -
  have eq: "\<And>a b l d. (c = \<lparr> x = a, y = b, level = l, datasetId = d \<rparr>)
            \<longleftrightarrow> (a = x c \<and> b = y c \<and> l = level c \<and> d = datasetId c)"
    by (cases c) auto
  have rx: "(int32_div (x c) 2 * 2 = x c \<or> int32_div (x c) 2 * 2 + 1 = x c)
            \<longleftrightarrow> \<not> (sint (x c) < 0 \<and> odd (sint (x c)))"
    by (rule int32_div2_roundtrip)
  have ry: "(int32_div (y c) 2 * 2 = y c \<or> int32_div (y c) 2 * 2 + 1 = y c)
            \<longleftrightarrow> \<not> (sint (y c) < 0 \<and> odd (sint (y c)))"
    by (rule int32_div2_roundtrip)
  have lv: "level c + 1 = 0 \<longleftrightarrow> level c = 4294967295"
  proof -
    have "level c + 1 = 0 \<longleftrightarrow> level c = - 1" by (simp only: eq_neg_iff_add_eq_0)
    moreover have "(- 1 :: uint32) = 4294967295" by simp
    ultimately show ?thesis by (simp only:)
  qed
  show ?thesis
  proof (cases "level c + 1 = 0")
    case True
    then show ?thesis using lv by (simp add: getChildren_def getParent_def)
  next
    case False
    then have "c \<in> set (getChildren (getParent c)) \<longleftrightarrow>
        (int32_div (x c) 2 * 2 = x c \<or> int32_div (x c) 2 * 2 + 1 = x c) \<and>
        (int32_div (y c) 2 * 2 = y c \<or> int32_div (y c) 2 * 2 + 1 = y c)"
      by (auto simp add: getChildren_def getParent_def eq)
    then show ?thesis using False rx ry lv by simp
  qed
qed

theorem C5_parent_children_witness:
  "dem 5 (- 4) 3 \<in> set (getChildren (getParent (dem 5 (- 4) 3)))
   \<and> getChildren (getParent (dem 5 (- 4) 3))
       = [dem 4 (- 4) 3, dem 5 (- 4) 3, dem 4 (- 3) 3, dem 5 (- 3) 3]"
proof -
  have ch: "getChildren (getParent (dem 5 (- 4) 3))
       = [dem 4 (- 4) 3, dem 5 (- 4) 3, dem 4 (- 3) 3, dem 5 (- 3) 3]"
    by (simp add: getChildren_def getParent_def int32_div_def signed_divide_int_def dem_def)
  have ok: "level (dem 5 (- 4) 3) \<noteq> 4294967295 \<and>
        \<not> (sint (x (dem 5 (- 4) 3)) < 0 \<and> odd (sint (x (dem 5 (- 4) 3)))) \<and>
        \<not> (sint (y (dem 5 (- 4) 3)) < 0 \<and> odd (sint (y (dem 5 (- 4) 3))))"
    by (simp add: dem_def)
  have "dem 5 (- 4) 3 \<in> set (getChildren (getParent (dem 5 (- 4) 3)))"
    by (rule iffD2[OF C5_parent_children_exactly ok])
  then show ?thesis using ch by simp
qed

section \<open>The tile state machine\<close>

lemma lock_guard_held: "m_mutex t \<Longrightarrow> lock_guard body t = None"
  by (simp add: lock_guard_def)

lemma unloadFromGPU_held: "m_mutex t \<Longrightarrow> unloadFromGPU t = None"
  by (simp add: unloadFromGPU_def lock_guard_def)

text \<open>
  The guards of \<open>loadData\<close> and \<open>uploadToGPU\<close>: called in any other state than \<open>Empty\<close>
  (respectively \<open>Loaded\<close>) on a tile whose mutex is free, they return
  \<open>VK_ERROR_INITIALIZATION_FAILED\<close> and leave the whole tile as it was.
\<close>

lemma loadData_guard:
  "\<not> m_mutex t \<Longrightarrow> m_state t \<noteq> Empty
     \<Longrightarrow> loadData dataPath t = Some (VK_ERROR_INITIALIZATION_FAILED, t)"
  by (simp add: loadData_def lock_guard_def)

lemma uploadToGPU_guard:
  "\<not> m_mutex t \<Longrightarrow> m_state t \<noteq> Loaded
     \<Longrightarrow> uploadToGPU env t = Some (VK_ERROR_INITIALIZATION_FAILED, t)"
  by (simp add: uploadToGPU_def lock_guard_def)

text \<open>From \<open>Empty\<close>, \<open>loadData\<close> succeeds and leaves the tile \<open>Loaded\<close>.\<close>

lemma loadData_from_Empty:
  "\<not> m_mutex t \<Longrightarrow> m_state t = Empty
     \<Longrightarrow> \<exists>t'. loadData dataPath t = Some (VK_SUCCESS, t') \<and> m_state t' = Loaded \<and> \<not> m_mutex t'"
  by (simp add: loadData_def lock_guard_def loadFromCache_def loadFromDisk_def setState_def
      Let_def)

text \<open>
  Claim C1. The claim has three parts. The parts about \<open>loadData\<close> and \<open>uploadToGPU\<close> are
  the two guard lemmas above. The third part says that \<open>evictFromMemory\<close>, called in a
  state other than \<open>Error\<close>, sets the state to \<open>Evicted\<close>. The code of \<open>evictFromMemory\<close>
  takes the tile's mutex and, holding it, calls \<open>unloadFromGPU\<close>, whose first statement takes
  the same mutex: the call never gets past that statement, for any tile, and the assignment
  of \<open>Evicted\<close> is never reached.
\<close>

theorem C1_evictFromMemory_never_returns:
  "evictFromMemory t = None"
  by (simp add: evictFromMemory_def lock_guard_def unloadFromGPU_held)

text \<open>An evicted tile with a free mutex is left unchanged by every call sequence.\<close>

lemma run_calls_evicted:
  "m_state t = Evicted \<Longrightarrow> \<not> m_mutex t \<Longrightarrow> run_calls t calls = Some t"
proof (induction calls)
  case Nil
  then show ?case by simp
next
  case (Cons c cs)
  then show ?case
    by (cases c) (simp_all add: loadData_guard uploadToGPU_guard)
qed

section \<open>What \<open>std::sort\<close> promises\<close>

lemma std_sort_spec_mset: "std_sort_spec before srt \<Longrightarrow> mset (srt xs) = mset xs"
  by (simp add: std_sort_spec_def)

lemma std_sort_spec_set: "std_sort_spec before srt \<Longrightarrow> set (srt xs) = set xs"
  by (metis std_sort_spec_mset set_mset_mset)

lemma std_sort_spec_length: "std_sort_spec before srt \<Longrightarrow> length (srt xs) = length xs"
  by (metis std_sort_spec_mset size_mset)

lemma std_sort_spec_sorted:
  "std_sort_spec before srt \<Longrightarrow> sorted_wrt (\<lambda>a b. \<not> before b a) (srt xs)"
  by (simp add: std_sort_spec_def)

text \<open>Insertion sort on a key that respects the comparator is one such sorting function.\<close>

lemma sort_key_std_sort_spec:
  fixes f :: "'a \<Rightarrow> 'k::linorder"
  assumes "\<And>a b. f a \<le> f b \<Longrightarrow> \<not> before b a"
  shows "std_sort_spec before (sort_key f)"
proof -
  have "sorted_wrt (\<lambda>a b. \<not> before b a) (sort_key f xs)" for xs
  proof -
    have "sorted (map f (sort_key f xs))" by simp
    then have "sorted_wrt (\<lambda>a b. f a \<le> f b) (sort_key f xs)" by (simp add: sorted_map)
    then show ?thesis by (rule sorted_wrt_mono_rel[rotated]) (use assms in blast)
  qed
  then show ?thesis by (simp add: std_sort_spec_def)
qed

lemma priority_sort_spec: "std_sort_spec priority_before (sort_key (\<lambda>p. - snd p))"
  by (rule sort_key_std_sort_spec) (simp add: priority_before_def)

lemma lru_sort_spec:
  "std_sort_spec lru_before (sort_key (\<lambda>t. - int (unat (m_framesSinceAccess t))))"
  by (rule sort_key_std_sort_spec)
    (simp only: lru_before_def neg_le_iff_le of_nat_le_iff not_less)

section \<open>Evicted tiles and the loading queue\<close>

lemma queue_contains_candidate:
  assumes srt: "std_sort_spec priority_before srt"
    and inm: "(c, t) \<in> set (m_tiles m)"
    and st: "m_state t = Empty \<or> m_state t = Evicted"
    and cnt: "length (m_tiles m) \<le> maxCount"
  shows "c \<in> set (getHighPriorityLoadingQueue srt maxCount m)"
proof -
  let ?f = "filter (\<lambda>kv. m_state (snd kv) = Empty \<or> m_state (snd kv) = Evicted) (m_tiles m)"
  let ?pl = "map (\<lambda>kv. (fst kv, m_priority (snd kv))) ?f"
  have "(c, t) \<in> set ?f" using inm st by simp
  then have "(c, m_priority t) \<in> set ?pl" by force
  then have a: "(c, m_priority t) \<in> set (srt ?pl)" using std_sort_spec_set[OF srt] by simp
  have "length (srt ?pl) = length ?pl" by (rule std_sort_spec_length[OF srt])
  also have "\<dots> \<le> length (m_tiles m)" by simp
  finally have "min maxCount (length (srt ?pl)) = length (srt ?pl)" using cnt by simp
  then have "getHighPriorityLoadingQueue srt maxCount m = map fst (srt ?pl)"
    by (simp add: getHighPriorityLoadingQueue_def Let_def)
  then show ?thesis using a by force
qed

text \<open>
  Claim C9. A tile in state \<open>Evicted\<close> (its mutex free, as it is between calls):
  \<open>loadData\<close> and \<open>uploadToGPU\<close> both return \<open>VK_ERROR_INITIALIZATION_FAILED\<close> and leave the
  tile as it is, so no sequence of these calls changes it, and in particular none makes it
  \<open>Ready\<close>. Yet when the manager holds the tile under \<open>c\<close> and is asked for a loading queue
  at least as long as its map, \<open>c\<close> is in the queue.
\<close>

theorem C9_evicted_tile_stays_evicted:
  assumes "m_state t = Evicted" and "\<not> m_mutex t"
    and "std_sort_spec priority_before srt"
    and "(c, t) \<in> set (m_tiles m)"
    and "length (m_tiles m) \<le> maxCount"
  shows "loadData dataPath t = Some (VK_ERROR_INITIALIZATION_FAILED, t)
       \<and> uploadToGPU env t = Some (VK_ERROR_INITIALIZATION_FAILED, t)
       \<and> run_calls t calls = Some t
       \<and> c \<in> set (getHighPriorityLoadingQueue srt maxCount m)"
  using assms
  by (simp add: loadData_guard uploadToGPU_guard run_calls_evicted queue_contains_candidate)

theorem C9_evicted_tile_witness:
  "\<forall>env dataPath calls.
     m_state (setState Evicted (TerrainTile_new \<lparr> x = 3, y = 4, level = 2, datasetId = ''dem'' \<rparr>))
       = Evicted
   \<and> \<not> m_mutex (setState Evicted
                   (TerrainTile_new \<lparr> x = 3, y = 4, level = 2, datasetId = ''dem'' \<rparr>))
   \<and> std_sort_spec priority_before (sort_key (\<lambda>p. - snd p))
   \<and> loadData dataPath
        (setState Evicted (TerrainTile_new \<lparr> x = 3, y = 4, level = 2, datasetId = ''dem'' \<rparr>))
       = Some (VK_ERROR_INITIALIZATION_FAILED,
               setState Evicted
                 (TerrainTile_new \<lparr> x = 3, y = 4, level = 2, datasetId = ''dem'' \<rparr>))
   \<and> uploadToGPU env
        (setState Evicted (TerrainTile_new \<lparr> x = 3, y = 4, level = 2, datasetId = ''dem'' \<rparr>))
       = Some (VK_ERROR_INITIALIZATION_FAILED,
               setState Evicted
                 (TerrainTile_new \<lparr> x = 3, y = 4, level = 2, datasetId = ''dem'' \<rparr>))
   \<and> run_calls
        (setState Evicted (TerrainTile_new \<lparr> x = 3, y = 4, level = 2, datasetId = ''dem'' \<rparr>))
        calls
       = Some (setState Evicted
                 (TerrainTile_new \<lparr> x = 3, y = 4, level = 2, datasetId = ''dem'' \<rparr>))
   \<and> getHighPriorityLoadingQueue (sort_key (\<lambda>p. - snd p)) 1
        (TerrainTileManager_new
           \<lparr> m_tiles :=
               [(\<lparr> x = 3, y = 4, level = 2, datasetId = ''dem'' \<rparr>,
                 setState Evicted
                   (TerrainTile_new \<lparr> x = 3, y = 4, level = 2, datasetId = ''dem'' \<rparr>))] \<rparr>)
       = [\<lparr> x = 3, y = 4, level = 2, datasetId = ''dem'' \<rparr>]"
proof (intro allI)
  fix env dataPath calls
  let ?c = "\<lparr> x = 3, y = 4, level = 2, datasetId = ''dem'' \<rparr>"
  let ?t = "setState Evicted (TerrainTile_new ?c)"
  let ?m = "TerrainTileManager_new \<lparr> m_tiles := [(?c, ?t)] \<rparr>"
  have h1: "m_state ?t = Evicted" by (simp add: setState_def)
  have h2: "\<not> m_mutex ?t" by (simp add: setState_def TerrainTile_new_def)
  have h4: "(?c, ?t) \<in> set (m_tiles ?m)" by simp
  have h5: "length (m_tiles ?m) \<le> 1" by simp
  have q: "getHighPriorityLoadingQueue (sort_key (\<lambda>p. - snd p)) 1 ?m = [?c]"
    by (simp add: getHighPriorityLoadingQueue_def h1)
  show "m_state ?t = Evicted \<and> \<not> m_mutex ?t
      \<and> std_sort_spec priority_before (sort_key (\<lambda>p. - snd p))
      \<and> loadData dataPath ?t = Some (VK_ERROR_INITIALIZATION_FAILED, ?t)
      \<and> uploadToGPU env ?t = Some (VK_ERROR_INITIALIZATION_FAILED, ?t)
      \<and> run_calls ?t calls = Some ?t
      \<and> getHighPriorityLoadingQueue (sort_key (\<lambda>p. - snd p)) 1 ?m = [?c]"
    using C9_evicted_tile_stays_evicted[OF h1 h2 priority_sort_spec h4 h5, of dataPath env calls]
      h1 h2 priority_sort_spec q
    by simp
qed

section \<open>Streaming priority\<close>

lemma lod_bonus_order:
  fixes l1 l2 :: uint32
  assumes "l1 < l2" and "l2 \<le> 8"
  shows "unat (8 - l2) < unat (8 - l1)"
  using assms by unat_arith

text \<open>
  Claim C7, as stated: of two tiles at equal distance and with equal
  \<open>framesSinceAccess\<close>, the one with the lower level gets the strictly higher priority, for
  all \<open>uint32_t\<close> levels. Two fresh tiles at \<open>(0, 0)\<close> with levels 8 and 9 and a camera half
  way between their centres: the distances and the frame counters are equal, \<open>8 - 8\<close> is
  0 and \<open>8 - 9\<close> wraps to 4294967295, and the level-8 tile gets the strictly lower
  priority.
\<close>

lemma distance_levels_8_9:
  "getDistanceToCamera (Vec3 (375/256) 100 (375/256))
       (TerrainTile_new \<lparr> x = 0, y = 0, level = 8, datasetId = ''dem'' \<rparr>)
    = getDistanceToCamera (Vec3 (375/256) 100 (375/256))
       (TerrainTile_new \<lparr> x = 0, y = 0, level = 9, datasetId = ''dem'' \<rparr>)"
  by (simp add: getDistanceToCamera_def TerrainTile_new_def calculateBounds_def center_def
      vec3_add_def vec3_scale_def vec3_sub_def glm_length_def dot_def Let_def)

theorem C7_level_wraparound_counterexample:
  "getDistanceToCamera (Vec3 (375/256) 100 (375/256))
       (TerrainTile_new \<lparr> x = 0, y = 0, level = 8, datasetId = ''dem'' \<rparr>)
    = getDistanceToCamera (Vec3 (375/256) 100 (375/256))
       (TerrainTile_new \<lparr> x = 0, y = 0, level = 9, datasetId = ''dem'' \<rparr>)
   \<and> m_framesSinceAccess (TerrainTile_new \<lparr> x = 0, y = 0, level = 8, datasetId = ''dem'' \<rparr>)
     = m_framesSinceAccess (TerrainTile_new \<lparr> x = 0, y = 0, level = 9, datasetId = ''dem'' \<rparr>)
   \<and> level (m_coordinate (TerrainTile_new \<lparr> x = 0, y = 0, level = 8, datasetId = ''dem'' \<rparr>))
     < level (m_coordinate (TerrainTile_new \<lparr> x = 0, y = 0, level = 9, datasetId = ''dem'' \<rparr>))
   \<and> m_priority (updatePriority (Vec3 (375/256) 100 (375/256)) 0
         (TerrainTile_new \<lparr> x = 0, y = 0, level = 8, datasetId = ''dem'' \<rparr>))
     < m_priority (updatePriority (Vec3 (375/256) 100 (375/256)) 0
         (TerrainTile_new \<lparr> x = 0, y = 0, level = 9, datasetId = ''dem'' \<rparr>))"
proof -
  have lv:
    "level (m_coordinate (TerrainTile_new \<lparr> x = 0, y = 0, level = 8, datasetId = ''dem'' \<rparr>)) = 8"
    "level (m_coordinate (TerrainTile_new \<lparr> x = 0, y = 0, level = 9, datasetId = ''dem'' \<rparr>)) = 9"
    "m_framesSinceAccess (TerrainTile_new \<lparr> x = 0, y = 0, level = 8, datasetId = ''dem'' \<rparr>) = 0"
    "m_framesSinceAccess (TerrainTile_new \<lparr> x = 0, y = 0, level = 9, datasetId = ''dem'' \<rparr>) = 0"
    by (simp_all add: TerrainTile_new_def)
  have u: "unat (8 - 8 :: uint32) = 0" "unat (8 - 9 :: uint32) = 4294967295"
    by (simp_all add: unsigned_minus_1_eq_mask mask_eq_exp_minus_1)
  show ?thesis
    unfolding updatePriority_def Let_def distance_levels_8_9 lv u by simp
qed

text \<open>
  Claim C7, amended: the ordering holds whenever both levels are at most 8, where
  \<open>8 - level\<close> does not wrap. This covers the levels 0 to 7 that the renderer generates.
\<close>

theorem C7_priority_order_up_to_level_8:
  assumes "getDistanceToCamera cameraPosition t1 = getDistanceToCamera cameraPosition t2"
    and "m_framesSinceAccess t1 = m_framesSinceAccess t2"
    and "level (m_coordinate t1) < level (m_coordinate t2)"
    and "level (m_coordinate t2) \<le> 8"
  shows "m_priority (updatePriority cameraPosition time1 t1)
           > m_priority (updatePriority cameraPosition time2 t2)"
proof -
  have "real (unat (8 - level (m_coordinate t2))) < real (unat (8 - level (m_coordinate t1)))"
    using lod_bonus_order[OF assms(3,4)] by (simp only: of_nat_less_iff)
  then show ?thesis using assms(1,2) by (simp add: updatePriority_def Let_def)
qed

theorem C7_priority_order_witness:
  "getDistanceToCamera (Vec3 375 100 375)
       (TerrainTile_new \<lparr> x = 0, y = 0, level = 0, datasetId = ''dem'' \<rparr>)
    = getDistanceToCamera (Vec3 375 100 375)
       (TerrainTile_new \<lparr> x = 0, y = 0, level = 1, datasetId = ''dem'' \<rparr>)
   \<and> m_framesSinceAccess (TerrainTile_new \<lparr> x = 0, y = 0, level = 0, datasetId = ''dem'' \<rparr>)
     = m_framesSinceAccess (TerrainTile_new \<lparr> x = 0, y = 0, level = 1, datasetId = ''dem'' \<rparr>)
   \<and> level (m_coordinate (TerrainTile_new \<lparr> x = 0, y = 0, level = 0, datasetId = ''dem'' \<rparr>))
     < level (m_coordinate (TerrainTile_new \<lparr> x = 0, y = 0, level = 1, datasetId = ''dem'' \<rparr>))
   \<and> level (m_coordinate (TerrainTile_new \<lparr> x = 0, y = 0, level = 1, datasetId = ''dem'' \<rparr>)) \<le> 8
   \<and> m_priority (updatePriority (Vec3 375 100 375) 0
         (TerrainTile_new \<lparr> x = 0, y = 0, level = 0, datasetId = ''dem'' \<rparr>))
     > m_priority (updatePriority (Vec3 375 100 375) 0
         (TerrainTile_new \<lparr> x = 0, y = 0, level = 1, datasetId = ''dem'' \<rparr>))"
proof -
  let ?a = "TerrainTile_new \<lparr> x = 0, y = 0, level = 0, datasetId = ''dem'' \<rparr>"
  let ?b = "TerrainTile_new \<lparr> x = 0, y = 0, level = 1, datasetId = ''dem'' \<rparr>"
  have h1: "getDistanceToCamera (Vec3 375 100 375) ?a = getDistanceToCamera (Vec3 375 100 375) ?b"
    by (simp add: getDistanceToCamera_def TerrainTile_new_def calculateBounds_def center_def
      vec3_add_def vec3_scale_def vec3_sub_def glm_length_def dot_def Let_def)
  have h2: "m_framesSinceAccess ?a = m_framesSinceAccess ?b" by (simp add: TerrainTile_new_def)
  have h3: "level (m_coordinate ?a) < level (m_coordinate ?b)" by (simp add: TerrainTile_new_def)
  have h4: "level (m_coordinate ?b) \<le> 8"
    by (simp add: TerrainTile_new_def)
  show ?thesis
    using C7_priority_order_up_to_level_8[OF h1 h2 h3 h4, of 0 0] h1 h2 h3 h4 by simp
qed

section \<open>Memory pools: alignment arithmetic\<close>

text \<open>
  \<open>alignSize\<close> is at least the size and less than the size plus the alignment, as long as
  the sum does not wrap; for a power of two it is the size rounded up to the next multiple.
\<close>

lemma unat_pow2_64: "k < 64 \<Longrightarrow> unat (2 ^ k :: size_t) = 2 ^ k"
proof -
  assume k: "k < 64"
  have "(2::size_t) ^ k = word_of_nat (2 ^ k)" by simp
  then have "unat ((2::size_t) ^ k) = (2 ^ k) mod 2 ^ 64"
    by (simp only: unat_of_nat) simp
  moreover have "(2::nat) ^ k < 2 ^ 64" using k by (rule power_strict_increasing) simp
  ultimately show ?thesis by simp
qed

lemma unat_and_mask_64: "k < 64 \<Longrightarrow> unat (w AND mask k) = unat (w::size_t) mod 2 ^ k"
proof -
  assume k: "k < 64"
  have "w AND mask k = w mod 2 ^ k" by (simp add: take_bit_eq_mod flip: take_bit_eq_mask)
  then have "unat (w AND mask k) = unat w mod unat (2 ^ k :: size_t)" by (simp add: unat_mod)
  then show ?thesis using unat_pow2_64[OF k] by simp
qed

lemma unat_decrement:
  fixes algn :: size_t
  assumes "algn \<noteq> 0"
  shows "unat (algn - 1) = unat algn - 1"
  using assms by (simp add: unat_minus_one)

lemma unat_add_decrement:
  fixes sz algn :: size_t
  assumes "algn \<noteq> 0" and "unat sz + unat algn \<le> 2 ^ 64"
  shows "unat (sz + algn - 1) = unat sz + unat algn - 1"
proof -
  have e: "sz + algn - 1 = sz + (algn - 1)" by simp
  have p: "0 < unat algn" using assms(1) by (simp add: unat_gt_0)
  have m: "unat (algn - 1) = unat algn - 1" by (rule unat_decrement[OF assms(1)])
  have "unat sz + unat (algn - 1) < 2 ^ 64"
    using assms(2) p m by linarith
  then have "unat (sz + (algn - 1)) = unat sz + unat (algn - 1)"
    using unat_add_lem[of sz "algn - 1"] by simp
  then have "unat (sz + algn - 1) = unat sz + unat (algn - 1)" by (simp only: e)
  then show ?thesis using m p by linarith
qed

lemma and_not_eq_minus_and: fixes a b :: size_t shows "a AND NOT b = a - (a AND b)"
proof -
  have "NOT a AND (a AND b) = 0" by (simp add: bit_eq_iff bit_simps)
  then have "a - (a AND b) = a AND NOT (a AND b)" by (rule disjunctive_diff_eq_and_not)
  also have "\<dots> = a AND NOT b" by (auto simp: bit_eq_iff bit_simps)
  finally show ?thesis by simp
qed

lemma unat_and_le: fixes a b :: size_t shows "unat (a AND b) \<le> unat b"
  by (metis word_less_eq_iff_unsigned word_and_le1)

lemma alignSize_bounds:
  fixes sz algn :: size_t
  assumes "algn \<noteq> 0" and "unat sz + unat algn \<le> 2 ^ 64"
  shows "unat sz \<le> unat (alignSize sz algn) \<and> unat (alignSize sz algn) \<le> unat sz + unat algn - 1"
proof -
  let ?X = "sz + algn - 1" and ?M = "algn - 1"
  have a: "alignSize sz algn = ?X - (?X AND ?M)" by (simp add: alignSize_def and_not_eq_minus_and)
  have b: "unat (?X AND ?M) \<le> unat ?M" by (rule unat_and_le)
  have "(?X AND ?M) \<le> ?X" by (rule word_and_le2)
  then have c: "unat (?X - (?X AND ?M)) = unat ?X - unat (?X AND ?M)"
    by (rule unat_sub)
  have p: "0 < unat algn" using assms(1) by (simp add: unat_gt_0)
  have x: "unat ?X = unat sz + unat algn - 1" by (rule unat_add_decrement[OF assms])
  have m: "unat ?M = unat algn - 1" by (rule unat_decrement[OF assms(1)])
  have "unat (alignSize sz algn) = unat ?X - unat (?X AND ?M)" using a c by simp
  then show ?thesis using b x m p by linarith
qed

lemma alignSize_round_up:
  fixes sz :: size_t
  assumes "algn = 2 ^ k" and "k < 64" and "unat sz + unat algn \<le> 2 ^ 64"
  shows "unat (alignSize sz algn) = ((unat sz + unat algn - 1) div unat algn) * unat algn"
proof -
  let ?X = "sz + algn - 1"
  have m: "algn - 1 = mask k" using assms(1) by (simp add: mask_eq_decr_exp)
  have ua: "unat algn = 2 ^ k" using assms(1,2) by (simp add: unat_pow2_64)
  have nz: "algn \<noteq> 0" using ua by (metis power_not_zero unat_0 zero_neq_numeral)
  have x: "unat ?X = unat sz + unat algn - 1" by (rule unat_add_decrement[OF nz assms(3)])
  have am: "unat (?X AND mask k) = unat ?X mod 2 ^ k" by (rule unat_and_mask_64[OF assms(2)])
  have a: "alignSize sz algn = ?X - (?X AND mask k)"
    by (simp add: alignSize_def and_not_eq_minus_and m)
  have "(?X AND mask k) \<le> ?X" by (rule word_and_le2)
  then have c: "unat (?X - (?X AND mask k)) = unat ?X - unat (?X AND mask k)"
    by (rule unat_sub)
  have "unat (alignSize sz algn) = unat ?X - unat ?X mod 2 ^ k" using a c am by simp
  also have "\<dots> = (unat ?X div 2 ^ k) * 2 ^ k" by (simp add: minus_mod_eq_div_mult)
  finally show ?thesis using x ua by simp
qed

lemma canAllocate_alignSize:
  "canAllocate sz algn p \<longleftrightarrow> m_usedSize p + alignSize sz algn \<le> m_totalSize p"
  by (simp add: canAllocate_def alignSize_def)

lemma canAllocate_nat:
  assumes "algn \<noteq> 0" and "unat (m_usedSize p) + unat sz + unat algn \<le> 2 ^ 64"
  shows "canAllocate sz algn p \<longleftrightarrow>
         unat (m_usedSize p) + unat (alignSize sz algn) \<le> unat (m_totalSize p)"
proof -
  have b: "unat (alignSize sz algn) \<le> unat sz + unat algn - 1"
    using alignSize_bounds[OF assms(1), of sz] assms(2) by simp
  have p: "0 < unat algn" using assms(1) by (simp add: unat_gt_0)
  have "unat (m_usedSize p) + unat (alignSize sz algn) < 2 ^ 64"
    using b p assms(2) by linarith
  then have "unat (m_usedSize p + alignSize sz algn)
      = unat (m_usedSize p) + unat (alignSize sz algn)"
    using unat_add_lem[of "m_usedSize p" "alignSize sz algn"] by simp
  then show ?thesis by (simp add: canAllocate_alignSize word_le_nat_alt)
qed

lemma allocateBuffer_existing_cases:
  assumes "m_vmaPool p \<noteq> 0"
  shows "allocateBuffer env sz p =
     (if \<not> canAllocate sz (allocationAlignment (m_config p)) p
      then (VK_ERROR_OUT_OF_DEVICE_MEMORY, None, p)
      else if vmaCreate_result env \<noteq> VK_SUCCESS then (vmaCreate_result env, None, p)
      else (VK_SUCCESS,
            Some \<lparr> a_object = new_object env, a_allocation = vmaCreate_allocation env,
                   a_buffer = vmaCreate_handle env, a_image = 0, a_type = m_type p,
                   a_size = sz, a_alignment = allocationAlignment (m_config p) \<rparr>,
            p\<lparr> m_usedSize := m_usedSize p + sz,
                m_activeAllocations := m_activeAllocations p + 1,
                m_allocations := m_allocations p @ [new_object env] \<rparr>))"
  using assms by (simp add: allocateBuffer_def Let_def)

section \<open>Memory pools: capacity\<close>

text \<open>
  Claim C3, as stated: every allocation, buffer or image, returns out-of-memory and changes
  nothing when \<open>used + alignedSize\<close> exceeds the total size, no allocation increases the
  total size, and \<open>used \<le> total\<close> is preserved. \<open>allocateImage\<close> has no capacity test. On
  a new height-texture pool (total size 0) an image for which the allocator library reports
  300 MiB: the call creates the pool, which raises the total size from 0 to the preferred
  256 MiB, succeeds, and leaves the used size at 300 MiB, above the total size.
\<close>

theorem C3_allocateImage_counterexample:
  "fst (allocateImage (vma_ok 0 (300 * 1024 * 1024))
          (TerrainMemoryPool_new HeightTexture (default_typeConfig HeightTexture)))
     = VK_SUCCESS
   \<and> m_totalSize (TerrainMemoryPool_new HeightTexture (default_typeConfig HeightTexture)) = 0
   \<and> m_totalSize (snd (snd (allocateImage (vma_ok 0 (300 * 1024 * 1024))
          (TerrainMemoryPool_new HeightTexture (default_typeConfig HeightTexture)))))
     = 268435456
   \<and> m_usedSize (snd (snd (allocateImage (vma_ok 0 (300 * 1024 * 1024))
          (TerrainMemoryPool_new HeightTexture (default_typeConfig HeightTexture)))))
     = 314572800
   \<and> \<not> m_usedSize (snd (snd (allocateImage (vma_ok 0 (300 * 1024 * 1024))
          (TerrainMemoryPool_new HeightTexture (default_typeConfig HeightTexture)))))
       \<le> m_totalSize (snd (snd (allocateImage (vma_ok 0 (300 * 1024 * 1024))
          (TerrainMemoryPool_new HeightTexture (default_typeConfig HeightTexture)))))"
  by (simp add: allocateImage_def createPool_def TerrainMemoryPool_new_def
      default_typeConfig_def Let_def vma_ok_def)

text \<open>
  Claim C3, amended, for buffer allocations on a pool that exists (the first allocation
  creates the pool and sets its total size to the preferred size), with a non-zero
  alignment and sizes that do not wrap around 64 bits: if \<open>used + alignSize size\<close> exceeds
  the total size, \<open>allocateBuffer\<close> returns \<open>VK_ERROR_OUT_OF_DEVICE_MEMORY\<close> and leaves the
  pool as it was; \<open>allocateBuffer\<close> never changes the total size; and \<open>allocateBuffer\<close>
  and \<open>resize\<close> preserve \<open>used \<le> total\<close>.
\<close>

theorem C3_allocateBuffer_respects_capacity:
  assumes pool: "m_vmaPool p \<noteq> 0"
    and algn: "allocationAlignment (m_config p) \<noteq> 0"
    and nowrap: "unat (m_usedSize p) + unat sz + unat (allocationAlignment (m_config p)) \<le> 2 ^ 64"
  shows "(unat (m_usedSize p) + unat (alignSize sz (allocationAlignment (m_config p)))
            > unat (m_totalSize p)
          \<longrightarrow> allocateBuffer env sz p = (VK_ERROR_OUT_OF_DEVICE_MEMORY, None, p))
       \<and> m_totalSize (snd (snd (allocateBuffer env sz p))) = m_totalSize p
       \<and> (m_usedSize p \<le> m_totalSize p
          \<longrightarrow> m_usedSize (snd (snd (allocateBuffer env sz p)))
               \<le> m_totalSize (snd (snd (allocateBuffer env sz p))))
       \<and> (m_usedSize p \<le> m_totalSize p
          \<longrightarrow> m_usedSize (snd (resize newSize p)) \<le> m_totalSize (snd (resize newSize p)))"
proof -
  let ?al = "allocationAlignment (m_config p)"
  have cn: "canAllocate sz ?al p \<longleftrightarrow>
         unat (m_usedSize p) + unat (alignSize sz ?al) \<le> unat (m_totalSize p)"
    by (rule canAllocate_nat[OF algn nowrap])
  have ge: "unat sz \<le> unat (alignSize sz ?al)"
    using alignSize_bounds[OF algn, of sz] nowrap by simp
  have a: "unat (m_usedSize p) + unat (alignSize sz ?al) > unat (m_totalSize p)
          \<longrightarrow> allocateBuffer env sz p = (VK_ERROR_OUT_OF_DEVICE_MEMORY, None, p)"
    using cn by (simp add: allocateBuffer_existing_cases[OF pool])
  have b: "m_totalSize (snd (snd (allocateBuffer env sz p))) = m_totalSize p"
    by (simp add: allocateBuffer_existing_cases[OF pool])
  have c: "m_usedSize (snd (snd (allocateBuffer env sz p)))
               \<le> m_totalSize (snd (snd (allocateBuffer env sz p)))"
    if inv: "m_usedSize p \<le> m_totalSize p"
  proof (cases "canAllocate sz ?al p \<and> vmaCreate_result env = VK_SUCCESS")
    case False
    then show ?thesis using inv by (auto simp add: allocateBuffer_existing_cases[OF pool])
  next
    case True
    then have le: "unat (m_usedSize p) + unat sz \<le> unat (m_totalSize p)" using cn ge by linarith
    have "unat (m_totalSize p) < 2 ^ 64" using unsigned_less[of "m_totalSize p"] by simp
    then have "unat (m_usedSize p + sz) = unat (m_usedSize p) + unat sz"
      using unat_add_lem[of "m_usedSize p" sz] le by simp
    then have "m_usedSize p + sz \<le> m_totalSize p" using le by (simp add: word_le_nat_alt)
    then show ?thesis using True by (simp add: allocateBuffer_existing_cases[OF pool])
  qed
  have d: "m_usedSize (snd (resize newSize p)) \<le> m_totalSize (snd (resize newSize p))"
    if inv: "m_usedSize p \<le> m_totalSize p"
    using inv by (auto simp add: resize_def not_less)
  show ?thesis using a b c d by blast
qed


theorem C3_allocateBuffer_witness:
  "m_vmaPool \<lparr> m_type = VertexBuffer, m_config = default_typeConfig VertexBuffer, m_vmaPool = 1,
               m_totalSize = 1024, m_usedSize = 768, m_activeAllocations = 3,
               m_allocations = [10, 11, 12] \<rparr> \<noteq> 0
   \<and> allocationAlignment (default_typeConfig VertexBuffer) = 256
   \<and> alignSize 300 256 = 512
   \<and> allocateBuffer (vma_ok 20 0) 300
        \<lparr> m_type = VertexBuffer, m_config = default_typeConfig VertexBuffer, m_vmaPool = 1,
          m_totalSize = 1024, m_usedSize = 768, m_activeAllocations = 3,
          m_allocations = [10, 11, 12] \<rparr>
     = (VK_ERROR_OUT_OF_DEVICE_MEMORY, None,
        \<lparr> m_type = VertexBuffer, m_config = default_typeConfig VertexBuffer, m_vmaPool = 1,
          m_totalSize = 1024, m_usedSize = 768, m_activeAllocations = 3,
          m_allocations = [10, 11, 12] \<rparr>)
   \<and> m_usedSize (snd (resize 2048
        \<lparr> m_type = VertexBuffer, m_config = default_typeConfig VertexBuffer, m_vmaPool = 1,
          m_totalSize = 1024, m_usedSize = 768, m_activeAllocations = 3,
          m_allocations = [10, 11, 12] \<rparr>))
     \<le> m_totalSize (snd (resize 2048
        \<lparr> m_type = VertexBuffer, m_config = default_typeConfig VertexBuffer, m_vmaPool = 1,
          m_totalSize = 1024, m_usedSize = 768, m_activeAllocations = 3,
          m_allocations = [10, 11, 12] \<rparr>))"
proof -
  let ?p = "\<lparr> m_type = VertexBuffer, m_config = default_typeConfig VertexBuffer, m_vmaPool = 1,
               m_totalSize = 1024, m_usedSize = 768, m_activeAllocations = 3,
               m_allocations = [10, 11, 12] \<rparr>"
  have al: "allocationAlignment (default_typeConfig VertexBuffer) = 256"
    by (simp add: default_typeConfig_def)
  have h1: "m_vmaPool ?p \<noteq> 0" by simp
  have h2: "allocationAlignment (m_config ?p) \<noteq> 0" by (simp add: al)
  have h3: "unat (m_usedSize ?p) + unat (300 :: size_t) + unat (allocationAlignment (m_config ?p))
      \<le> 2 ^ 64" by (simp add: al)
  have as: "alignSize 300 256 = 512" by (simp add: alignSize_def)
  have over: "unat (m_usedSize ?p) + unat (alignSize 300 (allocationAlignment (m_config ?p)))
      > unat (m_totalSize ?p)" by (simp add: al as)
  have inv: "m_usedSize ?p \<le> m_totalSize ?p" by simp
  show ?thesis
    using C3_allocateBuffer_respects_capacity[OF h1 h2 h3, of "vma_ok 20 0" 2048] over inv al as
    by simp
qed

section \<open>Memory pools: accounting\<close>

lemma allocateBuffer_success:
  assumes "allocateBuffer env sz p = (VK_SUCCESS, Some a, p1)"
  shows "m_usedSize p1 = m_usedSize p + sz
       \<and> m_activeAllocations p1 = m_activeAllocations p + 1
       \<and> a_size a = sz
       \<and> a_allocation a = vmaCreate_allocation env
       \<and> a_buffer a = vmaCreate_handle env"
  using assms
  by (auto simp add: allocateBuffer_def createPool_def Let_def split: if_splits prod.splits)

lemma deallocate_valid:
  assumes "isValid a"
  shows "m_usedSize (deallocate (Some a) p) = m_usedSize p - a_size a
       \<and> m_activeAllocations (deallocate (Some a) p) = m_activeAllocations p - 1"
  using assms by (simp add: deallocate_def)

lemma deallocateAll_valid:
  assumes "list_all (\<lambda>a. isValid a \<and> a_size a = sz) allocs"
  shows "m_usedSize (deallocateAll allocs p) = m_usedSize p - of_nat (length allocs) * sz
       \<and> m_activeAllocations (deallocateAll allocs p)
           = m_activeAllocations p - of_nat (length allocs)"
  using assms
proof (induction allocs arbitrary: p)
  case Nil
  then show ?case by simp
next
  case (Cons a allocs)
  have v: "isValid a" and sa: "a_size a = sz"
    and rest: "list_all (\<lambda>a. isValid a \<and> a_size a = sz) allocs"
    using Cons.prems by simp_all
  note ih = Cons.IH[OF rest, of "deallocate (Some a) p"]
  note d = deallocate_valid[OF v, of p]
  have u: "m_usedSize (deallocateAll (a # allocs) p)
      = m_usedSize p - sz - of_nat (length allocs) * sz"
    using ih d sa by simp
  have c: "m_activeAllocations (deallocateAll (a # allocs) p)
      = m_activeAllocations p - 1 - of_nat (length allocs)"
    using ih d by simp
  show ?case unfolding u c by (simp add: algebra_simps)
qed

lemma allocateBuffers_result:
  assumes "allocateBuffers envs sz p = Some (allocs, p')"
    and "list_all (\<lambda>env. vmaCreate_allocation env \<noteq> 0 \<and> vmaCreate_handle env \<noteq> 0) envs"
  shows "m_usedSize p' = m_usedSize p + of_nat (length envs) * sz
       \<and> m_activeAllocations p' = m_activeAllocations p + of_nat (length envs)
       \<and> length allocs = length envs
       \<and> list_all (\<lambda>a. isValid a \<and> a_size a = sz) allocs"
  using assms
proof (induction envs arbitrary: p allocs)
  case Nil
  then show ?case by simp
next
  case (Cons env envs)
  from Cons.prems(1) obtain a p1 allocs' where
      s1: "allocateBuffer env sz p = (VK_SUCCESS, Some a, p1)"
    and s2: "allocateBuffers envs sz p1 = Some (allocs', p')"
    and al: "allocs = a # allocs'"
    by (auto split: prod.splits VkResult.splits option.splits)
  have v: "isValid a \<and> a_size a = sz"
    using allocateBuffer_success[OF s1] Cons.prems(2) by (simp add: isValid_def)
  have ih: "m_usedSize p' = m_usedSize p1 + of_nat (length envs) * sz
       \<and> m_activeAllocations p' = m_activeAllocations p1 + of_nat (length envs)
       \<and> length allocs' = length envs
       \<and> list_all (\<lambda>a. isValid a \<and> a_size a = sz) allocs'"
    using Cons.IH[OF s2] Cons.prems(2) by simp
  show ?case using ih v al allocateBuffer_success[OF s1] by (simp add: algebra_simps)
qed

text \<open>
  Claim C4, as stated: after \<open>N\<close> successful buffer allocations of size \<open>S\<close> the used size is
  \<open>N\<close> times \<open>S\<close> rounded up to the alignment. One allocation of 100 bytes from a new
  vertex-buffer pool (alignment 256): the used size is 100, the rounded size is 256.
\<close>

theorem C4_used_size_counterexample:
  "map_option (\<lambda>r. m_usedSize (snd r))
      (allocateBuffers [vma_ok 0 0] 100
         (TerrainMemoryPool_new VertexBuffer (default_typeConfig VertexBuffer)))
     = Some 100
   \<and> of_nat (length [vma_ok 0 0])
       * alignSize 100 (allocationAlignment (default_typeConfig VertexBuffer)) = (256 :: size_t)"
  by (simp add: allocateBuffer_def createPool_def TerrainMemoryPool_new_def canAllocate_def
      default_typeConfig_def Let_def vma_ok_def alignSize_def)

text \<open>
  Claim C4, amended: the pool adds the requested size, not the aligned one. After \<open>N\<close>
  successful buffer allocations of size \<open>S\<close> (for which the allocator library handed out
  non-null handles) the used size has grown by \<open>N * S\<close> and the allocation count by \<open>N\<close>;
  after these \<open>N\<close> allocations are deallocated, both are back at their values before, which
  are 0 for a new pool.
\<close>

theorem C4_used_is_sum_of_requested_sizes:
  assumes "allocateBuffers envs sz p = Some (allocs, p')"
    and "list_all (\<lambda>env. vmaCreate_allocation env \<noteq> 0 \<and> vmaCreate_handle env \<noteq> 0) envs"
  shows "m_usedSize p' = m_usedSize p + of_nat (length envs) * sz
       \<and> m_activeAllocations p' = m_activeAllocations p + of_nat (length envs)
       \<and> length allocs = length envs
       \<and> m_usedSize (deallocateAll allocs p') = m_usedSize p
       \<and> m_activeAllocations (deallocateAll allocs p') = m_activeAllocations p"
proof -
  note r = allocateBuffers_result[OF assms]
  have d: "m_usedSize (deallocateAll allocs p') = m_usedSize p' - of_nat (length allocs) * sz
       \<and> m_activeAllocations (deallocateAll allocs p')
           = m_activeAllocations p' - of_nat (length allocs)"
    using r by (intro deallocateAll_valid) simp
  show ?thesis using r d by simp
qed

lemma two_allocations:
  "allocateBuffers [vma_ok 0 0, vma_ok 10 0] 100
      (TerrainMemoryPool_new VertexBuffer (default_typeConfig VertexBuffer))
   = Some ([\<lparr> a_object = 4, a_allocation = 3, a_buffer = 2, a_image = 0, a_type = VertexBuffer,
               a_size = 100, a_alignment = 256 \<rparr>,
            \<lparr> a_object = 14, a_allocation = 13, a_buffer = 12, a_image = 0,
               a_type = VertexBuffer, a_size = 100, a_alignment = 256 \<rparr>],
           \<lparr> m_type = VertexBuffer, m_config = default_typeConfig VertexBuffer, m_vmaPool = 1,
             m_totalSize = 134217728, m_usedSize = 200, m_activeAllocations = 2,
             m_allocations = [4, 14] \<rparr>)"
  by (simp add: allocateBuffer_def createPool_def TerrainMemoryPool_new_def canAllocate_def
      default_typeConfig_def Let_def vma_ok_def)

theorem C4_used_size_witness:
  "allocateBuffers [vma_ok 0 0, vma_ok 10 0] 100
      (TerrainMemoryPool_new VertexBuffer (default_typeConfig VertexBuffer))
   = Some ([\<lparr> a_object = 4, a_allocation = 3, a_buffer = 2, a_image = 0, a_type = VertexBuffer,
               a_size = 100, a_alignment = 256 \<rparr>,
            \<lparr> a_object = 14, a_allocation = 13, a_buffer = 12, a_image = 0,
               a_type = VertexBuffer, a_size = 100, a_alignment = 256 \<rparr>],
           \<lparr> m_type = VertexBuffer, m_config = default_typeConfig VertexBuffer, m_vmaPool = 1,
             m_totalSize = 134217728, m_usedSize = 200, m_activeAllocations = 2,
             m_allocations = [4, 14] \<rparr>)
   \<and> list_all (\<lambda>env. vmaCreate_allocation env \<noteq> 0 \<and> vmaCreate_handle env \<noteq> 0)
        [vma_ok 0 0, vma_ok 10 0]
   \<and> m_usedSize (deallocateAll
        [\<lparr> a_object = 4, a_allocation = 3, a_buffer = 2, a_image = 0, a_type = VertexBuffer,
               a_size = 100, a_alignment = 256 \<rparr>,
            \<lparr> a_object = 14, a_allocation = 13, a_buffer = 12, a_image = 0,
               a_type = VertexBuffer, a_size = 100, a_alignment = 256 \<rparr>]
        \<lparr> m_type = VertexBuffer, m_config = default_typeConfig VertexBuffer, m_vmaPool = 1,
             m_totalSize = 134217728, m_usedSize = 200, m_activeAllocations = 2,
             m_allocations = [4, 14] \<rparr>) = 0
   \<and> m_activeAllocations (deallocateAll
        [\<lparr> a_object = 4, a_allocation = 3, a_buffer = 2, a_image = 0, a_type = VertexBuffer,
               a_size = 100, a_alignment = 256 \<rparr>,
            \<lparr> a_object = 14, a_allocation = 13, a_buffer = 12, a_image = 0,
               a_type = VertexBuffer, a_size = 100, a_alignment = 256 \<rparr>]
        \<lparr> m_type = VertexBuffer, m_config = default_typeConfig VertexBuffer, m_vmaPool = 1,
             m_totalSize = 134217728, m_usedSize = 200, m_activeAllocations = 2,
             m_allocations = [4, 14] \<rparr>) = 0"
proof -
  have h2: "list_all (\<lambda>env. vmaCreate_allocation env \<noteq> 0 \<and> vmaCreate_handle env \<noteq> 0)
        [vma_ok 0 0, vma_ok 10 0]" by (simp add: vma_ok_def)
  show ?thesis
    using C4_used_is_sum_of_requested_sizes[OF two_allocations h2] two_allocations h2
    by (simp add: TerrainMemoryPool_new_def)
qed

section \<open>Memory pools: the fragmentation estimate\<close>

lemma getFragmentation_zero: "getFragmentation p = 0"
proof -
  have "real (unat w) / real (unat w) = 1" if "w \<noteq> 0" for w :: size_t
    using that by (simp add: unsigned_eq_0_iff)
  then show ?thesis by (simp add: getFragmentation_def Let_def)
qed

lemma fold_fragmentation:
  "fold (\<lambda>p acc. acc + getFragmentation p) ps a = a"
  by (induction ps arbitrary: a) (simp_all add: getFragmentation_zero)

lemma updateGlobalStats_fragmentation:
  "fragmentation (updateGlobalStats pools st) = 0"
  by (simp add: updateGlobalStats_def Let_def fold_fragmentation)

text \<open>
  Claim C10. \<open>getFragmentation\<close> is 0 for every pool, whatever its sizes: the estimate of
  the largest free block is the total free memory itself, so the quotient is 1 (or the
  function returns 0 before dividing). The statistics that the background worker reads are
  the initial ones or the result of \<open>updateGlobalStats\<close>, the average of these zeros; so for
  every positive threshold the worker's test for defragmentation is false.
\<close>

theorem C10_fragmentation_is_zero:
  assumes "0 < defragmentationThreshold config"
  shows "getFragmentation p = 0
       \<and> fragmentation (updateGlobalStats pools st) = 0
       \<and> \<not> defragmentation_due (updateGlobalStats pools st) config
       \<and> \<not> defragmentation_due TerrainMemoryStats_new config"
  using assms
  by (simp add: getFragmentation_zero updateGlobalStats_fragmentation defragmentation_due_def
      TerrainMemoryStats_new_def)

theorem C10_fragmentation_witness:
  "0 < defragmentationThreshold
         \<lparr> maxTotalMemory = 2147483648, warningThreshold = 0.8, criticalThreshold = 0.95,
           enableAutoDefragmentation = True, defragmentationThreshold = 0.3,
           maxDefragmentationTime = 16 \<rparr>
   \<and> getFragmentation
        \<lparr> m_type = VertexBuffer, m_config = default_typeConfig VertexBuffer, m_vmaPool = 1,
          m_totalSize = 1024, m_usedSize = 768, m_activeAllocations = 3,
          m_allocations = [10, 11, 12] \<rparr> = 0
   \<and> \<not> defragmentation_due
         (updateGlobalStats
            [(VertexBuffer,
              \<lparr> m_type = VertexBuffer, m_config = default_typeConfig VertexBuffer, m_vmaPool = 1,
                m_totalSize = 1024, m_usedSize = 768, m_activeAllocations = 3,
                m_allocations = [10, 11, 12] \<rparr>)]
            TerrainMemoryStats_new)
         \<lparr> maxTotalMemory = 2147483648, warningThreshold = 0.8, criticalThreshold = 0.95,
           enableAutoDefragmentation = True, defragmentationThreshold = 0.3,
           maxDefragmentationTime = 16 \<rparr>"
proof -
  let ?cfg = "\<lparr> maxTotalMemory = 2147483648, warningThreshold = 0.8, criticalThreshold = 0.95,
           enableAutoDefragmentation = True, defragmentationThreshold = 0.3,
           maxDefragmentationTime = 16 \<rparr>"
  have h: "0 < defragmentationThreshold ?cfg" by simp
  show ?thesis using C10_fragmentation_is_zero[OF h] h by simp
qed

section \<open>Single-precision rounding\<close>

text \<open>
  Powers of two with an integer exponent, and the binade of a positive real.
\<close>

lemma pow2_powr: "pow2 e = 2 powr (real_of_int e)"
  by (simp add: pow2_def powr_real_of_int inverse_eq_divide)

lemma pow2_pos: "0 < pow2 e"
  by (simp add: pow2_powr)

lemma pow2_add: "pow2 (a + b) = pow2 a * pow2 b"
  by (simp add: pow2_powr powr_add)

lemma pow2_mono: "a \<le> b \<Longrightarrow> pow2 a \<le> pow2 b"
  by (simp add: pow2_powr)

lemma pow2_int: "0 \<le> n \<Longrightarrow> pow2 n = of_int (2 ^ nat n)"
  by (simp add: pow2_def)

lemma binade:
  assumes "0 < a"
  shows "pow2 \<lfloor>log 2 a\<rfloor> \<le> a" and "a < pow2 (\<lfloor>log 2 a\<rfloor> + 1)"
proof -
  have "2 powr (of_int \<lfloor>log 2 a\<rfloor>) \<le> 2 powr (log 2 a)"
    by (intro powr_mono) simp_all
  then show "pow2 \<lfloor>log 2 a\<rfloor> \<le> a" using assms by (simp add: pow2_powr)
  have "log 2 a < of_int (\<lfloor>log 2 a\<rfloor> + 1)" by linarith
  then have "2 powr (log 2 a) < 2 powr (of_int (\<lfloor>log 2 a\<rfloor> + 1))"
    by (intro powr_less_mono) simp_all
  then show "a < pow2 (\<lfloor>log 2 a\<rfloor> + 1)" using assms by (simp add: pow2_powr)
qed

lemma floor_log_mono: "0 < a \<Longrightarrow> a \<le> b \<Longrightarrow> \<lfloor>log 2 a\<rfloor> \<le> \<lfloor>log 2 b\<rfloor>"
  by (intro floor_mono) simp

lemma round_even_int: "round_even (of_int n) = n"
  by (simp add: round_even_def)

lemma round_even_bounds: "\<lfloor>yr\<rfloor> \<le> round_even yr" "round_even yr \<le> \<lfloor>yr\<rfloor> + 1"
  by (simp_all add: round_even_def Let_def)

lemma round_even_mono:
  assumes "xr \<le> yr"
  shows "round_even xr \<le> round_even yr"
proof (cases "\<lfloor>xr\<rfloor> = \<lfloor>yr\<rfloor>")
  case True
  then show ?thesis using assms by (auto simp add: round_even_def Let_def)
next
  case False
  then have "\<lfloor>xr\<rfloor> < \<lfloor>yr\<rfloor>" using assms floor_mono[of xr yr] by linarith
  then have "round_even xr \<le> \<lfloor>yr\<rfloor>" using round_even_bounds(2)[of xr] by linarith
  then show ?thesis using round_even_bounds(1)[of yr] by linarith
qed

lemma pow2_divide: "pow2 a / pow2 b = pow2 (a - b)"
proof -
  have "pow2 a = pow2 (a - b) * pow2 b" using pow2_add[of "a - b" b] by simp
  then show ?thesis using pow2_pos[of b] by simp
qed

lemma pow2_less_cancel: "pow2 a < pow2 b \<Longrightarrow> a < b"
  using pow2_mono[of b a] by linarith

lemma round_magnitude_nonneg: "0 < a \<Longrightarrow> 0 \<le> round_magnitude a"
proof -
  assume a: "0 < a"
  have "0 \<le> a / pow2 e" for e using a pow2_pos[of e] by simp
  then have "round_even 0 \<le> round_even (a / pow2 e)" for e by (intro round_even_mono)
  then have "0 \<le> round_even (a / pow2 e)" for e using round_even_int[of 0] by simp
  then show ?thesis using pow2_pos by (simp add: round_magnitude_def Let_def less_imp_le)
qed

lemma round_magnitude_mono:
  assumes a: "0 < a" and ab: "a \<le> b"
  shows "round_magnitude a \<le> round_magnitude b"
proof -
  define ea where "ea = \<lfloor>log 2 a\<rfloor>"
  define eb where "eb = \<lfloor>log 2 b\<rfloor>"
  define Ea where "Ea = max (ea - 23) (- 149)"
  define Eb where "Eb = max (eb - 23) (- 149)"
  have b: "0 < b" using a ab by simp
  have e: "ea \<le> eb" unfolding ea_def eb_def by (rule floor_log_mono[OF a ab])
  have ra: "round_magnitude a = of_int (round_even (a / pow2 Ea)) * pow2 Ea"
    by (simp add: round_magnitude_def Let_def ea_def Ea_def)
  have rb: "round_magnitude b = of_int (round_even (b / pow2 Eb)) * pow2 Eb"
    by (simp add: round_magnitude_def Let_def eb_def Eb_def)
  show ?thesis
  proof (cases "Ea = Eb")
    case True
    have "a / pow2 Eb \<le> b / pow2 Eb" using ab pow2_pos[of Eb] by (simp add: divide_right_mono)
    then have "round_even (a / pow2 Eb) \<le> round_even (b / pow2 Eb)" by (rule round_even_mono)
    then have "of_int (round_even (a / pow2 Eb)) * pow2 Eb
             \<le> of_int (round_even (b / pow2 Eb)) * pow2 Eb"
      using pow2_pos[of Eb] by (intro mult_right_mono) simp_all
    then show ?thesis unfolding ra rb True .
  next
    case False
    then have lt: "Ea < Eb" using e unfolding Ea_def Eb_def by linarith
    then have Eb: "Eb = eb - 23" unfolding Ea_def Eb_def by linarith
    have eab: "ea + 1 \<le> eb" using lt Eb unfolding Ea_def by linarith
    have d: "0 \<le> eb - Ea" using lt Eb by simp
    have "a < pow2 (ea + 1)" unfolding ea_def by (rule binade(2)[OF a])
    also have "\<dots> \<le> pow2 eb" by (rule pow2_mono[OF eab])
    finally have "a / pow2 Ea \<le> pow2 eb / pow2 Ea"
      using pow2_pos[of Ea] by (simp add: divide_right_mono)
    also have "\<dots> = of_int (2 ^ nat (eb - Ea))" by (simp only: pow2_divide pow2_int[OF d])
    finally have "round_even (a / pow2 Ea) \<le> round_even (of_int (2 ^ nat (eb - Ea)))"
      by (rule round_even_mono)
    then have "round_even (a / pow2 Ea) \<le> 2 ^ nat (eb - Ea)" by (simp only: round_even_int)
    then have "real_of_int (round_even (a / pow2 Ea)) \<le> of_int (2 ^ nat (eb - Ea))"
      by (simp only: of_int_le_iff)
    then have "of_int (round_even (a / pow2 Ea)) * pow2 Ea \<le> of_int (2 ^ nat (eb - Ea)) * pow2 Ea"
      using pow2_pos[of Ea] by (intro mult_right_mono) simp_all
    also have "\<dots> = pow2 (eb - Ea) * pow2 Ea" by (simp only: pow2_int[OF d])
    also have "\<dots> = pow2 eb" using pow2_add[of "eb - Ea" Ea] by simp
    finally have 1: "round_magnitude a \<le> pow2 eb" unfolding ra .
    have "pow2 eb \<le> b" unfolding eb_def by (rule binade(1)[OF b])
    then have "pow2 eb / pow2 Eb \<le> b / pow2 Eb"
      using pow2_pos[of Eb] by (simp add: divide_right_mono)
    moreover have "pow2 eb / pow2 Eb = of_int (2 ^ nat 23)"
      unfolding pow2_divide Eb using pow2_int[of 23] by simp
    ultimately have "round_even (of_int (2 ^ nat 23)) \<le> round_even (b / pow2 Eb)"
      by (intro round_even_mono) simp
    then have "2 ^ nat 23 \<le> round_even (b / pow2 Eb)" by (simp only: round_even_int)
    then have "real_of_int (2 ^ nat 23) \<le> of_int (round_even (b / pow2 Eb))"
      by (simp only: of_int_le_iff)
    then have "of_int (2 ^ nat 23) * pow2 Eb \<le> of_int (round_even (b / pow2 Eb)) * pow2 Eb"
      using pow2_pos[of Eb] by (intro mult_right_mono) simp_all
    moreover have "of_int (2 ^ nat 23) * pow2 Eb = pow2 eb"
      using pow2_add[of 23 Eb] pow2_int[of 23] unfolding Eb by simp
    ultimately have 2: "pow2 eb \<le> round_magnitude b" unfolding rb by simp
    show ?thesis using 1 2 by simp
  qed
qed

lemma round_magnitude_exact:
  assumes m: "0 < m" "m < 2 ^ 24" and e: "- 149 \<le> e"
  shows "round_magnitude (of_int m * pow2 e) = of_int m * pow2 e"
proof -
  define a where "a = real_of_int m * pow2 e"
  define ea where "ea = \<lfloor>log 2 a\<rfloor>"
  define E where "E = max (ea - 23) (- 149)"
  have a: "0 < a" using m(1) pow2_pos[of e] by (simp add: a_def)
  have "real_of_int m < of_int (2 ^ 24)" using m(2) by (simp only: of_int_less_iff)
  then have "a < of_int (2 ^ 24) * pow2 e"
    unfolding a_def using pow2_pos[of e] by (intro mult_strict_right_mono) simp_all
  also have "\<dots> = pow2 (24 + e)" using pow2_add[of 24 e] pow2_int[of 24] by simp
  finally have "pow2 ea < pow2 (24 + e)" using binade(1)[OF a] unfolding ea_def by simp
  then have "ea < 24 + e" by (rule pow2_less_cancel)
  then have E: "E \<le> e" using e unfolding E_def by linarith
  then have d: "0 \<le> e - E" by simp
  have "a / pow2 E = of_int m * (pow2 e / pow2 E)" by (simp add: a_def)
  also have "\<dots> = of_int m * of_int (2 ^ nat (e - E))" by (simp only: pow2_divide pow2_int[OF d])
  also have "\<dots> = of_int (m * 2 ^ nat (e - E))" by simp
  finally have q: "a / pow2 E = of_int (m * 2 ^ nat (e - E))" .
  have "round_magnitude a = of_int (round_even (a / pow2 E)) * pow2 E"
    by (simp add: round_magnitude_def Let_def ea_def E_def)
  also have "\<dots> = of_int (m * 2 ^ nat (e - E)) * pow2 E" by (simp only: q round_even_int)
  also have "\<dots> = a / pow2 E * pow2 E" by (simp only: q)
  also have "\<dots> = a" using pow2_pos[of E] by simp
  finally show ?thesis unfolding a_def .
qed

text \<open>
  Rounding is monotone, it is exact on every real that has a 24-bit significand and an
  exponent in range, and it never gives NaN. Addition is monotone up to NaN.
\<close>

lemma round32_mono:
  assumes "xr \<le> yr"
  shows "float_le (round32 xr) (round32 yr)"
proof -
  have pos: "float_le (round32 a) (round32 b)" if "0 < a" "a \<le> b" for a b
    using round_magnitude_mono[of a b] that by (simp add: round32_def Let_def)
  have neg: "float_le (round32 a) (round32 b)" if "b < 0" "a \<le> b" for a b
    using round_magnitude_mono[of "- b" "- a"] that by (simp add: round32_def Let_def)
  have lo: "float_le (round32 a) (Finite 0)" if "a \<le> 0" for a
    using round_magnitude_nonneg[of "- a"] that by (simp add: round32_def Let_def)
  have hi: "float_le (Finite 0) (round32 b)" if "0 \<le> b" for b
    using round_magnitude_nonneg[of b] that by (simp add: round32_def Let_def)
  consider "0 < xr" | "yr < 0" | "xr \<le> 0" "0 \<le> yr" by linarith
  then show ?thesis
  proof cases
    case 1
    then show ?thesis using assms by (rule pos)
  next
    case 2
    then show ?thesis using assms by (rule neg)
  next
    case 3
    then show ?thesis using lo[of xr] hi[of yr]
      by (cases "round32 xr"; cases "round32 yr") simp_all
  qed
qed

lemma round32_exact:
  assumes "xr = of_int m * pow2 e" and "\<bar>m\<bar> < 2 ^ 24" and "- 149 \<le> e" and "\<bar>xr\<bar> < 2 ^ 128"
  shows "round32 xr = Finite xr"
proof (cases "m = 0")
  case True
  then show ?thesis using assms(1) by (simp add: round32_def)
next
  case False
  have ax: "\<bar>xr\<bar> = of_int \<bar>m\<bar> * pow2 e"
    using assms(1) pow2_pos[of e] by (simp add: abs_mult)
  have "round_magnitude \<bar>xr\<bar> = \<bar>xr\<bar>"
    unfolding ax using False assms(2,3) by (intro round_magnitude_exact) simp_all
  moreover have "xr \<noteq> 0" using False assms(1) pow2_pos[of e] by simp
  ultimately show ?thesis using assms(4) by (simp add: round32_def Let_def)
qed

lemma round32_values:
  "round32 0 = Finite 0" "round32 1 = Finite 1" "round32 (- 1) = Finite (- 1)"
  "round32 (1 / 16) = Finite (1 / 16)" "round32 (- (1 / 32)) = Finite (- (1 / 32))"
  using round32_exact[of 1 1 0] round32_exact[of "- 1" "- 1" 0]
    round32_exact[of "1 / 16" 1 "- 4"] round32_exact[of "- (1 / 32)" "- 1" "- 5"]
  by (simp_all add: pow2_def round32_def)

lemma float_le_refl_trans:
  "float_le a b \<Longrightarrow> float_le b c \<Longrightarrow> float_le a c"
  by (cases a; cases b; cases c) simp_all

lemma float_le_not_less: "float_le a b \<Longrightarrow> \<not> float_less b a"
  by (cases a; cases b) simp_all

lemma float_less_le_trans: "float_le a b \<Longrightarrow> float_less b c \<Longrightarrow> float_less a c"
  by (cases a; cases b; cases c) simp_all

lemma float_add_mono:
  assumes "a = NaN \<or> a' = NaN \<or> float_le a a'" and "b = NaN \<or> b' = NaN \<or> float_le b b'"
  shows "float_add a b = NaN \<or> float_add a' b' = NaN \<or> float_le (float_add a b) (float_add a' b')"
proof -
  have fin: "float_le (round32 (p + q)) (round32 (p' + q'))" if "p \<le> p'" "q \<le> q'" for p q p' q'
    using that by (intro round32_mono) simp
  have r: "round32 z = NaN \<longleftrightarrow> False" for z by (simp add: round32_def Let_def)
  have refl: "float_le (round32 z) PosInf" "float_le NegInf (round32 z)" for z
    by (cases "round32 z"; simp add: r)+
  show ?thesis
    using assms
    by (cases a; cases a'; cases b; cases b') (simp_all add: fin refl)
qed

text \<open>
  Some roundings: a tie goes to the even neighbour, \<open>2^25 + 1\<close> loses its last bit, and
  \<open>0.1\<close> becomes \<open>13421773 / 2^27\<close>.
\<close>

lemma floor_log2: "pow2 k \<le> a \<Longrightarrow> a < pow2 (k + 1) \<Longrightarrow> \<lfloor>log 2 a\<rfloor> = k"
proof -
  assume h: "pow2 k \<le> a" "a < pow2 (k + 1)"
  have a: "0 < a" using h(1) pow2_pos[of k] by linarith
  have "2 powr real_of_int k \<le> a" "a < 2 powr (real_of_int k + 1)"
    using h by (simp_all add: pow2_powr)
  then show ?thesis using a by (subst floor_log_eq_powr_iff) simp_all
qed

lemma round32_examples:
  "round32 16777217 = Finite 16777216"
  "round32 16777219 = Finite 16777220"
  "round32 (- 33554433) = Finite (- 33554432)"
  "round32 (- 0.1) = Finite (- (13421773 / 134217728))"
proof -
  have e: "\<lfloor>log 2 (16777217::real)\<rfloor> = 24" "\<lfloor>log 2 (16777219::real)\<rfloor> = 24"
    "\<lfloor>log 2 (33554433::real)\<rfloor> = 25" "\<lfloor>log 2 (0.1::real)\<rfloor> = - 4"
    by (rule floor_log2, simp_all add: pow2_def)+
  have f: "\<lfloor>16777217 / 2 :: real\<rfloor> = 8388608" "\<lfloor>16777219 / 2 :: real\<rfloor> = 8388609"
    "\<lfloor>33554433 / 4 :: real\<rfloor> = 8388608" "\<lfloor>(1 / 10) * 134217728 :: real\<rfloor> = 13421772"
    by linarith+
  show "round32 16777217 = Finite 16777216"
    "round32 16777219 = Finite 16777220"
    "round32 (- 33554433) = Finite (- 33554432)"
    "round32 (- 0.1) = Finite (- (13421773 / 134217728))"
    by (simp_all add: round32_def round_magnitude_def e Let_def pow2_def round_even_def f)
qed

lemma round32_2_25: "round32 (- 33554432) = Finite (- 33554432)"
  using round32_exact[of "- 33554432" "- 1" 25] by (simp add: pow2_def)

section \<open>The box-against-frustum test\<close>

lemma planes_loop_iff:
  "planes_loop planes bmin bmax idx \<longleftrightarrow> (\<forall>i \<in> set idx. \<not> behind_plane (planes i) bmin bmax)"
  by (induction idx) auto

lemma behind_plane_distance:
  "behind_plane plane bmin bmax
     \<longleftrightarrow> float_less (plane_distance plane (positiveVertex (vec3_of plane) bmin bmax)) (Finite 0)"
  by (simp add: behind_plane_def plane_distance_def Let_def)

lemma positiveVertex_corner: "positiveVertex normal bmin bmax \<in> set (box_corners bmin bmax)"
  by (simp add: positiveVertex_def box_corners_def)

lemma box_outside_behind:
  "box_outside_plane plane bmin bmax \<Longrightarrow> behind_plane plane bmin bmax"
  using positiveVertex_corner[of "vec3_of plane" bmin bmax]
  by (auto simp add: box_outside_plane_def behind_plane_distance list_all_iff)

text \<open>
  Each product of the distance of a point of the box is at most the corresponding product
  of the distance of the positive vertex; rounding and addition keep the order.
\<close>

lemma positiveVertex_dominates:
  assumes "vx bmin \<le> vx v" "vx v \<le> vx bmax" "vy bmin \<le> vy v" "vy v \<le> vy bmax"
    "vz bmin \<le> vz v" "vz v \<le> vz bmax"
  shows "vx n * vx v \<le> vx n * vx (positiveVertex n bmin bmax)
       \<and> vy n * vy v \<le> vy n * vy (positiveVertex n bmin bmax)
       \<and> vz n * vz v \<le> vz n * vz (positiveVertex n bmin bmax)"
proof -
  have a: "vx n * vx v \<le> vx n * (if vx n \<ge> 0 then vx bmax else vx bmin)"
    using assms(1,2) by (auto intro: mult_left_mono mult_left_mono_neg)
  have b: "vy n * vy v \<le> vy n * (if vy n \<ge> 0 then vy bmax else vy bmin)"
    using assms(3,4) by (auto intro: mult_left_mono mult_left_mono_neg)
  have c: "vz n * vz v \<le> vz n * (if vz n \<ge> 0 then vz bmax else vz bmin)"
    using assms(5,6) by (auto intro: mult_left_mono mult_left_mono_neg)
  show ?thesis using a b c by (simp add: positiveVertex_def)
qed

lemma plane_distance_mono:
  assumes "vx (vec3_of plane) * vx v \<le> vx (vec3_of plane) * vx u"
    and "vy (vec3_of plane) * vy v \<le> vy (vec3_of plane) * vy u"
    and "vz (vec3_of plane) * vz v \<le> vz (vec3_of plane) * vz u"
  shows "plane_distance plane v = NaN \<or> plane_distance plane u = NaN
       \<or> float_le (plane_distance plane v) (plane_distance plane u)"
proof -
  let ?n = "vec3_of plane"
  have r1: "float_mul (vx ?n) (vx v) = NaN \<or> float_mul (vx ?n) (vx u) = NaN
        \<or> float_le (float_mul (vx ?n) (vx v)) (float_mul (vx ?n) (vx u))"
    using round32_mono[OF assms(1)] by (simp add: float_mul_def)
  have r2: "float_mul (vy ?n) (vy v) = NaN \<or> float_mul (vy ?n) (vy u) = NaN
        \<or> float_le (float_mul (vy ?n) (vy v)) (float_mul (vy ?n) (vy u))"
    using round32_mono[OF assms(2)] by (simp add: float_mul_def)
  have r3: "float_mul (vz ?n) (vz v) = NaN \<or> float_mul (vz ?n) (vz u) = NaN
        \<or> float_le (float_mul (vz ?n) (vz v)) (float_mul (vz ?n) (vz u))"
    using round32_mono[OF assms(3)] by (simp add: float_mul_def)
  have r4: "Finite (pw plane) = NaN \<or> Finite (pw plane) = NaN
        \<or> float_le (Finite (pw plane)) (Finite (pw plane))"
    by simp
  note s1 = float_add_mono[OF r1 r2]
  note s2 = float_add_mono[OF s1 r3]
  note s3 = float_add_mono[OF s2 r4]
  show ?thesis using s3 by (simp only: plane_distance_def float_dot_def)
qed

lemma inside_not_behind:
  assumes "contains b v" and "float_le (Finite 0) (plane_distance plane v)"
  shows "\<not> behind_plane plane (min_b b) (max_b b)"
proof -
  let ?u = "positiveVertex (vec3_of plane) (min_b b) (max_b b)"
  have d: "vx (vec3_of plane) * vx v \<le> vx (vec3_of plane) * vx ?u
       \<and> vy (vec3_of plane) * vy v \<le> vy (vec3_of plane) * vy ?u
       \<and> vz (vec3_of plane) * vz v \<le> vz (vec3_of plane) * vz ?u"
    using assms(1) by (intro positiveVertex_dominates) (simp_all add: contains_def)
  have "plane_distance plane v = NaN \<or> plane_distance plane ?u = NaN
       \<or> float_le (plane_distance plane v) (plane_distance plane ?u)"
    using d by (intro plane_distance_mono) simp_all
  moreover have "plane_distance plane v \<noteq> NaN" using assms(2) by auto
  moreover have "\<not> float_less NaN (Finite 0)" by simp
  moreover have "\<not> float_less (plane_distance plane ?u) (Finite 0)"
    if "float_le (plane_distance plane v) (plane_distance plane ?u)"
    using float_le_not_less[OF float_le_refl_trans[OF assms(2) that]] .
  ultimately show ?thesis unfolding behind_plane_distance by metis
qed

lemma planes_loop_outside:
  "i < 6 \<Longrightarrow> box_outside_plane (planes i) bmin bmax \<Longrightarrow> \<not> planes_loop planes bmin bmax [0..<6]"
  using box_outside_behind by (fastforce simp add: planes_loop_iff)

lemma planes_loop_inside:
  "contains bb v \<Longrightarrow> inside_frustum planes v \<Longrightarrow> planes_loop planes (min_b bb) (max_b bb) [0..<6]"
  using inside_not_behind[of bb v]
  by (auto simp add: planes_loop_iff inside_frustum_def list_all_iff)

text \<open>
  The distances of the test are the computed ones. In the box below every corner is at an
  exact distance of \<open>-1\<close> or less from the plane \<open>x + y + 2^25 = 0\<close>; the sum
  \<open>-2^25 + -1\<close> is rounded to \<open>-2^25\<close>, the computed distance of the positive vertex is 0,
  and the box is not behind the plane.
\<close>

lemma rounding_hides_a_distance:
  "list_all (\<lambda>c. dot (Vec3 1 1 0) c + 33554432 \<le> - 1)
     (box_corners (Vec3 (- 33554436) (- 2) (- 1)) (Vec3 (- 33554432) (- 1) 0))
   \<and> \<not> behind_plane (Vec4 1 1 0 33554432) (Vec3 (- 33554436) (- 2) (- 1))
         (Vec3 (- 33554432) (- 1) 0)"
  by (simp add: box_corners_def dot_def behind_plane_def vec3_of_def positiveVertex_def
      float_dot_def float_mul_def round32_values round32_2_25 round32_examples)

text \<open>Distances that are not negative, and distances from the near plane of the example.\<close>

lemma round32_nonneg: "0 \<le> xr \<Longrightarrow> float_le (Finite 0) (round32 xr)"
  using round32_mono[of 0 xr] by (simp add: round32_values)

lemma float_add_nonneg:
  "float_le (Finite 0) a \<Longrightarrow> float_le (Finite 0) b \<Longrightarrow> float_le (Finite 0) (float_add a b)"
  by (cases a; cases b) (simp_all add: round32_nonneg)

lemma plane_distance_nonneg:
  assumes "0 \<le> px plane * vx v" and "0 \<le> py plane * vy v" and "0 \<le> pz plane * vz v"
    and "0 \<le> pw plane"
  shows "float_le (Finite 0) (plane_distance plane v)"
  using assms
  by (simp add: plane_distance_def float_dot_def float_mul_def vec3_of_def float_add_nonneg
      round32_nonneg)

lemma near_plane_negative:
  assumes "- (1 / 16) \<le> vz v"
  shows "float_less (plane_distance (Vec4 0 0 (- 1) (- 0.1)) v) (Finite 0)"
proof -
  have e: "plane_distance (Vec4 0 0 (- 1) (- 0.1)) v
         = float_add (float_add (Finite 0) (round32 (- vz v))) (Finite (- 0.1))"
    by (simp add: plane_distance_def float_dot_def float_mul_def vec3_of_def round32_values)
  have low: "float_less (round32 (r + - 0.1)) (Finite 0)" if "r \<le> 1 / 16" for r :: real
  proof -
    have "r + - 0.1 \<le> - (1 / 32)" using that by simp
    then have "float_le (round32 (r + - 0.1)) (Finite (- (1 / 32)))"
      using round32_mono[of "r + - 0.1" "- (1 / 32)"] by (simp only: round32_values)
    then show ?thesis by (rule float_less_le_trans) simp
  qed
  have t: "float_le (round32 (- vz v)) (Finite (1 / 16))"
    using round32_mono[of "- vz v" "1 / 16"] assms by (simp add: round32_values)
  show ?thesis
  proof (cases "round32 (- vz v)")
    case (Finite r)
    then have r: "r \<le> 1 / 16" using t by simp
    then have le2: "float_le (round32 (0 + r)) (Finite (1 / 16))"
      using round32_mono[of "0 + r" "1 / 16"] by (simp add: round32_values)
    have s2: "float_add (Finite 0) (Finite r) = round32 (0 + r)" by (simp only: float_add.simps)
    show ?thesis
    proof (cases "round32 (0 + r)")
      case r2: (Finite r2)
      then have "r2 \<le> 1 / 16" using le2 by simp
      then have "float_less (round32 (r2 + - 0.1)) (Finite 0)" by (rule low)
      then show ?thesis unfolding e Finite s2 r2 by (simp only: float_add.simps)
    next
      case PosInf
      then show ?thesis using le2 by simp
    next
      case NegInf
      then show ?thesis unfolding e Finite s2 by simp
    next
      case NaN
      then show ?thesis using le2 by simp
    qed
  next
    case PosInf
    then show ?thesis using t by simp
  next
    case NegInf
    then show ?thesis unfolding e by simp
  next
    case NaN
    then show ?thesis using t by simp
  qed
qed

lemma glm_length_z: "glm_length (Vec3 0 0 c) = \<bar>c\<bar>"
  by (simp add: glm_length_def dot_def)

lemma near_plane_default:
  "Frustum_update (getViewProjectionMatrix TerrainCamera_default) 4 = Vec4 0 0 (- 1) (- 0.1)"
  by (simp add: Frustum_update_def extract_plane_def getViewProjectionMatrix_def getProjectionMatrix_def
      getViewMatrix_def TerrainCamera_default_def mat4_mul_def perspective_def lookAt_def
      normalize_def normalize_plane_def vec3_of_def glm_length_z vec3_sub_def vec3_add_def
      vec3_scale_def cross_def dot_def Let_def)

lemma far_plane_default:
  "Frustum_update (getViewProjectionMatrix TerrainCamera_default) 5 = Vec4 0 0 1 10000"
  by (simp add: Frustum_update_def extract_plane_def getViewProjectionMatrix_def getProjectionMatrix_def
      getViewMatrix_def TerrainCamera_default_def mat4_mul_def perspective_def lookAt_def
      normalize_def normalize_plane_def vec3_of_def glm_length_z vec3_sub_def vec3_add_def
      vec3_scale_def cross_def dot_def Let_def)

lemma default_view_projection:
  "getViewProjectionMatrix TerrainCamera_default 0 0 = 1 / tan (radians 45 / 2)"
  "getViewProjectionMatrix TerrainCamera_default (Suc 0) 0 = 0"
  "getViewProjectionMatrix TerrainCamera_default 2 0 = 0"
  "getViewProjectionMatrix TerrainCamera_default 3 0 = 0"
  "getViewProjectionMatrix TerrainCamera_default 0 (Suc 0) = 0"
  "getViewProjectionMatrix TerrainCamera_default (Suc 0) (Suc 0) = 1 / tan (radians 45 / 2)"
  "getViewProjectionMatrix TerrainCamera_default 2 (Suc 0) = 0"
  "getViewProjectionMatrix TerrainCamera_default 3 (Suc 0) = 0"
  "getViewProjectionMatrix TerrainCamera_default 0 2 = 0"
  "getViewProjectionMatrix TerrainCamera_default (Suc 0) 2 = 0"
  "getViewProjectionMatrix TerrainCamera_default 2 2 = - (100001 / 99999)"
  "getViewProjectionMatrix TerrainCamera_default 3 2 = - (20000 / 99999)"
  "getViewProjectionMatrix TerrainCamera_default 0 3 = 0"
  "getViewProjectionMatrix TerrainCamera_default (Suc 0) 3 = 0"
  "getViewProjectionMatrix TerrainCamera_default 2 3 = - 1"
  "getViewProjectionMatrix TerrainCamera_default 3 3 = 0"
  by (simp_all add: getViewProjectionMatrix_def getProjectionMatrix_def
      getViewMatrix_def TerrainCamera_default_def mat4_mul_def perspective_def lookAt_def
      normalize_def vec3_sub_def vec3_add_def
      vec3_scale_def cross_def dot_def Let_def)

text \<open>
  The left, right, bottom and top plane of the default camera pass through the camera
  position and their normals have a \<open>z\<close> that is not positive.
\<close>

lemma side_planes_default:
  assumes "i < 4"
  shows "pz (Frustum_update (getViewProjectionMatrix TerrainCamera_default) i) \<le> 0
       \<and> pw (Frustum_update (getViewProjectionMatrix TerrainCamera_default) i) = 0"
proof -
  let ?raw = "extract_plane (getViewProjectionMatrix TerrainCamera_default) i"
  have raw: "pz ?raw = - 1 \<and> pw ?raw = 0"
    using assms by (simp add: extract_plane_def default_view_projection)
  have "0 \<le> glm_length (vec3_of ?raw)" by (simp add: glm_length_def dot_def)
  then have "- 1 / glm_length (vec3_of ?raw) \<le> 0" by (simp add: divide_nonpos_nonneg)
  then show ?thesis using raw by (simp add: Frustum_update_def normalize_plane_def Let_def)
qed

lemma inside_default_frustum:
  "inside_frustum (Frustum_update (getViewProjectionMatrix TerrainCamera_default)) (Vec3 0 0 (- 1))"
proof -
  let ?F = "Frustum_update (getViewProjectionMatrix TerrainCamera_default)"
  have side: "float_le (Finite 0) (plane_distance (?F i) (Vec3 0 0 (- 1)))" if "i < 4" for i
    using side_planes_default[OF that]
    by (intro plane_distance_nonneg) (simp_all add: mult_nonpos_nonpos)
  have near: "float_le (Finite 0) (plane_distance (?F 4) (Vec3 0 0 (- 1)))"
    by (simp add: near_plane_default plane_distance_def float_dot_def float_mul_def vec3_of_def
        round32_values round32_nonneg)
  have far: "float_le (Finite 0) (plane_distance (?F 5) (Vec3 0 0 (- 1)))"
    by (simp add: far_plane_default plane_distance_def float_dot_def float_mul_def vec3_of_def
        round32_values round32_nonneg)
  have "float_le (Finite 0) (plane_distance (?F i) (Vec3 0 0 (- 1)))" if "i < 6" for i
  proof -
    from that consider "i < 4" | "i = 4" | "i = 5" by linarith
    then show ?thesis using side near far by cases simp_all
  qed
  then show ?thesis by (simp add: inside_frustum_def list_all_iff)
qed

lemma tile_000_bounds:
  "min_b (getTileBounds (dem 0 0 0)) = Vec3 0 0 0"
  "max_b (getTileBounds (dem 0 0 0)) = Vec3 1000 200 1000"
  "min_b (m_bounds (TerrainTile_new (dem 0 0 0))) = Vec3 0 0 0"
  "max_b (m_bounds (TerrainTile_new (dem 0 0 0))) = Vec3 1000 200 1000"
  by (simp_all add: getTileBounds_def TerrainTile_new_def calculateBounds_def dem_def Let_def)

lemma tile_0m10_bounds:
  "min_b (getTileBounds (dem 0 (- 1) 0)) = Vec3 0 0 (- 1000)"
  "max_b (getTileBounds (dem 0 (- 1) 0)) = Vec3 1000 200 0"
  "min_b (m_bounds (TerrainTile_new (dem 0 (- 1) 0))) = Vec3 0 0 (- 1000)"
  "max_b (m_bounds (TerrainTile_new (dem 0 (- 1) 0))) = Vec3 1000 200 0"
  by (simp_all add: getTileBounds_def TerrainTile_new_def calculateBounds_def dem_def Let_def)

lemma tile_000_outside_near_plane:
  "box_outside_plane (Frustum_update (getViewProjectionMatrix TerrainCamera_default) 4)
     (Vec3 0 0 0) (Vec3 1000 200 1000)"
  by (simp add: near_plane_default box_outside_plane_def box_corners_def near_plane_negative)

text \<open>
  Claim C6, as stated, second half: a box that contains the position of the camera whose
  view-projection matrix produced the planes is reported visible. The camera position lies
  behind the near plane of its own frustum. With the default camera (at the origin, looking
  along \<open>-z\<close>, near plane 0.1) the level-0 tile \<open>(0, 0)\<close>, the box from \<open>(0, 0, 0)\<close> to
  \<open>(1000, 200, 1000)\<close>, contains the camera position and lies entirely behind the near
  plane; \<open>isVisible\<close> and \<open>Frustum::intersects\<close> return \<open>false\<close> for it. So does
  \<open>Frustum::intersects\<close> for the cube of side 0.1 that has the camera position at its centre.
\<close>

theorem C6_camera_in_box_counterexample:
  "contains (m_bounds (TerrainTile_new (dem 0 0 0))) (position TerrainCamera_default)
   \<and> \<not> isVisible (Frustum_update (getViewProjectionMatrix TerrainCamera_default))
         (TerrainTile_new (dem 0 0 0))
   \<and> contains (getTileBounds (dem 0 0 0)) (position TerrainCamera_default)
   \<and> \<not> Frustum_intersects (Frustum_update (getViewProjectionMatrix TerrainCamera_default))
         (getTileBounds (dem 0 0 0))
   \<and> contains \<lparr> min_b = Vec3 (- 0.05) (- 0.05) (- 0.05), max_b = Vec3 0.05 0.05 0.05 \<rparr>
         (position TerrainCamera_default)
   \<and> \<not> Frustum_intersects (Frustum_update (getViewProjectionMatrix TerrainCamera_default))
         \<lparr> min_b = Vec3 (- 0.05) (- 0.05) (- 0.05), max_b = Vec3 0.05 0.05 0.05 \<rparr>"
proof -
  have c: "contains (m_bounds (TerrainTile_new (dem 0 0 0))) (position TerrainCamera_default)"
      "contains (getTileBounds (dem 0 0 0)) (position TerrainCamera_default)"
      "contains \<lparr> min_b = Vec3 (- 0.05) (- 0.05) (- 0.05), max_b = Vec3 0.05 0.05 0.05 \<rparr>
         (position TerrainCamera_default)"
    by (simp_all add: contains_def tile_000_bounds TerrainCamera_default_def)
  have "\<not> planes_loop (Frustum_update (getViewProjectionMatrix TerrainCamera_default))
          (Vec3 (- 0.05) (- 0.05) (- 0.05)) (Vec3 0.05 0.05 0.05) [0..<6]"
    by (rule planes_loop_outside[of 4])
      (simp_all add: near_plane_default box_outside_plane_def box_corners_def
        near_plane_negative)
  then have s: "\<not> Frustum_intersects (Frustum_update (getViewProjectionMatrix TerrainCamera_default))
         \<lparr> min_b = Vec3 (- 0.05) (- 0.05) (- 0.05), max_b = Vec3 0.05 0.05 0.05 \<rparr>"
    by (simp add: Frustum_intersects_def)
  have "\<not> planes_loop (Frustum_update (getViewProjectionMatrix TerrainCamera_default))
          (Vec3 0 0 0) (Vec3 1000 200 1000) [0..<6]"
    by (rule planes_loop_outside[of 4]) (simp_all add: tile_000_outside_near_plane)
  then show ?thesis
    using c s by (simp add: isVisible_def Frustum_intersects_def tile_000_bounds)
qed

text \<open>
  Claim C6, amended. The signed distance of a point from a plane is taken as the code
  computes it, in \<open>float\<close>. If each of the eight corners of the box has a negative distance
  from at least one and the same of the six planes, \<open>Frustum::intersects\<close> and
  \<open>TerrainTile::isVisible\<close> return not-visible; if the box contains a point whose distance
  from each of the six planes is not negative, they return visible; and
  \<open>TerrainTile::isVisible\<close> returns for a tile what \<open>Frustum::intersects\<close> returns for the bounds
  of the tile.
\<close>

theorem C6_frustum_test:
  "((\<exists>i<6. box_outside_plane (planes i) (min_b b1) (max_b b1)) \<longrightarrow> \<not> Frustum_intersects planes b1)
 \<and> ((\<exists>i<6. box_outside_plane (planes i) (min_b (m_bounds t1)) (max_b (m_bounds t1)))
       \<longrightarrow> \<not> isVisible planes t1)
 \<and> (contains b2 v \<and> inside_frustum planes v \<longrightarrow> Frustum_intersects planes b2)
 \<and> (contains (m_bounds t2) v \<and> inside_frustum planes v \<longrightarrow> isVisible planes t2)
 \<and> isVisible planes t3 = Frustum_intersects planes (m_bounds t3)"
  using planes_loop_outside[of _ planes] planes_loop_inside[of b2 v planes]
    planes_loop_inside[of "m_bounds t2" v planes]
  by (auto simp add: Frustum_intersects_def isVisible_def)

theorem C6_frustum_test_witness:
  "(\<exists>i<6. box_outside_plane (Frustum_update (getViewProjectionMatrix TerrainCamera_default) i)
             (min_b (getTileBounds (dem 0 0 0))) (max_b (getTileBounds (dem 0 0 0))))
   \<and> \<not> Frustum_intersects (Frustum_update (getViewProjectionMatrix TerrainCamera_default))
         (getTileBounds (dem 0 0 0))
   \<and> (\<exists>i<6. box_outside_plane (Frustum_update (getViewProjectionMatrix TerrainCamera_default) i)
             (min_b (m_bounds (TerrainTile_new (dem 0 0 0))))
             (max_b (m_bounds (TerrainTile_new (dem 0 0 0)))))
   \<and> \<not> isVisible (Frustum_update (getViewProjectionMatrix TerrainCamera_default))
         (TerrainTile_new (dem 0 0 0))
   \<and> contains (getTileBounds (dem 0 (- 1) 0)) (Vec3 0 0 (- 1))
   \<and> contains (m_bounds (TerrainTile_new (dem 0 (- 1) 0))) (Vec3 0 0 (- 1))
   \<and> inside_frustum (Frustum_update (getViewProjectionMatrix TerrainCamera_default))
        (Vec3 0 0 (- 1))
   \<and> Frustum_intersects (Frustum_update (getViewProjectionMatrix TerrainCamera_default))
        (getTileBounds (dem 0 (- 1) 0))
   \<and> isVisible (Frustum_update (getViewProjectionMatrix TerrainCamera_default))
        (TerrainTile_new (dem 0 (- 1) 0))
   \<and> Frustum_intersects (Frustum_update (getViewProjectionMatrix TerrainCamera_default))
        (m_bounds (TerrainTile_new (dem 0 (- 1) 0)))"
proof -
  let ?F = "Frustum_update (getViewProjectionMatrix TerrainCamera_default)"
  have o1: "\<exists>i<6. box_outside_plane (?F i)
             (min_b (getTileBounds (dem 0 0 0))) (max_b (getTileBounds (dem 0 0 0)))"
    using tile_000_outside_near_plane by (auto simp add: tile_000_bounds intro!: exI[of _ 4])
  have o2: "\<exists>i<6. box_outside_plane (?F i)
             (min_b (m_bounds (TerrainTile_new (dem 0 0 0))))
             (max_b (m_bounds (TerrainTile_new (dem 0 0 0))))"
    using tile_000_outside_near_plane by (auto simp add: tile_000_bounds intro!: exI[of _ 4])
  have c1: "contains (getTileBounds (dem 0 (- 1) 0)) (Vec3 0 0 (- 1))"
    and c2: "contains (m_bounds (TerrainTile_new (dem 0 (- 1) 0))) (Vec3 0 0 (- 1))"
    by (simp_all add: contains_def tile_0m10_bounds)
  note i = inside_default_frustum
  show ?thesis
    using C6_frustum_test[of ?F "getTileBounds (dem 0 0 0)" "TerrainTile_new (dem 0 0 0)"
        "getTileBounds (dem 0 (- 1) 0)" "Vec3 0 0 (- 1)" "TerrainTile_new (dem 0 (- 1) 0)"
        "TerrainTile_new (dem 0 (- 1) 0)"]
      o1 o2 c1 c2 i
    by blast
qed

section \<open>The limits of the tile manager\<close>

text \<open>
  The destructor of a tile calls \<open>evictFromMemory\<close> and gets no further than that call does.
  So the vector of removed tiles can go out of scope only if each of its tiles has another
  owner.
\<close>

lemma TerrainTile_destructor_never_returns: "TerrainTile_destructor t = None"
  by (simp add: TerrainTile_destructor_def evictFromMemory_def lock_guard_def unloadFromGPU_held
      split: option.splits)

lemma release_iff: "release held ts = Some () \<longleftrightarrow> (\<forall>t \<in> set ts. held t)"
  by (induction ts) (simp_all add: TerrainTile_destructor_never_returns)

text \<open>Erasing a list of tiles by their coordinates filters the map; the limits stay.\<close>

lemma fold_erase_tiles:
  "m_tiles (fold (\<lambda>tile. erase (m_coordinate tile)) ts m)
     = filter (\<lambda>kv. fst kv \<notin> m_coordinate ` set ts) (m_tiles m)"
proof (induction ts arbitrary: m)
  case Nil
  then show ?case by simp
next
  case (Cons t ts)
  have "m_tiles (fold (\<lambda>tile. erase (m_coordinate tile)) (t # ts) m)
      = filter (\<lambda>kv. fst kv \<notin> m_coordinate ` set ts) (m_tiles (erase (m_coordinate t) m))"
    using Cons.IH by simp
  also have "\<dots> = filter (\<lambda>kv. fst kv \<notin> m_coordinate ` set (t # ts)) (m_tiles m)"
    by (auto simp add: erase_def intro: filter_cong)
  finally show ?case .
qed

lemma fold_erase_limits:
  "m_maxTiles (fold (\<lambda>tile. erase (m_coordinate tile)) ts m) = m_maxTiles m
   \<and> m_maxMemoryUsage (fold (\<lambda>tile. erase (m_coordinate tile)) ts m) = m_maxMemoryUsage m"
  by (induction ts arbitrary: m) (simp_all add: erase_def)

lemma manager_inv_values_distinct:
  assumes "manager_inv m"
  shows "distinct (map snd (m_tiles m))"
proof -
  have d: "distinct (map fst (m_tiles m))"
    and c: "\<forall>kv \<in> set (m_tiles m). m_coordinate (snd kv) = fst kv"
    using assms by (simp_all add: manager_inv_def list_all_iff)
  have "map fst (m_tiles m) = map m_coordinate (map snd (m_tiles m))"
    using c by simp
  then have "distinct (map m_coordinate (map snd (m_tiles m)))" using d by (simp only:)
  then show ?thesis using distinct_map[of m_coordinate "map snd (m_tiles m)"] by blast
qed

lemma manager_inv_key_of_value:
  assumes "manager_inv m" and "kv \<in> set (m_tiles m)" and "S \<subseteq> snd ` set (m_tiles m)"
  shows "fst kv \<in> m_coordinate ` S \<longleftrightarrow> snd kv \<in> S"
proof
  assume "fst kv \<in> m_coordinate ` S"
  then obtain t where t: "t \<in> S" and e: "fst kv = m_coordinate t" by auto
  from t assms(3) obtain kv' where kv': "kv' \<in> set (m_tiles m)" and s: "snd kv' = t" by auto
  have c: "\<forall>kv \<in> set (m_tiles m). m_coordinate (snd kv) = fst kv"
    and d: "distinct (map fst (m_tiles m))"
    using assms(1) by (simp_all add: manager_inv_def list_all_iff)
  have "fst kv' = fst kv" using c kv' s e by auto
  moreover have "inj_on fst (set (m_tiles m))" using d by (simp add: distinct_map)
  ultimately have "kv' = kv" using kv' assms(2) by (simp add: inj_on_def)
  then show "snd kv \<in> S" using s t by simp
next
  assume "snd kv \<in> S"
  moreover have "m_coordinate (snd kv) = fst kv"
    using assms(1,2) by (simp add: manager_inv_def list_all_iff)
  ultimately show "fst kv \<in> m_coordinate ` S" by force
qed

lemma length_filter_not_in:
  assumes "distinct xs" and "S \<subseteq> set xs"
  shows "length (filter (\<lambda>a. a \<notin> S) xs) = length xs - card S"
proof -
  have "distinct (filter (\<lambda>a. a \<notin> S) xs)" using assms(1) by simp
  then have "length (filter (\<lambda>a. a \<notin> S) xs) = card (set (filter (\<lambda>a. a \<notin> S) xs))"
    by (simp only: distinct_card)
  also have "set (filter (\<lambda>a. a \<notin> S) xs) = set xs - S" by auto
  also have "card (set xs - S) = card (set xs) - card S"
    using assms(2) by (simp add: card_Diff_subset finite_subset)
  also have "card (set xs) = length xs" using assms(1) by (simp add: distinct_card)
  finally show ?thesis .
qed


lemma enforceLimits_result:
  assumes srt: "std_sort_spec lru_before srt" and inv: "manager_inv m"
    and res: "enforceLimits held srt m = Some m'"
  shows "manager_inv m'
       \<and> length (m_tiles m') = min (length (m_tiles m)) (unat (m_maxTiles m))
       \<and> m_maxTiles m' = m_maxTiles m \<and> m_maxMemoryUsage m' = m_maxMemoryUsage m
       \<and> set (m_tiles m') \<subseteq> set (m_tiles m)
       \<and> (\<forall>removed \<in> set (m_tiles m) - set (m_tiles m').
             held (snd removed)
             \<and> (\<forall>kept \<in> set (m_tiles m').
                   unat (m_framesSinceAccess (snd kept))
                     \<le> unat (m_framesSinceAccess (snd removed))))"
proof (cases "length (m_tiles m) \<le> unat (m_maxTiles m)")
  case True
  then have "m' = m" using res by (simp add: enforceLimits_def)
  then show ?thesis using inv True by simp
next
  case False
  define ts where "ts = map snd (m_tiles m)"
  define n where "n = length (m_tiles m) - unat (m_maxTiles m)"
  define lru where "lru = take n (srt ts)"
  have len_s: "length (srt ts) = length (m_tiles m)"
    using std_sort_spec_length[OF srt, of ts] by (simp add: ts_def)
  have n_le: "n \<le> length (srt ts)" using len_s by (simp add: n_def)
  have lru_eq: "getLRUTiles srt n m = lru"
    using n_le by (simp add: getLRUTiles_def Let_def lru_def ts_def min_def)
  have rel: "release held lru = Some ()"
    and m': "m' = fold (\<lambda>tile. erase (m_coordinate tile)) lru m"
    using res False lru_eq
    by (simp_all add: enforceLimits_def Let_def n_def split: option.splits)
  have held: "\<forall>t \<in> set lru. held t" using rel by (simp add: release_iff)
  have set_s: "set (srt ts) = set ts" by (rule std_sort_spec_set[OF srt])
  have sub: "set lru \<subseteq> snd ` set (m_tiles m)"
    using set_take_subset[of n "srt ts"] set_s by (auto simp add: lru_def ts_def)
  have tiles': "m_tiles m' = filter (\<lambda>kv. snd kv \<notin> set lru) (m_tiles m)"
    unfolding m' fold_erase_tiles
    by (rule filter_cong) (simp_all add: manager_inv_key_of_value[OF inv _ sub])
  have dts: "distinct ts" unfolding ts_def by (rule manager_inv_values_distinct[OF inv])
  have "mset (srt ts) = mset ts" by (rule std_sort_spec_mset[OF srt])
  then have ds: "distinct (srt ts)" using dts by (metis distinct_count_atmost_1 set_mset_mset)
  have "distinct lru" using ds by (simp add: lru_def)
  then have card_lru: "card (set lru) = n" using n_le by (simp add: distinct_card lru_def)
  have "length (m_tiles m') = length (filter (\<lambda>t. t \<notin> set lru) ts)"
    unfolding tiles' ts_def filter_map by (simp add: comp_def)
  also have "\<dots> = length ts - card (set lru)"
    using sub by (intro length_filter_not_in[OF dts]) (simp add: ts_def)
  also have "\<dots> = unat (m_maxTiles m)" using False by (simp add: card_lru n_def ts_def)
  finally have len: "length (m_tiles m') = min (length (m_tiles m)) (unat (m_maxTiles m))"
    using False by simp
  have inv': "manager_inv m'"
    using inv unfolding manager_inv_def tiles'
    by (simp add: distinct_map_filter list_all_iff)
  have lim: "m_maxTiles m' = m_maxTiles m \<and> m_maxMemoryUsage m' = m_maxMemoryUsage m"
    unfolding m' by (rule fold_erase_limits)
  have subset: "set (m_tiles m') \<subseteq> set (m_tiles m)" by (auto simp add: tiles')
  have sorted: "sorted_wrt (\<lambda>a b. \<not> lru_before b a) (take n (srt ts) @ drop n (srt ts))"
    using std_sort_spec_sorted[OF srt, of ts] by simp
  have order: "\<forall>a \<in> set (take n (srt ts)). \<forall>b \<in> set (drop n (srt ts)). \<not> lru_before b a"
    using sorted unfolding sorted_wrt_append by blast
  have lruP: "\<forall>removed \<in> set (m_tiles m) - set (m_tiles m').
             held (snd removed)
             \<and> (\<forall>kept \<in> set (m_tiles m').
                   unat (m_framesSinceAccess (snd kept))
                     \<le> unat (m_framesSinceAccess (snd removed)))"
  proof (intro ballI conjI)
    fix removed assume r: "removed \<in> set (m_tiles m) - set (m_tiles m')"
    then have rl: "snd removed \<in> set lru" by (auto simp add: tiles')
    then show "held (snd removed)" using held by simp
    fix kept assume k: "kept \<in> set (m_tiles m')"
    then have "snd kept \<in> set ts" and "snd kept \<notin> set (take n (srt ts))"
      by (auto simp add: tiles' ts_def lru_def)
    then have "snd kept \<in> set (drop n (srt ts))"
      using set_s by (metis Un_iff append_take_drop_id set_append)
    then have "\<not> lru_before (snd kept) (snd removed)"
      using order rl by (simp add: lru_def)
    then show "unat (m_framesSinceAccess (snd kept)) \<le> unat (m_framesSinceAccess (snd removed))"
      by (simp add: lru_before_def)
  qed
  show ?thesis using inv' len lim subset lruP by simp
qed

lemma enforceLimits_returns:
  assumes srt: "std_sort_spec lru_before srt"
    and held: "\<forall>kv \<in> set (m_tiles m). held (snd kv)"
  shows "enforceLimits held srt m \<noteq> None"
proof -
  have "set (getLRUTiles srt n m) \<subseteq> snd ` set (m_tiles m)" for n
    using set_take_subset[of "min n (length (srt (map snd (m_tiles m))))" "srt (map snd (m_tiles m))"]
      std_sort_spec_set[OF srt, of "map snd (m_tiles m)"]
    by (auto simp add: getLRUTiles_def Let_def)
  then have "release held (getLRUTiles srt n m) = Some ()" for n
    using held unfolding release_iff by blast
  then show ?thesis by (simp add: enforceLimits_def Let_def)
qed


lemma insert_manager_inv:
  assumes "manager_inv m" and "map_of (m_tiles m) c = None"
  shows "manager_inv (m\<lparr> m_tiles := m_tiles m @ [(c, TerrainTile_new c)] \<rparr>)"
  using assms
  by (auto simp add: manager_inv_def map_of_eq_None_iff TerrainTile_new_def)

lemma createTile_existing:
  "map_of (m_tiles m) c = Some t \<Longrightarrow> createTile held srt c m = Some (t, m)"
  by (simp add: createTile_def)

lemma createTile_absent:
  "map_of (m_tiles m) c = None \<Longrightarrow>
     createTile held srt c m
       = map_option (Pair (TerrainTile_new c))
           (enforceLimits (\<lambda>t. t = TerrainTile_new c \<or> held t) srt
              (m\<lparr> m_tiles := m_tiles m @ [(c, TerrainTile_new c)] \<rparr>))"
  by (simp add: createTile_def Let_def split: option.splits)

lemma createTile_result:
  assumes srt: "std_sort_spec lru_before srt" and inv: "manager_inv m"
    and lim: "length (m_tiles m) \<le> unat (m_maxTiles m)"
    and res: "createTile held srt c m = Some (tile, m')"
  shows "manager_inv m' \<and> m_maxTiles m' = m_maxTiles m
       \<and> m_maxMemoryUsage m' = m_maxMemoryUsage m
       \<and> length (m_tiles m') \<le> unat (m_maxTiles m')
       \<and> set (m_tiles m') \<subseteq> set (m_tiles m) \<union> {(c, TerrainTile_new c)}
       \<and> (getTile c m = None \<longrightarrow>
            (\<forall>removed \<in> set (m_tiles m) \<union> {(c, TerrainTile_new c)} - set (m_tiles m').
               (snd removed = TerrainTile_new c \<or> held (snd removed))
               \<and> (\<forall>kept \<in> set (m_tiles m').
                     unat (m_framesSinceAccess (snd kept))
                       \<le> unat (m_framesSinceAccess (snd removed)))))"
proof (cases "map_of (m_tiles m) c")
  case (Some t)
  then have "m' = m" using res by (simp add: createTile_existing)
  then show ?thesis using inv lim Some by (auto simp add: getTile_def)
next
  case None
  let ?m1 = "m\<lparr> m_tiles := m_tiles m @ [(c, TerrainTile_new c)] \<rparr>"
  have e: "enforceLimits (\<lambda>t. t = TerrainTile_new c \<or> held t) srt ?m1 = Some m'"
    using res None by (auto simp add: createTile_absent)
  have inv1: "manager_inv ?m1" by (rule insert_manager_inv[OF inv None])
  show ?thesis using enforceLimits_result[OF srt inv1 e] by simp
qed

lemma createTile_returns:
  assumes srt: "std_sort_spec lru_before srt"
    and held: "(\<forall>kv \<in> set (m_tiles m). held (snd kv)) \<or> length (m_tiles m) < unat (m_maxTiles m)"
  shows "createTile held srt c m \<noteq> None"
proof (cases "map_of (m_tiles m) c")
  case (Some t)
  then show ?thesis by (simp add: createTile_existing)
next
  case None
  let ?m1 = "m\<lparr> m_tiles := m_tiles m @ [(c, TerrainTile_new c)] \<rparr>"
  have "enforceLimits (\<lambda>t. t = TerrainTile_new c \<or> held t) srt ?m1 \<noteq> None"
    using held
  proof
    assume "\<forall>kv \<in> set (m_tiles m). held (snd kv)"
    then show ?thesis by (intro enforceLimits_returns[OF srt]) simp
  next
    assume "length (m_tiles m) < unat (m_maxTiles m)"
    then show ?thesis by (simp add: enforceLimits_def)
  qed
  then show ?thesis using None by (simp add: createTile_absent)
qed

lemma createTiles_result:
  assumes srt: "std_sort_spec lru_before srt"
  shows "manager_inv m \<Longrightarrow> length (m_tiles m) \<le> unat (m_maxTiles m)
     \<Longrightarrow> createTiles held srt cs m = Some m'
     \<Longrightarrow> manager_inv m' \<and> m_maxTiles m' = m_maxTiles m
         \<and> length (m_tiles m') \<le> unat (m_maxTiles m)"
proof (induction cs arbitrary: m)
  case Nil
  then show ?case by simp
next
  case (Cons c cs)
  from Cons.prems(3) obtain tile m1 where
    c1: "createTile held srt c m = Some (tile, m1)" and
    c2: "createTiles held srt cs m1 = Some m'"
    by (auto split: option.splits)
  note r = createTile_result[OF srt Cons.prems(1,2) c1]
  have "manager_inv m' \<and> m_maxTiles m' = m_maxTiles m1
         \<and> length (m_tiles m') \<le> unat (m_maxTiles m1)"
    using r c2 by (intro Cons.IH) auto
  then show ?case using r by auto
qed

lemma createTiles_returns:
  assumes srt: "std_sort_spec lru_before srt" and held: "\<forall>t. held t"
  shows "createTiles held srt cs m \<noteq> None"
proof (induction cs arbitrary: m)
  case Nil
  then show ?case by simp
next
  case (Cons c cs)
  have "createTile held srt c m \<noteq> None" using held by (intro createTile_returns[OF srt]) simp
  then show ?case using Cons.IH by (auto split: option.splits)
qed

text \<open>
  A new manager, whatever limits it is given, holds no key twice and not more tiles than
  its limit.
\<close>

lemma new_manager_inv:
  "manager_inv (setMaxMemoryUsage maxMemory (setMaxTiles maxTiles TerrainTileManager_new))
   \<and> length (m_tiles (setMaxMemoryUsage maxMemory (setMaxTiles maxTiles TerrainTileManager_new)))
       \<le> unat (m_maxTiles (setMaxMemoryUsage maxMemory (setMaxTiles maxTiles TerrainTileManager_new)))"
  by (simp add: manager_inv_def setMaxMemoryUsage_def setMaxTiles_def TerrainTileManager_new_def)

text \<open>The example inputs.\<close>

lemma lru_sort_std: "std_sort_spec lru_before lru_sort"
  unfolding lru_sort_def by (rule lru_sort_spec)

lemma new_tile_fields:
  "m_coordinate (TerrainTile_new c) = c"
  "m_framesSinceAccess (TerrainTile_new c) = 0"
  "m_coordinate (aged_tile c n) = c"
  "m_framesSinceAccess (aged_tile c n) = n"
  by (simp_all add: TerrainTile_new_def aged_tile_def)

lemma dem_neq:
  "dem 0 0 0 \<noteq> dem 1 0 0" "dem 0 0 0 \<noteq> dem 2 0 0" "dem 1 0 0 \<noteq> dem 2 0 0"
  "dem 1 0 0 \<noteq> dem 0 0 0" "dem 2 0 0 \<noteq> dem 0 0 0" "dem 2 0 0 \<noteq> dem 1 0 0"
  by (simp_all add: dem_def)

lemma two_tiles_createTile:
  "createTile (\<lambda>t. True) lru_sort (dem 2 0 0) two_tiles
     = Some (TerrainTile_new (dem 2 0 0),
             two_tiles\<lparr> m_tiles := [(dem 0 0 0, aged_tile (dem 0 0 0) 3),
                                     (dem 2 0 0, TerrainTile_new (dem 2 0 0))] \<rparr>)"
  by (simp add: createTile_def two_tiles_def setMaxTiles_def dem_neq Let_def enforceLimits_def
      getLRUTiles_def lru_sort_def new_tile_fields erase_def)

lemma length_synthetic_heights: "length (synthetic_heights n) = n * n"
  by (simp add: synthetic_heights_def length_concat comp_def sum_list_triv)

text \<open>
  Claim C2, as stated, the part on memory: after each \<open>createTile\<close> the total memory usage of
  the held tiles is at most \<open>maxMemoryUsage\<close>. \<open>enforceLimits\<close> compares the number of tiles with
  \<open>m_maxTiles\<close> only. A new manager is given a memory limit of 1024 bytes; a tile is created
  and loaded, which gives it 512 x 512 heights of 4 bytes; a second tile is created. When
  the second \<open>createTile\<close> has returned, the map holds both tiles (the limit is 1000 tiles) and
  their total memory usage is 1048576 bytes.
\<close>

theorem C2_memory_limit_counterexample:
  "Option.bind (createTile (\<lambda>t. False) lru_sort (dem 0 0 0)
                 (setMaxMemoryUsage 1024 TerrainTileManager_new))
     (\<lambda>(t1, m1). Option.bind (via_shared_ptr (dem 0 0 0) (loadData ''dem.tif'') m1)
        (\<lambda>(r, m2). map_option
           (\<lambda>(t3, m3). (r, length (m_tiles m3), unat (m_maxTiles m3),
                          unat (m_maxMemoryUsage m3), unat (getTotalMemoryUsage m3)))
           (createTile (\<lambda>t. False) lru_sort (dem 1 0 0) m2)))
   = Some (VK_SUCCESS, 2, 1000, 1024, 1048576)"
  by (simp add: createTile_def setMaxMemoryUsage_def TerrainTileManager_new_def Let_def
      enforceLimits_def via_shared_ptr_def dem_neq loadData_def lock_guard_def
      TerrainTile_new_def loadFromCache_def loadFromDisk_def setState_def
      getTotalMemoryUsage_def getMemoryUsage_def cpu_getMemoryUsage_def
      length_synthetic_heights DEFAULT_TILE_SIZE_def)

text \<open>
  Claim C2, amended. The sort is any function that meets the promise of \<open>std::sort\<close> for the
  comparator of \<open>getLRUTiles\<close>; the manager holds no key twice, every tile under its own
  coordinate, and at most \<open>maxTiles\<close> tiles. Then, whenever \<open>createTile\<close> returns, the map holds
  at most \<open>maxTiles\<close> tiles and consists of tiles it held before and the new tile; every tile
  removed has a \<open>framesSinceAccess\<close> at least as large as that of every tile kept, and is the
  new tile or has an owner outside the manager. The same bound holds after every run of
  \<open>createTile\<close> calls that returns. \<open>createTile\<close> does return if every tile of the map has an
  owner outside the manager, or if the map holds fewer than \<open>maxTiles\<close> tiles.
\<close>

theorem C2_createTile_keeps_maxTiles:
  assumes srt: "std_sort_spec lru_before srt"
    and inv: "manager_inv m"
    and lim: "length (m_tiles m) \<le> unat (m_maxTiles m)"
  shows "(\<forall>tile m'. createTile held srt c m = Some (tile, m') \<longrightarrow>
            manager_inv m' \<and> m_maxTiles m' = m_maxTiles m
          \<and> length (m_tiles m') \<le> unat (m_maxTiles m')
          \<and> set (m_tiles m') \<subseteq> set (m_tiles m) \<union> {(c, TerrainTile_new c)}
          \<and> (getTile c m = None \<longrightarrow>
               (\<forall>removed \<in> set (m_tiles m) \<union> {(c, TerrainTile_new c)} - set (m_tiles m').
                  (snd removed = TerrainTile_new c \<or> held (snd removed))
                  \<and> (\<forall>kept \<in> set (m_tiles m').
                        unat (m_framesSinceAccess (snd kept))
                          \<le> unat (m_framesSinceAccess (snd removed))))))
       \<and> (\<forall>cs m'. createTiles held srt cs m = Some m' \<longrightarrow>
            manager_inv m' \<and> length (m_tiles m') \<le> unat (m_maxTiles m))
       \<and> ((\<forall>kv \<in> set (m_tiles m). held (snd kv)) \<or> length (m_tiles m) < unat (m_maxTiles m)
            \<longrightarrow> createTile held srt c m \<noteq> None)
       \<and> ((\<forall>t. held t) \<longrightarrow> (\<forall>cs. createTiles held srt cs m \<noteq> None))"
proof (intro conjI allI impI)
  fix tile m' assume r: "createTile held srt c m = Some (tile, m')"
  note res = createTile_result[OF srt inv lim r]
  show "manager_inv m'" "m_maxTiles m' = m_maxTiles m"
    "length (m_tiles m') \<le> unat (m_maxTiles m')"
    "set (m_tiles m') \<subseteq> set (m_tiles m) \<union> {(c, TerrainTile_new c)}"
    using res by auto
  assume "getTile c m = None"
  then show "\<forall>removed \<in> set (m_tiles m) \<union> {(c, TerrainTile_new c)} - set (m_tiles m').
                  (snd removed = TerrainTile_new c \<or> held (snd removed))
                  \<and> (\<forall>kept \<in> set (m_tiles m').
                        unat (m_framesSinceAccess (snd kept))
                          \<le> unat (m_framesSinceAccess (snd removed)))"
    using res by blast
next
  fix cs m' assume r: "createTiles held srt cs m = Some m'"
  show "manager_inv m'" "length (m_tiles m') \<le> unat (m_maxTiles m)"
    using createTiles_result[OF srt inv lim r] by simp_all
next
  assume "(\<forall>kv \<in> set (m_tiles m). held (snd kv)) \<or> length (m_tiles m) < unat (m_maxTiles m)"
  then show "createTile held srt c m \<noteq> None" by (rule createTile_returns[OF srt])
next
  fix cs assume "\<forall>t. held t"
  then show "createTiles held srt cs m \<noteq> None" by (rule createTiles_returns[OF srt])
qed


theorem C2_createTile_witness:
  "std_sort_spec lru_before lru_sort
   \<and> manager_inv two_tiles
   \<and> length (m_tiles two_tiles) \<le> unat (m_maxTiles two_tiles)
   \<and> createTile (\<lambda>t. True) lru_sort (dem 2 0 0) two_tiles
       = Some (TerrainTile_new (dem 2 0 0),
               two_tiles\<lparr> m_tiles := [(dem 0 0 0, aged_tile (dem 0 0 0) 3),
                                       (dem 2 0 0, TerrainTile_new (dem 2 0 0))] \<rparr>)
   \<and> manager_inv
         (two_tiles\<lparr> m_tiles := [(dem 0 0 0, aged_tile (dem 0 0 0) 3),
                                  (dem 2 0 0, TerrainTile_new (dem 2 0 0))] \<rparr>)
   \<and> length (m_tiles
         (two_tiles\<lparr> m_tiles := [(dem 0 0 0, aged_tile (dem 0 0 0) 3),
                                  (dem 2 0 0, TerrainTile_new (dem 2 0 0))] \<rparr>)) = 2
   \<and> unat (m_maxTiles two_tiles) = 2
   \<and> getTile (dem 2 0 0) two_tiles = None
   \<and> unat (m_framesSinceAccess (aged_tile (dem 1 0 0) 7)) = 7
   \<and> unat (m_framesSinceAccess (aged_tile (dem 0 0 0) 3)) = 3"
proof -
  have inv: "manager_inv two_tiles"
    by (simp add: manager_inv_def two_tiles_def dem_neq new_tile_fields)
  have lim: "length (m_tiles two_tiles) \<le> unat (m_maxTiles two_tiles)"
    by (simp add: two_tiles_def setMaxTiles_def)
  have "manager_inv
         (two_tiles\<lparr> m_tiles := [(dem 0 0 0, aged_tile (dem 0 0 0) 3),
                                  (dem 2 0 0, TerrainTile_new (dem 2 0 0))] \<rparr>)"
    using C2_createTile_keeps_maxTiles[OF lru_sort_std inv lim, of "\<lambda>t. True" "dem 2 0 0"]
      two_tiles_createTile by simp
  then show ?thesis
    using inv lim lru_sort_std two_tiles_createTile
    by (simp add: two_tiles_def setMaxTiles_def getTile_def dem_neq new_tile_fields)
qed

section \<open>Candidate generation\<close>

text \<open>
  Truncation towards zero is monotone, so the tile range of one axis for a smaller
  \<open>maxDistance\<close> lies within the range for a larger one, and is computed without overflow if
  the larger one is.
\<close>

lemma trunc_mono:
  fixes a b :: real
  assumes "a \<le> b"
  shows "(if 0 \<le> a then \<lfloor>a\<rfloor> else \<lceil>a\<rceil>) \<le> (if 0 \<le> b then \<lfloor>b\<rfloor> else \<lceil>b\<rceil>)"
proof (cases "0 \<le> a")
  case True
  then show ?thesis using assms by (simp add: floor_mono)
next
  case False
  show ?thesis
  proof (cases "0 \<le> b")
    case True
    have "\<lceil>a\<rceil> \<le> 0" using False by (simp add: ceiling_le_zero)
    moreover have "0 \<le> \<lfloor>b\<rfloor>" using True by simp
    ultimately have "\<lceil>a\<rceil> \<le> \<lfloor>b\<rfloor>" by (rule order_trans)
    then show ?thesis using False True by simp
  next
    case b: False
    then show ?thesis using False assms by (simp add: ceiling_mono)
  qed
qed

lemma tile_range_Some:
  "Option.bind (static_cast_int r) (\<lambda>a. int32_add a k) = Some v \<longleftrightarrow>
     int32_range (if 0 \<le> r then \<lfloor>r\<rfloor> else \<lceil>r\<rceil>)
     \<and> int32_range ((if 0 \<le> r then \<lfloor>r\<rfloor> else \<lceil>r\<rceil>) + k)
     \<and> v = (if 0 \<le> r then \<lfloor>r\<rfloor> else \<lceil>r\<rceil>) + k"
  by (auto simp add: static_cast_int_def int32_add_def Let_def)

lemma subseq_upto:
  assumes "lo2 \<le> lo1" and "hi1 \<le> hi2"
  shows "subseq [lo1..hi1] [lo2..hi2]"
proof (cases "lo1 \<le> hi1")
  case False
  then show ?thesis by simp
next
  case True
  have "[lo2..hi2] = [lo2..lo1 - 1] @ [lo1..hi2]"
    using assms True by (intro upto_split1) simp_all
  also have "[lo1..hi2] = [lo1..hi1] @ [hi1 + 1..hi2]"
    using assms True by (intro upto_split2) simp_all
  finally have e: "[lo2..hi2] = [lo2..lo1 - 1] @ [lo1..hi1] @ [hi1 + 1..hi2]" .
  have "subseq [lo1..hi1] ([lo1..hi1] @ [hi1 + 1..hi2])" by (rule subseq_rev_drop_many) simp
  then have "subseq [lo1..hi1] ([lo2..lo1 - 1] @ [lo1..hi1] @ [hi1 + 1..hi2])"
    by (rule list_emb_append2)
  then show ?thesis by (simp only: e)
qed

lemma subseq_concat_map:
  assumes "subseq xs ys" and "\<And>x. subseq (f x) (g x)"
  shows "subseq (concat (map f xs)) (concat (map g ys))"
  using assms(1)
proof (induction rule: list_emb.induct)
  case (list_emb_Nil ys)
  then show ?case by simp
next
  case (list_emb_Cons xs ys y)
  then show ?case by (simp add: list_emb_append2)
next
  case (list_emb_Cons2 x y xs ys)
  then show ?case using assms(2)[of y] by (simp add: list_emb_append_mono)
qed

lemma subseq_filter_mono:
  assumes "subseq xs ys" and "\<And>x. P x \<Longrightarrow> Q x"
  shows "subseq (filter P xs) (filter Q ys)"
proof -
  have "filter P xs = filter P (filter Q xs)"
    using assms(2) by (auto intro: filter_cong)
  then have "subseq (filter P xs) (filter Q xs)" by (metis subseq_filter_left)
  moreover have "subseq (filter Q xs) (filter Q ys)" using assms(1) by (rule subseq_filter)
  ultimately show ?thesis by (rule subseq_order.order_trans)
qed

lemma subseq_grid_cells:
  assumes "subseq cols1 cols2" and "subseq rows1 rows2"
  shows "subseq (grid_cells cols1 rows1) (grid_cells cols2 rows2)"
  unfolding grid_cells_def
  using assms(2)
  by (rule subseq_concat_map) (simp add: subseq_map assms(1))

lemma candidate_cell_mono:
  "maxD1 \<le> maxD2 \<Longrightarrow> candidate_cell fc fr cam maxD1 c \<Longrightarrow> candidate_cell fc fr cam maxD2 c"
  by (auto simp add: candidate_cell_def Let_def split: if_splits)


lemma level_candidates_Some:
  "level_candidates fc fr cam maxD ds lvl = Some cs \<longleftrightarrow>
     (\<exists>minX maxX minY maxY rows.
        Option.bind (static_cast_int ((vx cam - maxD) / (2000 / real ((2::nat) ^ lvl))))
          (\<lambda>a. int32_add a (- 1)) = Some minX
      \<and> Option.bind (static_cast_int ((vx cam + maxD) / (2000 / real ((2::nat) ^ lvl))))
          (\<lambda>a. int32_add a 1) = Some maxX
      \<and> Option.bind (static_cast_int ((vz cam - maxD) / (2000 / real ((2::nat) ^ lvl))))
          (\<lambda>a. int32_add a (- 1)) = Some minY
      \<and> Option.bind (static_cast_int ((vz cam + maxD) / (2000 / real ((2::nat) ^ lvl))))
          (\<lambda>a. int32_add a 1) = Some maxY
      \<and> for_int minY maxY = Some rows
      \<and> (if rows = [] then cs = []
          else (\<exists>cols. for_int minX maxX = Some cols
                 \<and> cs = map (cell_coordinate lvl ds)
                          (filter (\<lambda>cell. candidate_cell fc fr cam maxD (cell_coordinate lvl ds cell))
                             (grid_cells cols rows)))))"
  unfolding level_candidates_def Let_def
  by (auto split: option.splits prod.splits)


lemma axis_mono:
  fixes p :: real
  assumes D: "0 \<le> maxD1" "maxD1 \<le> maxD2" and ts: "0 < ts"
    and lo: "Option.bind (static_cast_int ((p - maxD2) / ts)) (\<lambda>a. int32_add a (- 1)) = Some lo2"
    and hi: "Option.bind (static_cast_int ((p + maxD2) / ts)) (\<lambda>a. int32_add a 1) = Some hi2"
  shows "\<exists>lo1 hi1.
           Option.bind (static_cast_int ((p - maxD1) / ts)) (\<lambda>a. int32_add a (- 1)) = Some lo1
         \<and> Option.bind (static_cast_int ((p + maxD1) / ts)) (\<lambda>a. int32_add a 1) = Some hi1
         \<and> lo2 \<le> lo1 \<and> lo1 \<le> hi1 \<and> hi1 \<le> hi2 \<and> int32_range hi2"
proof -
  define tr :: "real \<Rightarrow> int" where "tr r = (if 0 \<le> r then \<lfloor>r\<rfloor> else \<lceil>r\<rceil>)" for r
  have mono: "a \<le> b \<Longrightarrow> tr a \<le> tr b" for a b unfolding tr_def by (rule trunc_mono)
  have range: "Option.bind (static_cast_int r) (\<lambda>a. int32_add a k) = Some v \<longleftrightarrow>
      int32_range (tr r) \<and> int32_range (tr r + k) \<and> v = tr r + k" for r k v
    unfolding tr_def by (rule tile_range_Some)
  have o1: "(p - maxD2) / ts \<le> (p - maxD1) / ts" using D ts by (simp add: divide_right_mono)
  have o2: "(p - maxD1) / ts \<le> (p + maxD1) / ts" using D ts by (simp add: divide_right_mono)
  have o3: "(p + maxD1) / ts \<le> (p + maxD2) / ts" using D ts by (simp add: divide_right_mono)
  note m1 = mono[OF o1] and m2 = mono[OF o2] and m3 = mono[OF o3]
  have l2: "int32_range (tr ((p - maxD2) / ts))" "int32_range (tr ((p - maxD2) / ts) + - 1)"
      "lo2 = tr ((p - maxD2) / ts) + - 1"
    using lo unfolding range by simp_all
  have h2: "int32_range (tr ((p + maxD2) / ts))" "int32_range (tr ((p + maxD2) / ts) + 1)"
      "hi2 = tr ((p + maxD2) / ts) + 1"
    using hi unfolding range by simp_all
  have a: "Option.bind (static_cast_int ((p - maxD1) / ts)) (\<lambda>a. int32_add a (- 1))
         = Some (tr ((p - maxD1) / ts) + - 1)"
    unfolding range using l2 h2 m1 m2 m3 by (simp add: int32_range_def)
  have b: "Option.bind (static_cast_int ((p + maxD1) / ts)) (\<lambda>a. int32_add a 1)
         = Some (tr ((p + maxD1) / ts) + 1)"
    unfolding range using l2 h2 m1 m2 m3 by (simp add: int32_range_def)
  show ?thesis using a b l2 h2 m1 m2 m3 by simp
qed

lemma for_int_Some: "lo \<le> hi \<Longrightarrow> for_int lo hi = Some rows \<longleftrightarrow> hi \<noteq> 2 ^ 31 - 1 \<and> rows = [lo..hi]"
  by (auto simp add: for_int_def)

lemma for_int_mono:
  assumes "for_int lo2 hi2 = Some r2" and "lo2 \<le> lo1" "lo1 \<le> hi1" "hi1 \<le> hi2"
    and "int32_range hi2"
  shows "r2 = [lo2..hi2] \<and> r2 \<noteq> [] \<and> for_int lo1 hi1 = Some [lo1..hi1] \<and> [lo1..hi1] \<noteq> []
       \<and> subseq [lo1..hi1] r2"
proof -
  have le: "lo2 \<le> hi2" using assms by simp
  have r2: "hi2 \<noteq> 2 ^ 31 - 1" "r2 = [lo2..hi2]" using assms(1) for_int_Some[OF le] by simp_all
  have "hi1 \<noteq> 2 ^ 31 - 1" using r2(1) assms(4,5) by (simp add: int32_range_def)
  then have "for_int lo1 hi1 = Some [lo1..hi1]" using assms(3) by (simp add: for_int_def)
  moreover have "subseq [lo1..hi1] [lo2..hi2]" using assms(2,4) by (rule subseq_upto)
  ultimately show ?thesis using r2 le assms(3) by simp
qed

lemma level_candidates_mono:
  assumes D: "0 \<le> maxD1" "maxD1 \<le> maxD2"
    and S: "level_candidates fc fr cam maxD2 ds lvl = Some cs2"
  shows "\<exists>cs1. level_candidates fc fr cam maxD1 ds lvl = Some cs1 \<and> subseq cs1 cs2"
proof -
  define ts :: real where "ts = 2000 / real ((2::nat) ^ lvl)"
  have ts: "0 < ts" by (simp add: ts_def)
  from S obtain minX2 maxX2 minY2 maxY2 rows2 where
    x2: "Option.bind (static_cast_int ((vx cam - maxD2) / ts)) (\<lambda>a. int32_add a (- 1)) = Some minX2"
        "Option.bind (static_cast_int ((vx cam + maxD2) / ts)) (\<lambda>a. int32_add a 1) = Some maxX2"
    and y2: "Option.bind (static_cast_int ((vz cam - maxD2) / ts)) (\<lambda>a. int32_add a (- 1)) = Some minY2"
        "Option.bind (static_cast_int ((vz cam + maxD2) / ts)) (\<lambda>a. int32_add a 1) = Some maxY2"
    and r2: "for_int minY2 maxY2 = Some rows2"
    and c2: "if rows2 = [] then cs2 = []
          else (\<exists>cols. for_int minX2 maxX2 = Some cols
                 \<and> cs2 = map (cell_coordinate lvl ds)
                          (filter (\<lambda>cell. candidate_cell fc fr cam maxD2 (cell_coordinate lvl ds cell))
                             (grid_cells cols rows2)))"
    unfolding level_candidates_Some ts_def by blast
  from axis_mono[OF D ts x2] obtain minX1 maxX1 where
    x1: "Option.bind (static_cast_int ((vx cam - maxD1) / ts)) (\<lambda>a. int32_add a (- 1)) = Some minX1"
        "Option.bind (static_cast_int ((vx cam + maxD1) / ts)) (\<lambda>a. int32_add a 1) = Some maxX1"
    and ox: "minX2 \<le> minX1" "minX1 \<le> maxX1" "maxX1 \<le> maxX2" "int32_range maxX2"
    by blast
  from axis_mono[OF D ts y2] obtain minY1 maxY1 where
    y1: "Option.bind (static_cast_int ((vz cam - maxD1) / ts)) (\<lambda>a. int32_add a (- 1)) = Some minY1"
        "Option.bind (static_cast_int ((vz cam + maxD1) / ts)) (\<lambda>a. int32_add a 1) = Some maxY1"
    and oy: "minY2 \<le> minY1" "minY1 \<le> maxY1" "maxY1 \<le> maxY2" "int32_range maxY2"
    by blast
  note fy = for_int_mono[OF r2 oy]
  from c2 fy obtain cols2 where
    cl2: "for_int minX2 maxX2 = Some cols2"
    and cs2: "cs2 = map (cell_coordinate lvl ds)
                (filter (\<lambda>cell. candidate_cell fc fr cam maxD2 (cell_coordinate lvl ds cell))
                   (grid_cells cols2 rows2))"
    by auto
  note fx = for_int_mono[OF cl2 ox]
  define cs1 where "cs1 = map (cell_coordinate lvl ds)
                (filter (\<lambda>cell. candidate_cell fc fr cam maxD1 (cell_coordinate lvl ds cell))
                   (grid_cells [minX1..maxX1] [minY1..maxY1]))"
  have "level_candidates fc fr cam maxD1 ds lvl = Some cs1"
    unfolding level_candidates_Some
    using x1 y1 fx fy unfolding ts_def cs1_def by force
  moreover have "subseq cs1 cs2"
    unfolding cs1_def cs2
    using fx fy
    by (intro subseq_map subseq_filter_mono subseq_grid_cells candidate_cell_mono[OF D(2)])
      blast+
  ultimately show ?thesis by blast
qed

lemma cull_levels_mono:
  assumes D: "0 \<le> maxD1" "maxD1 \<le> maxD2"
  shows "cull_levels nd fc fr cam maxD2 ds lvls = Some cs2
     \<Longrightarrow> \<exists>cs1. cull_levels nd fc fr cam maxD1 ds lvls = Some cs1 \<and> subseq cs1 cs2"
proof (induction lvls arbitrary: cs2)
  case Nil
  then show ?case by simp
next
  case (Cons lvl lvls)
  show ?case
  proof (cases "nd * 2 ^ lvl > maxD1")
    case True
    then show ?thesis by simp
  next
    case False
    then have nb: "\<not> nd * 2 ^ lvl > maxD2" using D by simp
    from Cons.prems nb obtain a2 b2 where
      a2: "level_candidates fc fr cam maxD2 ds lvl = Some a2"
      and b2: "cull_levels nd fc fr cam maxD2 ds lvls = Some b2"
      and cs2: "cs2 = a2 @ b2"
      by (auto simp add: Let_def split: option.splits)
    from level_candidates_mono[OF D a2] obtain a1 where
      a1: "level_candidates fc fr cam maxD1 ds lvl = Some a1" "subseq a1 a2" by blast
    from Cons.IH[OF b2] obtain b1 where
      b1: "cull_levels nd fc fr cam maxD1 ds lvls = Some b1" "subseq b1 b2" by blast
    have "cull_levels nd fc fr cam maxD1 ds (lvl # lvls) = Some (a1 @ b1)"
      using False a1 b1 by (simp add: Let_def)
    moreover have "subseq (a1 @ b1) cs2" unfolding cs2 using a1 b1 by (simp add: list_emb_append_mono)
    ultimately show ?thesis by blast
  qed
qed

text \<open>
  Candidate generation returns when the camera position and \<open>maxDistance\<close> are of moderate
  size.
\<close>

lemma tile_range_returns:
  fixes r :: real
  assumes r: "\<bar>r\<bar> \<le> 2 ^ 30" and k: "k = 1 \<or> k = - 1"
  shows "\<exists>v. Option.bind (static_cast_int r) (\<lambda>a. int32_add a k) = Some v \<and> v < 2 ^ 31 - 1"
proof -
  define t :: int where "t = (if 0 \<le> r then \<lfloor>r\<rfloor> else \<lceil>r\<rceil>)"
  have "\<lfloor>r\<rfloor> \<le> 2 ^ 30" using r by (simp add: floor_le_iff) 
  moreover have "- (2 ^ 30) \<le> \<lceil>r\<rceil>" using r by (simp add: le_ceiling_iff)
  moreover have "0 \<le> r \<Longrightarrow> 0 \<le> \<lfloor>r\<rfloor>" by simp
  moreover have "\<not> 0 \<le> r \<Longrightarrow> \<lceil>r\<rceil> \<le> 0" by (simp add: ceiling_le_zero)
  ultimately have t: "- (2 ^ 30) \<le> t" "t \<le> 2 ^ 30" by (auto simp add: t_def)
  have "int32_range t \<and> int32_range (t + k) \<and> t + k < 2 ^ 31 - 1"
    using t k by (auto simp add: int32_range_def)
  then show ?thesis unfolding tile_range_Some t_def[symmetric] by simp
qed

lemma level_candidates_returns:
  assumes x: "\<bar>vx cam\<bar> + \<bar>maxD\<bar> \<le> 10 ^ 9" and z: "\<bar>vz cam\<bar> + \<bar>maxD\<bar> \<le> 10 ^ 9"
    and l: "lvl < 8"
  shows "\<exists>cs. level_candidates fc fr cam maxD ds lvl = Some cs"
proof -
  define ts :: real where "ts = 2000 / real ((2::nat) ^ lvl)"
  have "(2::nat) ^ lvl \<le> 2 ^ 8" using l by (intro power_increasing) simp_all
  then have p: "real ((2::nat) ^ lvl) \<le> 256" by (simp del: of_nat_power)
  have ts: "1 \<le> ts" unfolding ts_def using p by (simp add: le_divide_eq)
  have small: "\<bar>a / ts\<bar> \<le> 2 ^ 30" if "\<bar>a\<bar> \<le> 10 ^ 9" for a :: real
  proof -
    have "\<bar>a / ts\<bar> = \<bar>a\<bar> / ts" using ts by simp
    also have "\<dots> \<le> \<bar>a\<bar> / 1" using ts by (intro divide_left_mono) simp_all
    also have "\<dots> \<le> 2 ^ 30" using that by simp
    finally show ?thesis .
  qed
  have b: "\<bar>vx cam - maxD\<bar> \<le> 10 ^ 9" "\<bar>vx cam + maxD\<bar> \<le> 10 ^ 9"
      "\<bar>vz cam - maxD\<bar> \<le> 10 ^ 9" "\<bar>vz cam + maxD\<bar> \<le> 10 ^ 9"
    using x z by linarith+
  obtain minX where minX:
    "Option.bind (static_cast_int ((vx cam - maxD) / ts)) (\<lambda>a. int32_add a (- 1)) = Some minX"
    using tile_range_returns[OF small[OF b(1)], of "- 1"] by auto
  obtain maxX where maxX:
    "Option.bind (static_cast_int ((vx cam + maxD) / ts)) (\<lambda>a. int32_add a 1) = Some maxX"
    "maxX < 2 ^ 31 - 1"
    using tile_range_returns[OF small[OF b(2)], of 1] by auto
  obtain minY where minY:
    "Option.bind (static_cast_int ((vz cam - maxD) / ts)) (\<lambda>a. int32_add a (- 1)) = Some minY"
    using tile_range_returns[OF small[OF b(3)], of "- 1"] by auto
  obtain maxY where maxY:
    "Option.bind (static_cast_int ((vz cam + maxD) / ts)) (\<lambda>a. int32_add a 1) = Some maxY"
    "maxY < 2 ^ 31 - 1"
    using tile_range_returns[OF small[OF b(4)], of 1] by auto
  have fi: "hi < 2 ^ 31 - 1 \<Longrightarrow> \<exists>r. for_int lo hi = Some r" for lo hi
    by (simp add: for_int_def)
  obtain rows where rows: "for_int minY maxY = Some rows"
    using fi[OF maxY(2)] by blast
  obtain cols where cols: "for_int minX maxX = Some cols"
    using fi[OF maxX(2)] by blast
  show ?thesis
    unfolding level_candidates_Some
    using minX maxX(1) minY maxY(1) rows cols unfolding ts_def
    by (cases "rows = []") force+
qed

lemma cull_levels_returns:
  assumes x: "\<bar>vx cam\<bar> + \<bar>maxD\<bar> \<le> 10 ^ 9" and z: "\<bar>vz cam\<bar> + \<bar>maxD\<bar> \<le> 10 ^ 9"
  shows "\<forall>l \<in> set lvls. l < 8 \<Longrightarrow> \<exists>cs. cull_levels nd fc fr cam maxD ds lvls = Some cs"
proof (induction lvls)
  case Nil
  then show ?case by simp
next
  case (Cons l lvls)
  then have "l < 8" by simp
  from level_candidates_returns[OF x z this] obtain a where
    "level_candidates fc fr cam maxD ds l = Some a" by blast
  moreover from Cons obtain b where "cull_levels nd fc fr cam maxD ds lvls = Some b" by auto
  ultimately show ?case by (simp add: Let_def)
qed

text \<open>
  Level 0 with the camera at the origin and \<open>maxDistance\<close> below 2000: the tile range is
  \<open>-1 .. 1\<close> on both axes. The centres of the four tiles around the origin are at distance
  \<open>sqrt 510000\<close>, about 714, the others at \<open>sqrt 2510000\<close> or more.
\<close>

lemma glm_length_le_iff: "0 \<le> d \<Longrightarrow> glm_length v \<le> d \<longleftrightarrow> dot v v \<le> d * d"
proof -
  assume d: "0 \<le> d"
  have "sqrt (dot v v) \<le> d \<longleftrightarrow> sqrt (dot v v) \<le> sqrt (d * d)" using d by simp
  also have "\<dots> \<longleftrightarrow> dot v v \<le> d * d" by (rule real_sqrt_le_iff)
  finally show ?thesis by (simp add: glm_length_def)
qed

lemma static_cast_small: "- 1 < r \<Longrightarrow> r < 1 \<Longrightarrow> static_cast_int r = Some 0"
proof -
  assume a: "- 1 < r" "r < 1"
  have "0 \<le> r \<Longrightarrow> \<lfloor>r\<rfloor> = 0" using a by linarith
  moreover have "\<not> 0 \<le> r \<Longrightarrow> \<lceil>r\<rceil> = 0" using a by linarith
  ultimately show ?thesis by (simp add: static_cast_int_def int32_range_def)
qed

lemma grid_0: "grid_cells [- 1..1] [- 1..1]
   = [(- 1, - 1), (0, - 1), (1, - 1), (- 1, 0), (0, 0), (1, 0), (- 1, 1), (0, 1), (1, 1)]"
  by (simp add: grid_cells_def upto.simps)

lemma level_0_cells:
  assumes "0 \<le> maxD" and "maxD < 2000"
  shows "level_candidates fc fr (Vec3 0 0 0) maxD ds 0
     = Some (map (cell_coordinate 0 ds)
               (filter (\<lambda>cell. candidate_cell fc fr (Vec3 0 0 0) maxD (cell_coordinate 0 ds cell))
                  [(- 1, - 1), (0, - 1), (1, - 1), (- 1, 0), (0, 0), (1, 0), (- 1, 1), (0, 1),
                   (1, 1)]))"
proof -
  have "static_cast_int (- maxD / 2000) = Some 0" "static_cast_int (maxD / 2000) = Some 0"
    using assms by (simp_all add: static_cast_small)
  then show ?thesis
    by (simp add: level_candidates_def Let_def int32_add_def int32_range_def
      for_int_def grid_0 del: filter.simps list.map)
qed

lemma cell_bounds:
  "getTileBounds (cell_coordinate 0 ds (- 1, - 1))
     = \<lparr> min_b = Vec3 (- 1000) 0 (- 1000), max_b = Vec3 0 200 0 \<rparr>"
  "getTileBounds (cell_coordinate 0 ds (0, - 1))
     = \<lparr> min_b = Vec3 0 0 (- 1000), max_b = Vec3 1000 200 0 \<rparr>"
  "getTileBounds (cell_coordinate 0 ds (1, - 1))
     = \<lparr> min_b = Vec3 1000 0 (- 1000), max_b = Vec3 2000 200 0 \<rparr>"
  "getTileBounds (cell_coordinate 0 ds (- 1, 0))
     = \<lparr> min_b = Vec3 (- 1000) 0 0, max_b = Vec3 0 200 1000 \<rparr>"
  "getTileBounds (cell_coordinate 0 ds (0, 0))
     = \<lparr> min_b = Vec3 0 0 0, max_b = Vec3 1000 200 1000 \<rparr>"
  "getTileBounds (cell_coordinate 0 ds (1, 0))
     = \<lparr> min_b = Vec3 1000 0 0, max_b = Vec3 2000 200 1000 \<rparr>"
  "getTileBounds (cell_coordinate 0 ds (- 1, 1))
     = \<lparr> min_b = Vec3 (- 1000) 0 1000, max_b = Vec3 0 200 2000 \<rparr>"
  "getTileBounds (cell_coordinate 0 ds (0, 1))
     = \<lparr> min_b = Vec3 0 0 1000, max_b = Vec3 1000 200 2000 \<rparr>"
  "getTileBounds (cell_coordinate 0 ds (1, 1))
     = \<lparr> min_b = Vec3 1000 0 1000, max_b = Vec3 2000 200 2000 \<rparr>"
  by (simp_all add: getTileBounds_def cell_coordinate_def)

lemma cell_test:
  "0 \<le> maxD \<Longrightarrow>
   candidate_cell fc fr (Vec3 0 0 0) maxD c \<longleftrightarrow>
     (fc \<longrightarrow> Frustum_intersects fr (getTileBounds c))
     \<and> dot (vec3_sub (Vec3 0 0 0) (center (getTileBounds c)))
           (vec3_sub (Vec3 0 0 0) (center (getTileBounds c))) \<le> maxD * maxD"
  by (auto simp add: candidate_cell_def Let_def not_less glm_length_le_iff)

lemma near_cells:
  assumes "0 \<le> maxD"
  shows
  "candidate_cell fc fr (Vec3 0 0 0) maxD (cell_coordinate 0 ds (- 1, - 1))
     \<longleftrightarrow> (fc \<longrightarrow> Frustum_intersects fr (getTileBounds (cell_coordinate 0 ds (- 1, - 1))))
          \<and> 510000 \<le> maxD * maxD"
  "candidate_cell fc fr (Vec3 0 0 0) maxD (cell_coordinate 0 ds (0, - 1))
     \<longleftrightarrow> (fc \<longrightarrow> Frustum_intersects fr (getTileBounds (cell_coordinate 0 ds (0, - 1))))
          \<and> 510000 \<le> maxD * maxD"
  "candidate_cell fc fr (Vec3 0 0 0) maxD (cell_coordinate 0 ds (- 1, 0))
     \<longleftrightarrow> (fc \<longrightarrow> Frustum_intersects fr (getTileBounds (cell_coordinate 0 ds (- 1, 0))))
          \<and> 510000 \<le> maxD * maxD"
  "candidate_cell fc fr (Vec3 0 0 0) maxD (cell_coordinate 0 ds (0, 0))
     \<longleftrightarrow> (fc \<longrightarrow> Frustum_intersects fr (getTileBounds (cell_coordinate 0 ds (0, 0))))
          \<and> 510000 \<le> maxD * maxD"
  unfolding cell_test[OF assms]
  by (simp_all add: cell_bounds center_def vec3_sub_def vec3_add_def vec3_scale_def dot_def)

lemma far_cells:
  assumes "0 \<le> maxD" and "maxD * maxD < 2510000"
  shows
  "\<not> candidate_cell fc fr (Vec3 0 0 0) maxD (cell_coordinate 0 ds (1, - 1))"
  "\<not> candidate_cell fc fr (Vec3 0 0 0) maxD (cell_coordinate 0 ds (1, 0))"
  "\<not> candidate_cell fc fr (Vec3 0 0 0) maxD (cell_coordinate 0 ds (- 1, 1))"
  "\<not> candidate_cell fc fr (Vec3 0 0 0) maxD (cell_coordinate 0 ds (0, 1))"
  "\<not> candidate_cell fc fr (Vec3 0 0 0) maxD (cell_coordinate 0 ds (1, 1))"
  unfolding cell_test[OF assms(1)] using assms(2)
  by (simp_all add: cell_bounds center_def vec3_sub_def vec3_add_def vec3_scale_def dot_def)

lemma level_0_four:
  assumes "fc \<longrightarrow> (\<forall>cell \<in> set [(- 1, - 1), (0, - 1), (- 1, 0), (0, 0)].
                      Frustum_intersects fr (getTileBounds (cell_coordinate 0 ds cell)))"
  shows "level_candidates fc fr (Vec3 0 0 0) 1000 ds 0
       = Some (map (cell_coordinate 0 ds) [(- 1, - 1), (0, - 1), (- 1, 0), (0, 0)])"
  using assms by (simp add: level_0_cells near_cells far_cells)

lemma level_0_none:
  "level_candidates fc fr (Vec3 0 0 0) 700 ds 0 = Some []"
  by (simp add: level_0_cells near_cells far_cells)

lemma only_level_0:
  assumes "nd \<le> maxD" and "maxD < nd * 2"
  shows "cull_levels nd fc fr cam maxD ds [0..<8] = level_candidates fc fr cam maxD ds 0"
proof -
  have "[0..<8] = 0 # 1 # [2..<8]" by (simp add: upt_rec)
  then show ?thesis using assms by (simp add: Let_def split: option.splits)
qed

lemma default_frustum_cells:
  "Frustum_intersects (Frustum_update (getViewProjectionMatrix TerrainCamera_default))
     (getTileBounds (cell_coordinate 0 ds (- 1, - 1)))"
  "Frustum_intersects (Frustum_update (getViewProjectionMatrix TerrainCamera_default))
     (getTileBounds (cell_coordinate 0 ds (0, - 1)))"
  "\<not> Frustum_intersects (Frustum_update (getViewProjectionMatrix TerrainCamera_default))
     (getTileBounds (cell_coordinate 0 ds (- 1, 0)))"
  "\<not> Frustum_intersects (Frustum_update (getViewProjectionMatrix TerrainCamera_default))
     (getTileBounds (cell_coordinate 0 ds (0, 0)))"
proof -
  let ?F = "Frustum_update (getViewProjectionMatrix TerrainCamera_default)"
  have i: "contains b (Vec3 0 0 (- 1)) \<Longrightarrow> Frustum_intersects ?F b" for b :: TerrainBounds
    unfolding Frustum_intersects_def
    by (rule planes_loop_inside[OF _ inside_default_frustum])
  have o: "box_outside_plane (?F 4) (min_b b) (max_b b) \<Longrightarrow> \<not> Frustum_intersects ?F b"
    for b :: TerrainBounds
    unfolding Frustum_intersects_def by (rule planes_loop_outside[of 4]) simp_all
  show "Frustum_intersects ?F (getTileBounds (cell_coordinate 0 ds (- 1, - 1)))"
    "Frustum_intersects ?F (getTileBounds (cell_coordinate 0 ds (0, - 1)))"
    by (rule i, simp add: cell_bounds contains_def)+
  show "\<not> Frustum_intersects ?F (getTileBounds (cell_coordinate 0 ds (- 1, 0)))"
    "\<not> Frustum_intersects ?F (getTileBounds (cell_coordinate 0 ds (0, 0)))"
    by (rule o, simp add: cell_bounds near_plane_default box_outside_plane_def box_corners_def
        near_plane_negative)+
qed

lemma cells_dem:
  "cell_coordinate 0 ''dem'' (i, j) = dem (word_of_int i) (word_of_int j) 0"
  by (simp add: cell_coordinate_def dem_def)

text \<open>
  Claim C8, as stated, first half: with the camera at the origin and \<open>maxDistance = 1000\<close>,
  candidate generation at level 0 produces exactly the grid of tiles that covers
  \<open>[-1000, 1000] x [-1000, 1000]\<close>. When frustum culling is enabled, as it is in the default
  configuration, a tile that fails the frustum test is not a candidate. With the default
  camera, which is at the origin and looks along \<open>-z\<close>, the two tiles with \<open>z\<close> from 0 to 1000
  lie behind the near plane, and level 0 produces the two tiles with \<open>z\<close> from -1000 to 0
  only.
\<close>

theorem C8_frustum_culling_counterexample:
  "enableFrustumCulling TerrainRenderConfig_default
   \<and> position TerrainCamera_default = Vec3 0 0 0
   \<and> level_candidates True (Frustum_update (getViewProjectionMatrix TerrainCamera_default))
        (Vec3 0 0 0) 1000 ''dem'' 0
       = Some [dem (- 1) (- 1) 0, dem 0 (- 1) 0]
   \<and> performCulling_candidates (config_level_0 1000 True) TerrainCamera_default
        (Frustum_update (getViewProjectionMatrix TerrainCamera_default)) ''dem''
       = Some [dem (- 1) (- 1) 0, dem 0 (- 1) 0]"
proof -
  let ?F = "Frustum_update (getViewProjectionMatrix TerrainCamera_default)"
  have l: "level_candidates True ?F (Vec3 0 0 0) 1000 ''dem'' 0
       = Some [dem (- 1) (- 1) 0, dem 0 (- 1) 0]"
  proof -
    have "level_candidates True ?F (Vec3 0 0 0) 1000 ''dem'' 0
        = Some (map (cell_coordinate 0 ''dem'') [(- 1, - 1), (0, - 1)])"
      by (simp add: level_0_cells near_cells far_cells default_frustum_cells)
    then show ?thesis by (simp add: cells_dem)
  qed
  have "performCulling_candidates (config_level_0 1000 True) TerrainCamera_default ?F ''dem''
      = level_candidates True ?F (Vec3 0 0 0) 1000 ''dem'' 0"
    by (simp add: performCulling_candidates_def config_level_0_def TerrainCamera_default_def
        TerrainRenderConfig_default_def only_level_0 Let_def)
  then show ?thesis using l
    by (simp add: TerrainRenderConfig_default_def TerrainCamera_default_def)
qed

lemma performCulling_mono:
  assumes "0 \<le> min (farPlane cam1) (farDistance cfg1)"
    and "min (farPlane cam1) (farDistance cfg1) \<le> min (farPlane cam2) (farDistance cfg2)"
    and "position cam1 = position cam2"
    and "nearDistance cfg1 = nearDistance cfg2"
    and "enableFrustumCulling cfg1 = enableFrustumCulling cfg2"
    and "performCulling_candidates cfg2 cam2 frustum dataset = Some cs2"
  shows "\<exists>cs1. performCulling_candidates cfg1 cam1 frustum dataset = Some cs1
            \<and> subseq cs1 cs2 \<and> length cs1 \<le> length cs2"
proof (cases "dataset = []")
  case True
  then show ?thesis using assms(6) by (simp add: performCulling_candidates_def)
next
  case False
  then have "cull_levels (nearDistance cfg2) (enableFrustumCulling cfg2) frustum (position cam2)
               (min (farPlane cam2) (farDistance cfg2)) dataset [0..<8] = Some cs2"
    using assms(6) by (simp add: performCulling_candidates_def Let_def)
  from cull_levels_mono[OF assms(1,2) this] obtain cs1 where
    "cull_levels (nearDistance cfg2) (enableFrustumCulling cfg2) frustum (position cam2)
       (min (farPlane cam1) (farDistance cfg1)) dataset [0..<8] = Some cs1"
    and s: "subseq cs1 cs2" by blast
  then have "performCulling_candidates cfg1 cam1 frustum dataset = Some cs1"
    using False assms(3,4,5) by (simp add: performCulling_candidates_def Let_def)
  moreover have "length cs1 \<le> length cs2" using s by (rule list_emb_length)
  ultimately show ?thesis using s by blast
qed

lemma performCulling_returns:
  assumes "\<bar>vx (position cam)\<bar> + \<bar>min (farPlane cam) (farDistance cfg)\<bar> \<le> 10 ^ 9"
    and "\<bar>vz (position cam)\<bar> + \<bar>min (farPlane cam) (farDistance cfg)\<bar> \<le> 10 ^ 9"
  shows "\<exists>cs. performCulling_candidates cfg cam frustum dataset = Some cs"
  using cull_levels_returns[OF assms, of "[0..<8]"]
  by (simp add: performCulling_candidates_def Let_def)

text \<open>
  Claim C8, amended. With the camera at the origin and \<open>maxDistance = 1000\<close>, level 0 produces
  the four tiles \<open>(-1, -1)\<close>, \<open>(0, -1)\<close>, \<open>(-1, 0)\<close>, \<open>(0, 0)\<close>, whose bounds tile
  \<open>[-1000, 1000] x [-1000, 1000]\<close>, provided that frustum culling is disabled or the frustum
  test accepts these four tiles. For two runs of candidate generation with the same camera
  position, near distance, frustum-culling flag, frustum and dataset, the first with a
  \<open>maxDistance\<close> that is not negative and not larger than that of the second: if the second
  run returns, so does the first, its candidates are a subsequence of those of the second,
  and so they are not more. Candidate generation returns whenever the camera's \<open>x\<close> and \<open>z\<close>
  and \<open>maxDistance\<close> add up to at most \<open>10^9\<close> in absolute value.
\<close>

theorem C8_candidate_generation:
  "((fc \<longrightarrow> (\<forall>cell \<in> set [(- 1, - 1), (0, - 1), (- 1, 0), (0, 0)].
              Frustum_intersects fr (getTileBounds (cell_coordinate 0 ds cell))))
     \<longrightarrow> level_candidates fc fr (Vec3 0 0 0) 1000 ds 0
          = Some (map (cell_coordinate 0 ds) [(- 1, - 1), (0, - 1), (- 1, 0), (0, 0)]))
 \<and> map (\<lambda>cell. getTileBounds (cell_coordinate 0 ds cell)) [(- 1, - 1), (0, - 1), (- 1, 0), (0, 0)]
     = [\<lparr> min_b = Vec3 (- 1000) 0 (- 1000), max_b = Vec3 0 200 0 \<rparr>,
        \<lparr> min_b = Vec3 0 0 (- 1000), max_b = Vec3 1000 200 0 \<rparr>,
        \<lparr> min_b = Vec3 (- 1000) 0 0, max_b = Vec3 0 200 1000 \<rparr>,
        \<lparr> min_b = Vec3 0 0 0, max_b = Vec3 1000 200 1000 \<rparr>]
 \<and> (0 \<le> min (farPlane cam1) (farDistance cfg1)
      \<and> min (farPlane cam1) (farDistance cfg1) \<le> min (farPlane cam2) (farDistance cfg2)
      \<and> position cam1 = position cam2
      \<and> nearDistance cfg1 = nearDistance cfg2
      \<and> enableFrustumCulling cfg1 = enableFrustumCulling cfg2
      \<and> performCulling_candidates cfg2 cam2 frustum dataset = Some cs2
     \<longrightarrow> (\<exists>cs1. performCulling_candidates cfg1 cam1 frustum dataset = Some cs1
              \<and> subseq cs1 cs2 \<and> length cs1 \<le> length cs2))
 \<and> (\<bar>vx (position cam)\<bar> + \<bar>min (farPlane cam) (farDistance cfg)\<bar> \<le> 10 ^ 9
      \<and> \<bar>vz (position cam)\<bar> + \<bar>min (farPlane cam) (farDistance cfg)\<bar> \<le> 10 ^ 9
     \<longrightarrow> (\<exists>cs. performCulling_candidates cfg cam frustum dataset = Some cs))"
  using level_0_four[of fc fr ds]
    performCulling_mono[of cam1 cfg1 cam2 cfg2 frustum dataset cs2]
    performCulling_returns[of cam cfg frustum dataset]
  by (simp add: cell_bounds)

theorem C8_candidate_generation_witness:
  "level_candidates False (Frustum_update (getViewProjectionMatrix TerrainCamera_default))
     (Vec3 0 0 0) 1000 ''dem'' 0
     = Some [dem (- 1) (- 1) 0, dem 0 (- 1) 0, dem (- 1) 0 0, dem 0 0 0]
   \<and> min (farPlane TerrainCamera_default) (farDistance (config_level_0 700 False)) = 700
   \<and> min (farPlane TerrainCamera_default) (farDistance (config_level_0 1000 False)) = 1000
   \<and> performCulling_candidates (config_level_0 1000 False) TerrainCamera_default
        (Frustum_update (getViewProjectionMatrix TerrainCamera_default)) ''dem''
       = Some [dem (- 1) (- 1) 0, dem 0 (- 1) 0, dem (- 1) 0 0, dem 0 0 0]
   \<and> performCulling_candidates (config_level_0 700 False) TerrainCamera_default
        (Frustum_update (getViewProjectionMatrix TerrainCamera_default)) ''dem''
       = Some []
   \<and> subseq [] [dem (- 1) (- 1) 0, dem 0 (- 1) 0, dem (- 1) 0 0, dem 0 0 0]
   \<and> \<bar>vx (position TerrainCamera_default)\<bar>
        + \<bar>min (farPlane TerrainCamera_default) (farDistance TerrainRenderConfig_default)\<bar> = 2000
   \<and> \<bar>vz (position TerrainCamera_default)\<bar>
        + \<bar>min (farPlane TerrainCamera_default) (farDistance TerrainRenderConfig_default)\<bar> = 2000
   \<and> performCulling_candidates TerrainRenderConfig_default TerrainCamera_default
        (Frustum_update (getViewProjectionMatrix TerrainCamera_default)) ''dem'' \<noteq> None"
proof -
  let ?F = "Frustum_update (getViewProjectionMatrix TerrainCamera_default)"
  let ?four = "[dem (- 1) (- 1) 0, dem 0 (- 1) 0, dem (- 1) 0 0, dem 0 0 0]"
  have m: "min (farPlane TerrainCamera_default) (farDistance (config_level_0 700 False)) = 700"
    "min (farPlane TerrainCamera_default) (farDistance (config_level_0 1000 False)) = 1000"
    "\<bar>vx (position TerrainCamera_default)\<bar>
        + \<bar>min (farPlane TerrainCamera_default) (farDistance TerrainRenderConfig_default)\<bar> = 2000"
    "\<bar>vz (position TerrainCamera_default)\<bar>
        + \<bar>min (farPlane TerrainCamera_default) (farDistance TerrainRenderConfig_default)\<bar> = 2000"
    by (simp_all add: config_level_0_def TerrainCamera_default_def TerrainRenderConfig_default_def)
  have p2: "performCulling_candidates (config_level_0 1000 False) TerrainCamera_default ?F ''dem''
      = Some ?four"
    by (simp add: performCulling_candidates_def config_level_0_def TerrainCamera_default_def
        TerrainRenderConfig_default_def only_level_0 Let_def level_0_four cells_dem)
  have p1: "performCulling_candidates (config_level_0 700 False) TerrainCamera_default ?F ''dem''
      = Some []"
    by (simp add: performCulling_candidates_def config_level_0_def TerrainCamera_default_def
        TerrainRenderConfig_default_def only_level_0 Let_def level_0_none)
  have same: "position TerrainCamera_default = position TerrainCamera_default"
    "nearDistance (config_level_0 700 False) = nearDistance (config_level_0 1000 False)"
    "enableFrustumCulling (config_level_0 700 False)
       = enableFrustumCulling (config_level_0 1000 False)"
    by (simp_all add: config_level_0_def)
  show ?thesis
    using C8_candidate_generation[of False ?F "''dem''" TerrainCamera_default
        "config_level_0 700 False" TerrainCamera_default "config_level_0 1000 False" ?F
        "''dem''" ?four TerrainCamera_default TerrainRenderConfig_default]
      m p1 p2 same
    by (simp add: cells_dem)
qed

end
